theory Spec2Isabelle
  imports Main "HOL-Library.Word"
begin

unbundle bit_operations_syntax

section \<open>Bytes and errors\<close>

text \<open>
  A Go \<open>[]byte\<close> is a list of 8-bit words. A nil slice and an empty slice are both the
  empty list, except in the two \<open>Response\<close> fields whose being set is observable
  (\<open>RawResponderName\<close>, \<open>ResponderKeyHash\<close>), which are options.

  The error values: \<open>asn1.SyntaxError\<close> and \<open>asn1.StructuralError\<close> come from
  \<open>encoding/asn1\<close>, \<open>ParseError\<close> and \<open>ResponseError\<close> are the two error types
  of \<open>ocsp.go\<close>, and \<open>OtherError\<close> stands for \<open>errors.New\<close> values and for the
  errors of \<open>crypto/x509\<close>.
\<close>

type_synonym byte = "8 word"

datatype error =
    SyntaxError string
  | StructuralError string
  | ParseError string
  | ResponseError int
  | OtherError string

section \<open>The DER reader of \<open>encoding/asn1\<close>\<close>

text \<open>
  \<open>ocsp.go\<close> decodes with \<open>asn1.Unmarshal\<close> of the Go standard library. The functions of
  this section follow \<open>encoding/asn1/asn1.go\<close>. Go passes a slice and an offset into it;
  here a function receives the bytes from the offset on and returns the bytes that are left.
\<close>

record tagAndLength =
  "class" :: nat
  tag :: nat
  len :: nat
  isCompound :: bool

text \<open>\<open>parseBase128Int\<close>: at most five groups of seven bits, the first not \<open>0x80\<close>,
  and a value that fits an \<open>int32\<close>.\<close>

fun parseBase128Int_loop :: "nat \<Rightarrow> nat \<Rightarrow> byte list \<Rightarrow> error + (nat \<times> byte list)" where
  "parseBase128Int_loop shifted ret64 [] = Inl (SyntaxError ''truncated base 128 integer'')"
| "parseBase128Int_loop shifted ret64 (b # bs) =
     (if shifted = 5 then Inl (StructuralError ''base 128 integer too large'')
      else if shifted = 0 \<and> b = 0x80 then Inl (SyntaxError ''integer is not minimally encoded'')
      else let ret64' = ret64 * 128 + unat (b AND 0x7f) in
        if b AND 0x80 = 0 then
          (if ret64' > 2147483647 then Inl (StructuralError ''base 128 integer too large'')
           else Inr (ret64', bs))
        else parseBase128Int_loop (Suc shifted) ret64' bs)"

definition parseBase128Int :: "byte list \<Rightarrow> error + (nat \<times> byte list)" where
  "parseBase128Int bytes = parseBase128Int_loop 0 0 bytes"

text \<open>The long form of a length: \<open>numBytes\<close> bytes, most significant first. A value that
  has reached \<open>2^23\<close> cannot take another byte, and a leading zero byte is refused.\<close>

fun parseLength_loop :: "nat \<Rightarrow> nat \<Rightarrow> byte list \<Rightarrow> error + (nat \<times> byte list)" where
  "parseLength_loop 0 l bytes = Inr (l, bytes)"
| "parseLength_loop (Suc n) l [] = Inl (SyntaxError ''truncated tag or length'')"
| "parseLength_loop (Suc n) l (b # bs) =
     (if l \<ge> 2 ^ 23 then Inl (StructuralError ''length too large'')
      else let l' = l * 256 + unat b in
        if l' = 0 then Inl (StructuralError ''superfluous leading zeros in length'')
        else parseLength_loop n l' bs)"

definition parseTagAndLength :: "byte list \<Rightarrow> error + (tagAndLength \<times> byte list)" where
  "parseTagAndLength bytes =
     (case bytes of
        [] \<Rightarrow> Inl (OtherError ''asn1: internal error in parseTagAndLength'')
      | b # bs \<Rightarrow>
          (let cls = unat (drop_bit 6 b);
               cmp = (b AND 0x20 = 0x20);
               tg = unat (b AND 0x1f);
               r = (if tg = 0x1f then
                      (case parseBase128Int bs of
                         Inl e \<Rightarrow> Inl e
                       | Inr (t, bs') \<Rightarrow>
                           if t < 0x1f then Inl (SyntaxError ''non-minimal tag'') else Inr (t, bs'))
                    else Inr (tg, bs))
           in case r of
                Inl e \<Rightarrow> Inl e
              | Inr (t, []) \<Rightarrow> Inl (SyntaxError ''truncated tag or length'')
              | Inr (t, c # cs) \<Rightarrow>
                  if c AND 0x80 = 0 then
                    Inr (\<lparr>class = cls, tag = t, len = unat (c AND 0x7f), isCompound = cmp\<rparr>, cs)
                  else
                    (let numBytes = unat (c AND 0x7f) in
                     if numBytes = 0 then Inl (SyntaxError ''indefinite length found (not DER)'')
                     else case parseLength_loop numBytes 0 cs of
                            Inl e \<Rightarrow> Inl e
                          | Inr (l, cs') \<Rightarrow>
                              if l < 0x80 then Inl (StructuralError ''non-minimal length'')
                              else Inr (\<lparr>class = cls, tag = t, len = l, isCompound = cmp\<rparr>, cs'))))"

text \<open>Integers. \<open>checkInteger\<close> refuses the empty and the non-minimal encodings;
  \<open>parseInt64\<close> reads at most eight bytes into an \<open>int64\<close> and sign-extends by
  shifting up and down; \<open>parseInt32\<close> also refuses what does not fit an \<open>int32\<close>;
  \<open>parseBigInt\<close> reads a two's-complement value of any length (\<open>SetBytes\<close> is
  \<open>big.Int.SetBytes\<close>, the big-endian unsigned value).\<close>

definition checkInteger :: "byte list \<Rightarrow> error option" where
  "checkInteger bytes =
     (case bytes of
        [] \<Rightarrow> Some (StructuralError ''empty integer'')
      | [b] \<Rightarrow> None
      | b0 # b1 # bs \<Rightarrow>
          if (b0 = 0 \<and> b1 AND 0x80 = 0) \<or> (b0 = 0xff \<and> b1 AND 0x80 = 0x80)
          then Some (StructuralError ''integer not minimally-encoded'')
          else None)"

definition parseInt64 :: "byte list \<Rightarrow> error + int" where
  "parseInt64 bytes =
     (case checkInteger bytes of
        Some e \<Rightarrow> Inl e
      | None \<Rightarrow>
          if length bytes > 8 then Inl (StructuralError ''integer too large'')
          else let ret = foldl (\<lambda>r b. push_bit 8 r OR ucast b) (0 :: 64 word) bytes;
                   k = 64 - length bytes * 8
               in Inr (sint (signed_drop_bit k (push_bit k ret))))"

definition parseInt32 :: "byte list \<Rightarrow> error + int" where
  "parseInt32 bytes =
     (case checkInteger bytes of
        Some e \<Rightarrow> Inl e
      | None \<Rightarrow>
          (case parseInt64 bytes of
             Inl e \<Rightarrow> Inl e
           | Inr ret64 \<Rightarrow>
               if ret64 \<noteq> sint (word_of_int ret64 :: 32 word)
               then Inl (StructuralError ''integer too large'')
               else Inr ret64))"

definition SetBytes :: "byte list \<Rightarrow> nat" where
  "SetBytes bytes = foldl (\<lambda>r b. r * 256 + unat b) 0 bytes"

definition parseBigInt :: "byte list \<Rightarrow> error + int" where
  "parseBigInt bytes =
     (case checkInteger bytes of
        Some e \<Rightarrow> Inl e
      | None \<Rightarrow>
          if bytes \<noteq> [] \<and> hd bytes AND 0x80 = 0x80
          then Inr (- (int (SetBytes (map NOT bytes)) + 1))
          else Inr (int (SetBytes bytes)))"

definition parseBool :: "byte list \<Rightarrow> error + bool" where
  "parseBool bytes =
     (case bytes of
        [b] \<Rightarrow> if b = 0 then Inr False
               else if b = 0xff then Inr True
               else Inl (SyntaxError ''invalid boolean'')
      | _ \<Rightarrow> Inl (SyntaxError ''invalid boolean''))"

text \<open>Object identifiers, a Go \<open>[]int\<close>: every component that is read or written here
  is non-negative, so the components are naturals. The first base-128 value packs the
  first two components.\<close>

type_synonym ObjectIdentifier = "nat list"

lemma parseBase128Int_loop_shorter:
  "parseBase128Int_loop shifted ret64 bytes = Inr (v, rest) \<Longrightarrow> length rest < length bytes"
  by (induction shifted ret64 bytes rule: parseBase128Int_loop.induct)
     (auto simp: Let_def split: if_splits)

function parseObjectIdentifier_loop :: "byte list \<Rightarrow> error + nat list" where
  "parseObjectIdentifier_loop bytes =
     (if bytes = [] then Inr []
      else case parseBase128Int bytes of
             Inl e \<Rightarrow> Inl e
           | Inr (v, rest) \<Rightarrow>
               (case parseObjectIdentifier_loop rest of
                  Inl e \<Rightarrow> Inl e
                | Inr vs \<Rightarrow> Inr (v # vs)))"
  by pat_completeness auto
termination
  by (relation "measure length")
     (auto simp: parseBase128Int_def dest: parseBase128Int_loop_shorter)

declare parseObjectIdentifier_loop.simps [simp del]

definition parseObjectIdentifier :: "byte list \<Rightarrow> error + ObjectIdentifier" where
  "parseObjectIdentifier bytes =
     (if bytes = [] then Inl (SyntaxError ''zero length OBJECT IDENTIFIER'')
      else case parseBase128Int bytes of
             Inl e \<Rightarrow> Inl e
           | Inr (v, rest) \<Rightarrow>
               (case parseObjectIdentifier_loop rest of
                  Inl e \<Rightarrow> Inl e
                | Inr vs \<Rightarrow>
                    Inr ((if v < 80 then [v div 40, v mod 40] else [2, v - 80]) @ vs)))"

subsection \<open>Fields\<close>

text \<open>
  \<open>fieldParameters\<close> holds what the struct tags of \<open>ocsp.go\<close> use: \<open>optional\<close>,
  \<open>explicit\<close>, \<open>tag:n\<close> and \<open>default:n\<close>. \<open>goType\<close> lists the Go types that are
  decoded here, and \<open>getUniversalType\<close> gives for each whether any tag matches, the
  universal tag and whether the encoding is constructed (the tag of a \<open>RawValue\<close>, -1 in
  Go, is never compared).
\<close>

record fieldParameters =
  optional :: bool
  explicit :: bool
  fp_tag :: "nat option"
  defaultValue :: "int option"

definition noParams :: fieldParameters where
  "noParams = \<lparr>optional = False, explicit = False, fp_tag = None, defaultValue = None\<rparr>"

datatype goType =
    RawValueT | ObjectIdentifierT | EnumeratedT | BigIntT | BoolT | IntT | StructT
  | BytesT | SliceT

definition ClassUniversal :: nat where "ClassUniversal = 0"
definition ClassContextSpecific :: nat where "ClassContextSpecific = 2"

definition TagBoolean :: nat where "TagBoolean = 1"
definition TagInteger :: nat where "TagInteger = 2"
definition TagOctetString :: nat where "TagOctetString = 4"
definition TagNull :: nat where "TagNull = 5"
definition TagOID :: nat where "TagOID = 6"
definition TagEnum :: nat where "TagEnum = 10"
definition TagUTF8String :: nat where "TagUTF8String = 12"
definition TagSequence :: nat where "TagSequence = 16"
definition TagSet :: nat where "TagSet = 17"
definition TagNumericString :: nat where "TagNumericString = 18"
definition TagPrintableString :: nat where "TagPrintableString = 19"
definition TagT61String :: nat where "TagT61String = 20"
definition TagIA5String :: nat where "TagIA5String = 22"
definition TagUTCTime :: nat where "TagUTCTime = 23"
definition TagGeneralizedTime :: nat where "TagGeneralizedTime = 24"
definition TagGeneralString :: nat where "TagGeneralString = 27"
definition TagBMPString :: nat where "TagBMPString = 30"

fun getUniversalType :: "goType \<Rightarrow> bool \<times> nat \<times> bool" where
  "getUniversalType RawValueT = (True, 0, False)"
| "getUniversalType ObjectIdentifierT = (False, TagOID, False)"
| "getUniversalType EnumeratedT = (False, TagEnum, False)"
| "getUniversalType BigIntT = (False, TagInteger, False)"
| "getUniversalType BoolT = (False, TagBoolean, False)"
| "getUniversalType IntT = (False, TagInteger, False)"
| "getUniversalType StructT = (False, TagSequence, True)"
| "getUniversalType BytesT = (False, TagOctetString, False)"
| "getUniversalType SliceT = (False, TagSequence, True)"

text \<open>
  \<open>parseField\<close> up to its switch on the Go type. The result is \<open>Omitted\<close> when the
  element is absent and the field is optional (\<open>setDefaultValue\<close> succeeds and the
  offset stays where it was), and otherwise the element: its tag and length, its content
  bytes, its full bytes from the field's start, and the bytes left after it.

  An explicit tag is unwrapped by reading the next tag and length; the length of the
  wrapper itself is not compared with the element inside. No field decoded here is an
  \<open>asn1.Flag\<close>, a string or a time, so the branches of \<open>parseField\<close> for those
  types are left out.
\<close>

datatype fieldHeader =
    Omitted
  | Element tagAndLength "byte list" "byte list" "byte list"

definition setDefaultValue :: "fieldParameters \<Rightarrow> bool" where
  "setDefaultValue params = optional params"

definition matchElement ::
  "goType \<Rightarrow> fieldParameters \<Rightarrow> byte list \<Rightarrow> tagAndLength \<Rightarrow> byte list \<Rightarrow> error + fieldHeader" where
  "matchElement fieldType params bytes t rest =
     (case getUniversalType fieldType of (matchAny, universalTag, compoundType) \<Rightarrow>
        let implicit = (\<not> explicit params \<and> fp_tag params \<noteq> None);
            matchAnyClassAndTag = (matchAny \<and> \<not> implicit);
            expectedClass = (if implicit then ClassContextSpecific else ClassUniversal);
            expectedTag = (if implicit then the (fp_tag params) else universalTag)
        in if (\<not> matchAnyClassAndTag \<and> (class t \<noteq> expectedClass \<or> tag t \<noteq> expectedTag))
              \<or> (\<not> matchAny \<and> isCompound t \<noteq> compoundType)
           then (if setDefaultValue params then Inr Omitted
                 else Inl (StructuralError ''tags don't match''))
           else if len t > length rest then Inl (SyntaxError ''data truncated'')
           else Inr (Element t (take (len t) rest)
                       (take (length bytes - length rest + len t) bytes)
                       (drop (len t) rest)))"

definition parseFieldHeader :: "goType \<Rightarrow> fieldParameters \<Rightarrow> byte list \<Rightarrow> error + fieldHeader" where
  "parseFieldHeader fieldType params bytes =
     (if bytes = [] then
        (if setDefaultValue params then Inr Omitted else Inl (SyntaxError ''sequence truncated''))
      else case parseTagAndLength bytes of
             Inl e \<Rightarrow> Inl e
           | Inr (t, rest) \<Rightarrow>
               if explicit params then
                 (if rest = [] then Inl (StructuralError ''explicit tag has no child'')
                  else if class t = ClassContextSpecific \<and> Some (tag t) = fp_tag params
                          \<and> (len t = 0 \<or> isCompound t) then
                    (if fieldType = RawValueT then matchElement fieldType params bytes t rest
                     else if len t > 0 then
                       (case parseTagAndLength rest of
                          Inl e \<Rightarrow> Inl e
                        | Inr (t', rest') \<Rightarrow> matchElement fieldType params bytes t' rest')
                     else Inl (StructuralError ''zero length explicit tag was not an asn1.Flag''))
                  else if setDefaultValue params then Inr Omitted
                  else Inl (StructuralError ''explicitly tagged member didn't match''))
               else matchElement fieldType params bytes t rest)"

text \<open>A field of a given Go type: the header, then the content parser of the type on the
  content bytes. \<open>dflt\<close> is what the Go variable holds when the element is omitted (the
  \<open>default:\<close> of the tag, or the zero value). \<open>andThen\<close> is Go's
  \<open>if err != nil { return }\<close>.\<close>

definition andThen :: "error + 'a \<Rightarrow> ('a \<Rightarrow> error + 'b) \<Rightarrow> error + 'b" where
  "andThen r f = (case r of Inl e \<Rightarrow> Inl e | Inr x \<Rightarrow> f x)"

definition parseFieldWith ::
  "goType \<Rightarrow> fieldParameters \<Rightarrow> 'a \<Rightarrow> (tagAndLength \<Rightarrow> byte list \<Rightarrow> byte list \<Rightarrow> error + 'a)
     \<Rightarrow> byte list \<Rightarrow> error + ('a \<times> byte list)" where
  "parseFieldWith fieldType params dflt content bytes =
     (case parseFieldHeader fieldType params bytes of
        Inl e \<Rightarrow> Inl e
      | Inr Omitted \<Rightarrow> Inr (dflt, bytes)
      | Inr (Element t innerBytes fullBytes rest) \<Rightarrow>
          (case content t innerBytes fullBytes of
             Inl e \<Rightarrow> Inl e
           | Inr v \<Rightarrow> Inr (v, rest)))"

record RawValue =
  Class :: nat
  Tag :: nat
  IsCompound :: bool
  Bytes :: "byte list"
  FullBytes :: "byte list"

definition emptyRawValue :: RawValue where
  "emptyRawValue = \<lparr>Class = 0, Tag = 0, IsCompound = False, Bytes = [], FullBytes = []\<rparr>"

definition NullRawValue :: RawValue where
  "NullRawValue = \<lparr>Class = 0, Tag = TagNull, IsCompound = False, Bytes = [], FullBytes = []\<rparr>"

definition NullBytes :: "byte list" where
  "NullBytes = [5, 0]"

definition parseField_RawValue :: "fieldParameters \<Rightarrow> byte list \<Rightarrow> error + (RawValue \<times> byte list)" where
  "parseField_RawValue params =
     parseFieldWith RawValueT params emptyRawValue
       (\<lambda>t innerBytes fullBytes.
          Inr \<lparr>Class = class t, Tag = tag t, IsCompound = isCompound t,
               Bytes = innerBytes, FullBytes = fullBytes\<rparr>)"

definition parseField_ObjectIdentifier ::
  "fieldParameters \<Rightarrow> byte list \<Rightarrow> error + (ObjectIdentifier \<times> byte list)" where
  "parseField_ObjectIdentifier params =
     parseFieldWith ObjectIdentifierT params [] (\<lambda>t innerBytes fullBytes. parseObjectIdentifier innerBytes)"

definition parseField_Enumerated :: "fieldParameters \<Rightarrow> byte list \<Rightarrow> error + (int \<times> byte list)" where
  "parseField_Enumerated params =
     parseFieldWith EnumeratedT params 0 (\<lambda>t innerBytes fullBytes. parseInt32 innerBytes)"

definition parseField_bigInt :: "fieldParameters \<Rightarrow> byte list \<Rightarrow> error + (int \<times> byte list)" where
  "parseField_bigInt params =
     parseFieldWith BigIntT params 0 (\<lambda>t innerBytes fullBytes. parseBigInt innerBytes)"

definition parseField_bool :: "fieldParameters \<Rightarrow> byte list \<Rightarrow> error + (bool \<times> byte list)" where
  "parseField_bool params =
     parseFieldWith BoolT params False (\<lambda>t innerBytes fullBytes. parseBool innerBytes)"

text \<open>A Go \<open>int\<close> is 64 bits wide here, so an \<open>int\<close> field is read by \<open>parseInt64\<close>.\<close>

definition parseField_int :: "fieldParameters \<Rightarrow> byte list \<Rightarrow> error + (int \<times> byte list)" where
  "parseField_int params =
     parseFieldWith IntT params (case defaultValue params of Some d \<Rightarrow> d | None \<Rightarrow> 0)
       (\<lambda>t innerBytes fullBytes. parseInt64 innerBytes)"

definition parseField_bytes :: "fieldParameters \<Rightarrow> byte list \<Rightarrow> error + (byte list \<times> byte list)" where
  "parseField_bytes params =
     parseFieldWith BytesT params [] (\<lambda>t innerBytes fullBytes. Inr innerBytes)"

text \<open>A struct: its fields are read in order from the content bytes, and bytes left after
  the last field are allowed (\<open>encoding/asn1\<close>: elements have been added to the end of
  X.509 sequences as versions increased).\<close>

definition parseField_struct ::
  "fieldParameters \<Rightarrow> 'a \<Rightarrow> (byte list \<Rightarrow> error + 'a) \<Rightarrow> byte list \<Rightarrow> error + ('a \<times> byte list)" where
  "parseField_struct params zero body =
     parseFieldWith StructT params zero (\<lambda>t innerBytes fullBytes. body innerBytes)"

text \<open>
  \<open>parseSequenceOf\<close> makes two passes over the content bytes. The first counts the
  elements and checks the tag of each against the element type (after folding the string
  tags into PrintableString and both time tags into UTCTime); the second reads that many
  elements with \<open>parseField\<close> and no parameters.
\<close>

lemma parseLength_loop_shorter:
  "parseLength_loop n l bytes = Inr (v, rest) \<Longrightarrow> length rest \<le> length bytes"
  by (induction n l bytes rule: parseLength_loop.induct)
     (auto simp: Let_def split: if_splits)

lemma parseTagAndLength_shorter:
  "parseTagAndLength bytes = Inr (t, rest) \<Longrightarrow> length rest < length bytes"
  by (auto simp: parseTagAndLength_def parseBase128Int_def Let_def
           split: list.splits if_splits sum.splits prod.splits
           dest!: parseLength_loop_shorter parseBase128Int_loop_shorter)

definition foldTag :: "nat \<Rightarrow> nat" where
  "foldTag tg =
     (if tg \<in> {TagIA5String, TagGeneralString, TagT61String, TagUTF8String, TagNumericString,
                TagBMPString}
      then TagPrintableString
      else if tg \<in> {TagGeneralizedTime, TagUTCTime} then TagUTCTime
      else tg)"

function parseSequenceOf_count :: "goType \<Rightarrow> byte list \<Rightarrow> error + nat" where
  "parseSequenceOf_count elemType bytes =
     (if bytes = [] then Inr 0
      else case parseTagAndLength bytes of
             Inl e \<Rightarrow> Inl e
           | Inr (t, rest) \<Rightarrow>
               (case getUniversalType elemType of (matchAny, expectedTag, compoundType) \<Rightarrow>
                  if \<not> matchAny \<and> (class t \<noteq> ClassUniversal \<or> isCompound t \<noteq> compoundType
                                     \<or> foldTag (tag t) \<noteq> expectedTag)
                  then Inl (StructuralError ''sequence tag mismatch'')
                  else if len t > length rest then Inl (SyntaxError ''truncated sequence'')
                  else (case parseSequenceOf_count elemType (drop (len t) rest) of
                          Inl e \<Rightarrow> Inl e
                        | Inr n \<Rightarrow> Inr (Suc n))))"
  by pat_completeness auto
termination
  by (relation "measure (\<lambda>(elemType, bytes). length bytes)")
     (auto dest: parseTagAndLength_shorter)

declare parseSequenceOf_count.simps [simp del]

fun parseSequenceOf_elems ::
  "nat \<Rightarrow> (byte list \<Rightarrow> error + ('a \<times> byte list)) \<Rightarrow> byte list \<Rightarrow> error + 'a list" where
  "parseSequenceOf_elems 0 elem bytes = Inr []"
| "parseSequenceOf_elems (Suc n) elem bytes =
     (case elem bytes of
        Inl e \<Rightarrow> Inl e
      | Inr (x, rest) \<Rightarrow>
          (case parseSequenceOf_elems n elem rest of
             Inl e \<Rightarrow> Inl e
           | Inr xs \<Rightarrow> Inr (x # xs)))"

definition parseSequenceOf ::
  "goType \<Rightarrow> (byte list \<Rightarrow> error + ('a \<times> byte list)) \<Rightarrow> byte list \<Rightarrow> error + 'a list" where
  "parseSequenceOf elemType elem bytes =
     (case parseSequenceOf_count elemType bytes of
        Inl e \<Rightarrow> Inl e
      | Inr numElements \<Rightarrow> parseSequenceOf_elems numElements elem bytes)"

definition parseField_slice ::
  "fieldParameters \<Rightarrow> goType \<Rightarrow> (byte list \<Rightarrow> error + ('a \<times> byte list)) \<Rightarrow> byte list
     \<Rightarrow> error + ('a list \<times> byte list)" where
  "parseField_slice params elemType elem =
     parseFieldWith SliceT params [] (\<lambda>t innerBytes fullBytes. parseSequenceOf elemType elem innerBytes)"

subsection \<open>The structures of \<open>crypto/x509/pkix\<close> and of \<open>ocsp.go\<close>\<close>

text \<open>
  \<open>pkix.AlgorithmIdentifier\<close> (\<open>Parameters\<close> is \<open>asn1:"optional"\<close>),
  \<open>pkix.Extension\<close> (\<open>Critical\<close> is \<open>asn1:"optional"\<close>), and the request
  structures of lines 80-102. A \<open>*big.Int\<close> is an \<open>int\<close>: a decoded one is never
  nil, and \<open>Marshal\<close> below keeps the nil case of its own field apart. A
  \<open>pkix.RDNSequence\<close> is kept as the attribute types with the raw value bytes; its
  values are of Go's type \<open>any\<close>, whose parsing (strings, times) is taken as a parameter
  \<open>rdn\<close>, the content parser of the sequence.
\<close>

record AlgorithmIdentifier =
  Algorithm :: ObjectIdentifier
  Parameters :: RawValue

record Extension =
  Id :: ObjectIdentifier
  Critical :: bool
  Value :: "byte list"

type_synonym RDNSequence = "(ObjectIdentifier \<times> byte list) list list"

record certID =
  cid_HashAlgorithm :: AlgorithmIdentifier
  cid_NameHash :: "byte list"
  cid_IssuerKeyHash :: "byte list"
  cid_SerialNumber :: int

record request =
  Cert :: certID

record tbsRequest =
  Version :: int
  RequestorName :: RDNSequence
  RequestList :: "request list"
  RequestExtensions :: "Extension list"

record ocspRequest =
  TBSRequest :: tbsRequest

definition optionalParams :: fieldParameters where
  "optionalParams = \<lparr>optional = True, explicit = False, fp_tag = None, defaultValue = None\<rparr>"

definition explicitTag :: "nat \<Rightarrow> bool \<Rightarrow> int option \<Rightarrow> fieldParameters" where
  "explicitTag n opt d = \<lparr>optional = opt, explicit = True, fp_tag = Some n, defaultValue = d\<rparr>"

definition zeroAlgorithmIdentifier :: AlgorithmIdentifier where
  "zeroAlgorithmIdentifier = \<lparr>Algorithm = [], Parameters = emptyRawValue\<rparr>"

definition parseField_AlgorithmIdentifier ::
  "fieldParameters \<Rightarrow> byte list \<Rightarrow> error + (AlgorithmIdentifier \<times> byte list)" where
  "parseField_AlgorithmIdentifier params =
     parseField_struct params zeroAlgorithmIdentifier
       (\<lambda>inner.
          andThen (parseField_ObjectIdentifier noParams inner) (\<lambda>(alg, r1).
          andThen (parseField_RawValue optionalParams r1) (\<lambda>(ps, r2).
          Inr \<lparr>Algorithm = alg, Parameters = ps\<rparr>)))"

definition parseField_Extension ::
  "fieldParameters \<Rightarrow> byte list \<Rightarrow> error + (Extension \<times> byte list)" where
  "parseField_Extension params =
     parseField_struct params \<lparr>Id = [], Critical = False, Value = []\<rparr>
       (\<lambda>inner.
          andThen (parseField_ObjectIdentifier noParams inner) (\<lambda>(oid, r1).
          andThen (parseField_bool optionalParams r1) (\<lambda>(crit, r2).
          andThen (parseField_bytes noParams r2) (\<lambda>(v, r3).
          Inr \<lparr>Id = oid, Critical = crit, Value = v\<rparr>))))"

definition zeroCertID :: certID where
  "zeroCertID = \<lparr>cid_HashAlgorithm = zeroAlgorithmIdentifier, cid_NameHash = [],
                  cid_IssuerKeyHash = [], cid_SerialNumber = 0\<rparr>"

definition parseField_certID :: "fieldParameters \<Rightarrow> byte list \<Rightarrow> error + (certID \<times> byte list)" where
  "parseField_certID params =
     parseField_struct params zeroCertID
       (\<lambda>inner.
          andThen (parseField_AlgorithmIdentifier noParams inner) (\<lambda>(alg, r1).
          andThen (parseField_bytes noParams r1) (\<lambda>(nameHash, r2).
          andThen (parseField_bytes noParams r2) (\<lambda>(keyHash, r3).
          andThen (parseField_bigInt noParams r3) (\<lambda>(serial, r4).
          Inr \<lparr>cid_HashAlgorithm = alg, cid_NameHash = nameHash,
               cid_IssuerKeyHash = keyHash, cid_SerialNumber = serial\<rparr>)))))"

definition parseField_request :: "fieldParameters \<Rightarrow> byte list \<Rightarrow> error + (request \<times> byte list)" where
  "parseField_request params =
     parseField_struct params \<lparr>Cert = zeroCertID\<rparr>
       (\<lambda>inner.
          andThen (parseField_certID noParams inner) (\<lambda>(c, r1). Inr \<lparr>Cert = c\<rparr>))"

definition parseField_RDNSequence ::
  "(byte list \<Rightarrow> error + RDNSequence) \<Rightarrow> fieldParameters \<Rightarrow> byte list
     \<Rightarrow> error + (RDNSequence \<times> byte list)" where
  "parseField_RDNSequence rdn params =
     parseFieldWith SliceT params [] (\<lambda>t innerBytes fullBytes. rdn innerBytes)"

definition parseField_tbsRequest ::
  "(byte list \<Rightarrow> error + RDNSequence) \<Rightarrow> fieldParameters \<Rightarrow> byte list
     \<Rightarrow> error + (tbsRequest \<times> byte list)" where
  "parseField_tbsRequest rdn params =
     parseField_struct params
       \<lparr>Version = 0, RequestorName = [], RequestList = [], RequestExtensions = []\<rparr>
       (\<lambda>inner.
          andThen (parseField_int (explicitTag 0 True (Some 0)) inner) (\<lambda>(version, r1).
          andThen (parseField_RDNSequence rdn (explicitTag 1 True None) r1) (\<lambda>(name, r2).
          andThen (parseField_slice noParams StructT (parseField_request noParams) r2) (\<lambda>(reqs, r3).
          andThen (parseField_slice (explicitTag 2 True None) StructT
                     (parseField_Extension noParams) r3) (\<lambda>(exts, r4).
          Inr \<lparr>Version = version, RequestorName = name, RequestList = reqs,
               RequestExtensions = exts\<rparr>)))))"

text \<open>\<open>asn1.Unmarshal(der, &req)\<close> for an \<open>ocspRequest\<close>: \<open>parseField\<close> at offset 0
  with no parameters; the bytes after the value are returned as \<open>rest\<close>.\<close>

definition Unmarshal_ocspRequest ::
  "(byte list \<Rightarrow> error + RDNSequence) \<Rightarrow> byte list \<Rightarrow> error + (ocspRequest \<times> byte list)" where
  "Unmarshal_ocspRequest rdn =
     parseField_struct noParams
       \<lparr>TBSRequest = \<lparr>Version = 0, RequestorName = [], RequestList = [], RequestExtensions = []\<rparr>\<rparr>
       (\<lambda>inner.
          andThen (parseField_tbsRequest rdn noParams inner) (\<lambda>(tbs, r1). Inr \<lparr>TBSRequest = tbs\<rparr>))"

section \<open>The DER writer of \<open>encoding/asn1\<close>\<close>

text \<open>
  \<open>Request.Marshal\<close> encodes with \<open>asn1.Marshal\<close>. The functions of this section
  follow \<open>encoding/asn1/marshal.go\<close> for the types of an \<open>ocspRequest\<close>.
\<close>

function base128IntLength_loop :: "nat \<Rightarrow> nat" where
  "base128IntLength_loop i = (if i > 0 then Suc (base128IntLength_loop (drop_bit 7 i)) else 0)"
  by pat_completeness auto
termination
  by (relation "measure id") (auto simp: drop_bit_eq_div)

declare base128IntLength_loop.simps [simp del]

definition base128IntLength :: "nat \<Rightarrow> nat" where
  "base128IntLength n = (if n = 0 then 1 else base128IntLength_loop n)"

definition appendBase128Int :: "byte list \<Rightarrow> nat \<Rightarrow> byte list" where
  "appendBase128Int dst n =
     dst @ map (\<lambda>i. let o7 = (of_nat (drop_bit (i * 7) n) :: byte) AND 0x7f
                     in if i \<noteq> 0 then o7 OR 0x80 else o7)
               (rev [0..<base128IntLength n])"

function lengthLength :: "nat \<Rightarrow> nat" where
  "lengthLength i = (if i > 255 then Suc (lengthLength (drop_bit 8 i)) else 1)"
  by pat_completeness auto
termination
  by (relation "measure id") (auto simp: drop_bit_eq_div)

declare lengthLength.simps [simp del]

definition appendLength :: "byte list \<Rightarrow> nat \<Rightarrow> byte list" where
  "appendLength dst i =
     dst @ map (\<lambda>n. (of_nat (drop_bit ((n - 1) * 8) i) :: byte)) (rev [1..<Suc (lengthLength i)])"

definition appendTagAndLength :: "byte list \<Rightarrow> tagAndLength \<Rightarrow> byte list" where
  "appendTagAndLength dst t =
     (let b = push_bit 6 (of_nat (class t) :: byte);
          b = (if isCompound t then b OR 0x20 else b);
          dst = (if tag t \<ge> 31 then appendBase128Int (dst @ [b OR 0x1f]) (tag t)
                 else dst @ [b OR of_nat (tag t)])
      in if len t \<ge> 128 then
           appendLength (dst @ [0x80 OR of_nat (lengthLength (len t))]) (len t)
         else dst @ [of_nat (len t)])"

text \<open>A tagged encoder: the tag and length of the body, then the body.\<close>

definition taggedEncoder :: "nat \<Rightarrow> nat \<Rightarrow> bool \<Rightarrow> byte list \<Rightarrow> byte list" where
  "taggedEncoder cls tg compound body =
     appendTagAndLength [] \<lparr>class = cls, tag = tg, len = length body, isCompound = compound\<rparr> @ body"

text \<open>\<open>big.Int.Bytes\<close>: the big-endian bytes of the absolute value, none for zero.\<close>

function bigBytes :: "nat \<Rightarrow> byte list" where
  "bigBytes n = (if n = 0 then [] else bigBytes (n div 256) @ [of_nat n])"
  by pat_completeness auto
termination
  by (relation "measure id") auto

declare bigBytes.simps [simp del]

definition makeBigInt :: "int \<Rightarrow> byte list" where
  "makeBigInt n =
     (if n < 0 then
        (let nMinus1 = nat (- n - 1);
             bytes = map (\<lambda>b. b XOR 0xff) (bigBytes nMinus1)
         in if length bytes = 0 \<or> hd bytes AND 0x80 = 0 then 0xff # bytes else bytes)
      else if n = 0 then [0x00]
      else
        (let bytes = bigBytes (nat n)
         in if length bytes > 0 \<and> hd bytes AND 0x80 \<noteq> 0 then 0x00 # bytes else bytes))"

definition makeObjectIdentifier :: "ObjectIdentifier \<Rightarrow> error + byte list" where
  "makeObjectIdentifier oid =
     (if length oid < 2 \<or> oid ! 0 > 2 \<or> (oid ! 0 < 2 \<and> oid ! 1 \<ge> 40)
      then Inl (StructuralError ''invalid object identifier'')
      else Inr (foldl appendBase128Int (appendBase128Int [] (oid ! 0 * 40 + oid ! 1)) (drop 2 oid)))"

text \<open>A \<open>RawValue\<close> is written as its \<open>FullBytes\<close> when it has any, and otherwise from
  its class, tag and bytes. An optional field with no default is left out when it holds
  the zero value of its type; \<open>AlgorithmIdentifier.Parameters\<close> is such a field.\<close>

definition marshal_RawValue :: "RawValue \<Rightarrow> byte list" where
  "marshal_RawValue rv =
     (if length (FullBytes rv) \<noteq> 0 then FullBytes rv
      else appendTagAndLength []
             \<lparr>class = Class rv, tag = Tag rv, len = length (Bytes rv), isCompound = IsCompound rv\<rparr>
           @ Bytes rv)"

definition marshal_AlgorithmIdentifier :: "AlgorithmIdentifier \<Rightarrow> error + byte list" where
  "marshal_AlgorithmIdentifier ai =
     andThen (makeObjectIdentifier (Algorithm ai)) (\<lambda>oid.
     Inr (taggedEncoder ClassUniversal TagSequence True
            (taggedEncoder ClassUniversal TagOID False oid
             @ (if Parameters ai = emptyRawValue then [] else marshal_RawValue (Parameters ai)))))"

definition marshal_certID :: "certID \<Rightarrow> error + byte list" where
  "marshal_certID c =
     andThen (marshal_AlgorithmIdentifier (cid_HashAlgorithm c)) (\<lambda>alg.
     Inr (taggedEncoder ClassUniversal TagSequence True
            (alg
             @ taggedEncoder ClassUniversal TagOctetString False (cid_NameHash c)
             @ taggedEncoder ClassUniversal TagOctetString False (cid_IssuerKeyHash c)
             @ taggedEncoder ClassUniversal TagInteger False (makeBigInt (cid_SerialNumber c)))))"

definition marshal_request :: "request \<Rightarrow> error + byte list" where
  "marshal_request r =
     andThen (marshal_certID (Cert r)) (\<lambda>c. Inr (taggedEncoder ClassUniversal TagSequence True c))"

fun marshal_requests :: "request list \<Rightarrow> error + byte list" where
  "marshal_requests [] = Inr []"
| "marshal_requests (r # rs) =
     andThen (marshal_request r) (\<lambda>x. andThen (marshal_requests rs) (\<lambda>xs. Inr (x @ xs)))"

text \<open>
  The \<open>tbsRequest\<close> that \<open>Request.Marshal\<close> builds holds the default \<open>Version\<close> 0 and
  nil \<open>RequestorName\<close> and \<open>RequestExtensions\<close>. All three are optional fields holding
  their default or zero value, which \<open>makeField\<close> leaves out; only that case is encoded
  here, and any other \<open>tbsRequest\<close> is outside this model.
\<close>

definition marshal_tbsRequest :: "tbsRequest \<Rightarrow> error + byte list" where
  "marshal_tbsRequest t =
     (if Version t = 0 \<and> RequestorName t = [] \<and> RequestExtensions t = [] then
        andThen (marshal_requests (RequestList t)) (\<lambda>rs.
        Inr (taggedEncoder ClassUniversal TagSequence True
               (taggedEncoder ClassUniversal TagSequence True rs)))
      else Inl (OtherError ''tbsRequest with optional fields: not modelled''))"

definition Marshal_ocspRequest :: "ocspRequest \<Rightarrow> error + byte list" where
  "Marshal_ocspRequest r =
     andThen (marshal_tbsRequest (TBSRequest r)) (\<lambda>tbs.
     Inr (taggedEncoder ClassUniversal TagSequence True tbs))"

section \<open>Requests (\<open>ocsp.go\<close>)\<close>

text \<open>
  \<open>crypto.Hash\<close> is an unsigned integer; \<open>crypto.Hash(0)\<close> is no hash. \<open>hashOIDs\<close>
  (lines 171-176) is a Go map; its keys and its values are distinct, so the order in which
  the loops of \<open>getHashAlgorithmFromOID\<close> and \<open>getOIDFromHashAlgorithm\<close> (lines 352-368)
  visit it does not change what they return. \<open>getOIDFromHashAlgorithm\<close> returns nil for a
  hash that is not in the map: \<open>None\<close>.
\<close>

type_synonym Hash = nat

definition SHA1 :: Hash where "SHA1 = 3"
definition SHA256 :: Hash where "SHA256 = 5"
definition SHA384 :: Hash where "SHA384 = 6"
definition SHA512 :: Hash where "SHA512 = 7"

definition oidSHA1 :: ObjectIdentifier where "oidSHA1 = [1, 3, 14, 3, 2, 26]"
definition oidSHA256 :: ObjectIdentifier where "oidSHA256 = [2, 16, 840, 1, 101, 3, 4, 2, 1]"
definition oidSHA384 :: ObjectIdentifier where "oidSHA384 = [2, 16, 840, 1, 101, 3, 4, 2, 2]"
definition oidSHA512 :: ObjectIdentifier where "oidSHA512 = [2, 16, 840, 1, 101, 3, 4, 2, 3]"
definition oidMGF1 :: ObjectIdentifier where "oidMGF1 = [1, 2, 840, 113549, 1, 1, 8]"

definition hashOIDs :: "(Hash \<times> ObjectIdentifier) list" where
  "hashOIDs = [(SHA1, oidSHA1), (SHA256, oidSHA256), (SHA384, oidSHA384), (SHA512, oidSHA512)]"

definition getHashAlgorithmFromOID :: "ObjectIdentifier \<Rightarrow> Hash" where
  "getHashAlgorithmFromOID target =
     (case find (\<lambda>(hash, oid). oid = target) hashOIDs of
        Some (hash, oid) \<Rightarrow> hash
      | None \<Rightarrow> 0)"

definition getOIDFromHashAlgorithm :: "Hash \<Rightarrow> ObjectIdentifier option" where
  "getOIDFromHashAlgorithm target =
     (case find (\<lambda>(hash, oid). hash = target) hashOIDs of
        Some (hash, oid) \<Rightarrow> Some oid
      | None \<Rightarrow> None)"

text \<open>\<open>Request\<close> (lines 402-408). \<open>SerialNumber\<close> is a \<open>*big.Int\<close> that the caller
  of \<open>Marshal\<close> may leave nil: \<open>None\<close>.\<close>

record Request =
  HashAlgorithm :: Hash
  IssuerNameHash :: "byte list"
  IssuerKeyHash :: "byte list"
  SerialNumber :: "int option"
  Extensions :: "Extension list"

text \<open>\<open>Request.Marshal\<close> (lines 411-434). \<open>asn1.Marshal\<close> refuses a nil \<open>*big.Int\<close>
  with the structural error ``empty integer''. The \<open>Extensions\<close> of the request are not
  read.\<close>

definition Marshal :: "Request \<Rightarrow> error + byte list" where
  "Marshal req =
     (case getOIDFromHashAlgorithm (HashAlgorithm req) of
        None \<Rightarrow> Inl (OtherError ''unknown hash algorithm'')
      | Some hashAlg \<Rightarrow>
          (case SerialNumber req of
             None \<Rightarrow> Inl (StructuralError ''empty integer'')
           | Some serial \<Rightarrow>
               Marshal_ocspRequest
                 \<lparr>TBSRequest =
                    \<lparr>Version = 0,
                     RequestorName = [],
                     RequestList =
                       [\<lparr>Cert =
                          \<lparr>cid_HashAlgorithm =
                             \<lparr>Algorithm = hashAlg,
                              Parameters = \<lparr>Class = 0, Tag = 5, IsCompound = False,
                                            Bytes = [], FullBytes = []\<rparr>\<rparr>,
                           cid_NameHash = IssuerNameHash req,
                           cid_IssuerKeyHash = IssuerKeyHash req,
                           cid_SerialNumber = serial\<rparr>\<rparr>],
                     RequestExtensions = []\<rparr>\<rparr>))"

text \<open>\<open>ParseRequest\<close> (lines 526-553).\<close>

definition ParseRequest ::
  "(byte list \<Rightarrow> error + RDNSequence) \<Rightarrow> byte list \<Rightarrow> error + Request" where
  "ParseRequest rdn der =
     (case Unmarshal_ocspRequest rdn der of
        Inl err \<Rightarrow> Inl err
      | Inr (req, rest) \<Rightarrow>
          if length rest > 0 then Inl (ParseError ''trailing data in OCSP request'')
          else if length (RequestList (TBSRequest req)) = 0
          then Inl (ParseError ''OCSP request contains no request body'')
          else
            (let innerRequest = hd (RequestList (TBSRequest req));
                 hashFunc = getHashAlgorithmFromOID (Algorithm (cid_HashAlgorithm (Cert innerRequest)))
             in if hashFunc = 0 then Inl (ParseError ''OCSP request uses unknown hash function'')
                else Inr \<lparr>HashAlgorithm = hashFunc,
                          IssuerNameHash = cid_NameHash (Cert innerRequest),
                          IssuerKeyHash = cid_IssuerKeyHash (Cert innerRequest),
                          SerialNumber = Some (cid_SerialNumber (Cert innerRequest)),
                          Extensions = RequestExtensions (TBSRequest req)\<rparr>))"

subsection \<open>The octets of a marshalled request\<close>

text \<open>
  What \<open>appendTagAndLength\<close> writes after the identifier octet is named
  \<open>lengthOctets\<close>: the length itself below 128, and otherwise the count of the length
  bytes with the top bit set, then the length bytes. The request that \<open>Marshal\<close>
  builds has one shape: the algorithm identifier of the hash with NULL parameters, the two
  hashes and the serial number make the content of the \<open>certID\<close>, and the \<open>certID\<close>,
  the \<open>request\<close>, the request list, the \<open>tbsRequest\<close> and the \<open>ocspRequest\<close> are
  five nested sequences around it. \<open>Marshal_octets\<close> below proves that these are the
  bytes \<open>Marshal\<close> returns.
\<close>

definition lengthOctets :: "nat \<Rightarrow> byte list" where
  "lengthOctets n =
     (if n \<ge> 128 then appendLength [0x80 OR of_nat (lengthLength n)] n else [of_nat n])"

definition algorithmOctets :: "ObjectIdentifier \<Rightarrow> byte list" where
  "algorithmOctets oid =
     (if oid = oidSHA1 then [0x30, 0x09, 0x06, 0x05, 0x2b, 0x0e, 0x03, 0x02, 0x1a, 0x05, 0x00]
      else [0x30, 0x0d, 0x06, 0x09, 0x60, 0x86, 0x48, 0x01, 0x65, 0x03, 0x04, 0x02,
            (if oid = oidSHA256 then 0x01 else if oid = oidSHA384 then 0x02 else 0x03), 0x05, 0x00])"

definition certIDOctets :: "ObjectIdentifier \<Rightarrow> byte list \<Rightarrow> byte list \<Rightarrow> int \<Rightarrow> byte list" where
  "certIDOctets oid nameHash keyHash serial =
     algorithmOctets oid
     @ taggedEncoder ClassUniversal TagOctetString False nameHash
     @ taggedEncoder ClassUniversal TagOctetString False keyHash
     @ taggedEncoder ClassUniversal TagInteger False (makeBigInt serial)"

abbreviation sequenceOctets :: "byte list \<Rightarrow> byte list" where
  "sequenceOctets body \<equiv> taggedEncoder ClassUniversal TagSequence True body"

definition requestOctets :: "ObjectIdentifier \<Rightarrow> byte list \<Rightarrow> byte list \<Rightarrow> int \<Rightarrow> byte list" where
  "requestOctets oid nameHash keyHash serial =
     sequenceOctets (sequenceOctets (sequenceOctets (sequenceOctets (sequenceOctets
       (certIDOctets oid nameHash keyHash serial)))))"

section \<open>Signature algorithms (\<open>ocsp.go\<close>, lines 146-349)\<close>

datatype SignatureAlgorithm =
    UnknownSignatureAlgorithm
  | MD2WithRSA | MD5WithRSA | SHA1WithRSA | SHA256WithRSA | SHA384WithRSA | SHA512WithRSA
  | DSAWithSHA1 | DSAWithSHA256
  | ECDSAWithSHA1 | ECDSAWithSHA256 | ECDSAWithSHA384 | ECDSAWithSHA512
  | SHA256WithRSAPSS | SHA384WithRSAPSS | SHA512WithRSAPSS
  | PureEd25519

datatype PublicKeyAlgorithm = UnknownPublicKeyAlgorithm | RSA | DSA | ECDSA | Ed25519

definition MD5 :: Hash where "MD5 = 2"

definition oidSignatureMD2WithRSA :: ObjectIdentifier where
  "oidSignatureMD2WithRSA = [1, 2, 840, 113549, 1, 1, 2]"
definition oidSignatureMD5WithRSA :: ObjectIdentifier where
  "oidSignatureMD5WithRSA = [1, 2, 840, 113549, 1, 1, 4]"
definition oidSignatureSHA1WithRSA :: ObjectIdentifier where
  "oidSignatureSHA1WithRSA = [1, 2, 840, 113549, 1, 1, 5]"
definition oidSignatureSHA256WithRSA :: ObjectIdentifier where
  "oidSignatureSHA256WithRSA = [1, 2, 840, 113549, 1, 1, 11]"
definition oidSignatureSHA384WithRSA :: ObjectIdentifier where
  "oidSignatureSHA384WithRSA = [1, 2, 840, 113549, 1, 1, 12]"
definition oidSignatureSHA512WithRSA :: ObjectIdentifier where
  "oidSignatureSHA512WithRSA = [1, 2, 840, 113549, 1, 1, 13]"
definition oidSignatureRSAPSS :: ObjectIdentifier where
  "oidSignatureRSAPSS = [1, 2, 840, 113549, 1, 1, 10]"
definition oidSignatureDSAWithSHA1 :: ObjectIdentifier where
  "oidSignatureDSAWithSHA1 = [1, 2, 840, 10040, 4, 3]"
definition oidSignatureDSAWithSHA256 :: ObjectIdentifier where
  "oidSignatureDSAWithSHA256 = [2, 16, 840, 1, 101, 3, 4, 3, 2]"
definition oidSignatureECDSAWithSHA1 :: ObjectIdentifier where
  "oidSignatureECDSAWithSHA1 = [1, 2, 840, 10045, 4, 1]"
definition oidSignatureECDSAWithSHA256 :: ObjectIdentifier where
  "oidSignatureECDSAWithSHA256 = [1, 2, 840, 10045, 4, 3, 2]"
definition oidSignatureECDSAWithSHA384 :: ObjectIdentifier where
  "oidSignatureECDSAWithSHA384 = [1, 2, 840, 10045, 4, 3, 3]"
definition oidSignatureECDSAWithSHA512 :: ObjectIdentifier where
  "oidSignatureECDSAWithSHA512 = [1, 2, 840, 10045, 4, 3, 4]"

text \<open>The three PSS parameter templates (lines 213-217), as \<open>RawValue\<close>s that hold only
  \<open>FullBytes\<close>.\<close>

definition pssParametersSHA256 :: RawValue where
  "pssParametersSHA256 = emptyRawValue\<lparr>FullBytes :=
     [48, 52, 160, 15, 48, 13, 6, 9, 96, 134, 72, 1, 101, 3, 4, 2, 1, 5, 0, 161, 28, 48, 26, 6, 9,
      42, 134, 72, 134, 247, 13, 1, 1, 8, 48, 13, 6, 9, 96, 134, 72, 1, 101, 3, 4, 2, 1, 5, 0,
      162, 3, 2, 1, 32]\<rparr>"

definition pssParametersSHA384 :: RawValue where
  "pssParametersSHA384 = emptyRawValue\<lparr>FullBytes :=
     [48, 52, 160, 15, 48, 13, 6, 9, 96, 134, 72, 1, 101, 3, 4, 2, 2, 5, 0, 161, 28, 48, 26, 6, 9,
      42, 134, 72, 134, 247, 13, 1, 1, 8, 48, 13, 6, 9, 96, 134, 72, 1, 101, 3, 4, 2, 2, 5, 0,
      162, 3, 2, 1, 48]\<rparr>"

definition pssParametersSHA512 :: RawValue where
  "pssParametersSHA512 = emptyRawValue\<lparr>FullBytes :=
     [48, 52, 160, 15, 48, 13, 6, 9, 96, 134, 72, 1, 101, 3, 4, 2, 3, 5, 0, 161, 28, 48, 26, 6, 9,
      42, 134, 72, 134, 247, 13, 1, 1, 8, 48, 13, 6, 9, 96, 134, 72, 1, 101, 3, 4, 2, 3, 5, 0,
      162, 3, 2, 1, 64]\<rparr>"

record signatureAlgorithmDetail =
  d_algo :: SignatureAlgorithm
  d_oid :: ObjectIdentifier
  d_params :: RawValue
  d_pubKeyAlgo :: PublicKeyAlgorithm
  d_hash :: Hash
  d_isRSAPSS :: bool

definition detail ::
  "SignatureAlgorithm \<Rightarrow> ObjectIdentifier \<Rightarrow> RawValue \<Rightarrow> PublicKeyAlgorithm \<Rightarrow> Hash \<Rightarrow> bool
     \<Rightarrow> signatureAlgorithmDetail" where
  "detail a oid ps pk h pss =
     \<lparr>d_algo = a, d_oid = oid, d_params = ps, d_pubKeyAlgo = pk, d_hash = h, d_isRSAPSS = pss\<rparr>"

definition signatureAlgorithmDetails :: "signatureAlgorithmDetail list" where
  "signatureAlgorithmDetails =
     [detail MD2WithRSA oidSignatureMD2WithRSA NullRawValue RSA 0 False,
      detail MD5WithRSA oidSignatureMD5WithRSA NullRawValue RSA MD5 False,
      detail SHA1WithRSA oidSignatureSHA1WithRSA NullRawValue RSA SHA1 False,
      detail SHA256WithRSA oidSignatureSHA256WithRSA NullRawValue RSA SHA256 False,
      detail SHA384WithRSA oidSignatureSHA384WithRSA NullRawValue RSA SHA384 False,
      detail SHA512WithRSA oidSignatureSHA512WithRSA NullRawValue RSA SHA512 False,
      detail SHA256WithRSAPSS oidSignatureRSAPSS pssParametersSHA256 RSA SHA256 True,
      detail SHA384WithRSAPSS oidSignatureRSAPSS pssParametersSHA384 RSA SHA384 True,
      detail SHA512WithRSAPSS oidSignatureRSAPSS pssParametersSHA512 RSA SHA512 True,
      detail DSAWithSHA1 oidSignatureDSAWithSHA1 emptyRawValue DSA SHA1 False,
      detail DSAWithSHA256 oidSignatureDSAWithSHA256 emptyRawValue DSA SHA256 False,
      detail ECDSAWithSHA1 oidSignatureECDSAWithSHA1 emptyRawValue ECDSA SHA1 False,
      detail ECDSAWithSHA256 oidSignatureECDSAWithSHA256 emptyRawValue ECDSA SHA256 False,
      detail ECDSAWithSHA384 oidSignatureECDSAWithSHA384 emptyRawValue ECDSA SHA384 False,
      detail ECDSAWithSHA512 oidSignatureECDSAWithSHA512 emptyRawValue ECDSA SHA512 False]"

text \<open>\<open>pssParameters\<close> (lines 221-229): three explicitly tagged fields that are not
  optional, and the optional trailer field with default 1.\<close>

record pssParameters =
  pss_Hash :: AlgorithmIdentifier
  pss_MGF :: AlgorithmIdentifier
  pss_SaltLength :: int
  pss_TrailerField :: int

definition Unmarshal_pssParameters :: "byte list \<Rightarrow> error + (pssParameters \<times> byte list)" where
  "Unmarshal_pssParameters =
     parseField_struct noParams
       \<lparr>pss_Hash = zeroAlgorithmIdentifier, pss_MGF = zeroAlgorithmIdentifier,
        pss_SaltLength = 0, pss_TrailerField = 0\<rparr>
       (\<lambda>inner.
          andThen (parseField_AlgorithmIdentifier (explicitTag 0 False None) inner) (\<lambda>(h, r1).
          andThen (parseField_AlgorithmIdentifier (explicitTag 1 False None) r1) (\<lambda>(mgf, r2).
          andThen (parseField_int (explicitTag 2 False None) r2) (\<lambda>(salt, r3).
          andThen (parseField_int (explicitTag 3 True (Some 1)) r3) (\<lambda>(trailer, r4).
          Inr \<lparr>pss_Hash = h, pss_MGF = mgf, pss_SaltLength = salt,
               pss_TrailerField = trailer\<rparr>)))))"

definition Unmarshal_AlgorithmIdentifier ::
  "byte list \<Rightarrow> error + (AlgorithmIdentifier \<times> byte list)" where
  "Unmarshal_AlgorithmIdentifier = parseField_AlgorithmIdentifier noParams"

text \<open>\<open>getSignatureAlgorithmFromAI\<close> (lines 304-349).\<close>

definition getSignatureAlgorithmFromAI :: "AlgorithmIdentifier \<Rightarrow> SignatureAlgorithm" where
  "getSignatureAlgorithmFromAI ai =
     (if Algorithm ai \<noteq> oidSignatureRSAPSS then
        (case find (\<lambda>details. Algorithm ai = d_oid details) signatureAlgorithmDetails of
           Some details \<Rightarrow> d_algo details
         | None \<Rightarrow> UnknownSignatureAlgorithm)
      else
        (case Unmarshal_pssParameters (FullBytes (Parameters ai)) of
           Inl err \<Rightarrow> UnknownSignatureAlgorithm
         | Inr (params, rest) \<Rightarrow>
             (case Unmarshal_AlgorithmIdentifier (FullBytes (Parameters (pss_MGF params))) of
                Inl err \<Rightarrow> UnknownSignatureAlgorithm
              | Inr (mgf1HashFunc, rest') \<Rightarrow>
                  if (length (FullBytes (Parameters (pss_Hash params))) \<noteq> 0
                        \<and> FullBytes (Parameters (pss_Hash params)) \<noteq> NullBytes)
                     \<or> Algorithm (pss_MGF params) \<noteq> oidMGF1
                     \<or> Algorithm mgf1HashFunc \<noteq> Algorithm (pss_Hash params)
                     \<or> (length (FullBytes (Parameters mgf1HashFunc)) \<noteq> 0
                          \<and> FullBytes (Parameters mgf1HashFunc) \<noteq> NullBytes)
                     \<or> pss_TrailerField params \<noteq> 1
                  then UnknownSignatureAlgorithm
                  else if Algorithm (pss_Hash params) = oidSHA256 \<and> pss_SaltLength params = 32
                  then SHA256WithRSAPSS
                  else if Algorithm (pss_Hash params) = oidSHA384 \<and> pss_SaltLength params = 48
                  then SHA384WithRSAPSS
                  else if Algorithm (pss_Hash params) = oidSHA512 \<and> pss_SaltLength params = 64
                  then SHA512WithRSAPSS
                  else UnknownSignatureAlgorithm)))"

section \<open>Responses (\<open>ocsp.go\<close>)\<close>

text \<open>\<open>ResponseStatus\<close> (lines 34-45) is an integer, and so are the certificate
  statuses of lines 373-384.\<close>

definition Success :: int where "Success = 0"
definition Malformed :: int where "Malformed = 1"
definition InternalError :: int where "InternalError = 2"
definition TryLater :: int where "TryLater = 3"
definition SignatureRequired :: int where "SignatureRequired = 5"
definition Unauthorized :: int where "Unauthorized = 6"

definition Good :: int where "Good = 0"
definition Revoked :: int where "Revoked = 1"
definition Unknown :: int where "Unknown = 2"
definition ServerFailed :: int where "ServerFailed = 3"

definition idPKIXOCSPBasic :: ObjectIdentifier where
  "idPKIXOCSPBasic = [1, 3, 6, 1, 5, 5, 7, 48, 1, 1]"

text \<open>The pre-serialized error responses (lines 499-505).\<close>

definition MalformedRequestErrorResponse :: "byte list" where
  "MalformedRequestErrorResponse = [0x30, 0x03, 0x0A, 0x01, 0x01]"
definition InternalErrorErrorResponse :: "byte list" where
  "InternalErrorErrorResponse = [0x30, 0x03, 0x0A, 0x01, 0x02]"
definition TryLaterErrorResponse :: "byte list" where
  "TryLaterErrorResponse = [0x30, 0x03, 0x0A, 0x01, 0x03]"
definition SigRequredErrorResponse :: "byte list" where
  "SigRequredErrorResponse = [0x30, 0x03, 0x0A, 0x01, 0x05]"
definition UnauthorizedErrorResponse :: "byte list" where
  "UnauthorizedErrorResponse = [0x30, 0x03, 0x0A, 0x01, 0x06]"

text \<open>The envelope (lines 105-113), decoded by \<open>asn1.Unmarshal\<close>.\<close>

record responseBytes =
  rb_ResponseType :: ObjectIdentifier
  rb_Response :: "byte list"

record responseASN1 =
  ra_Status :: int
  ra_Response :: responseBytes

definition parseField_responseBytes ::
  "fieldParameters \<Rightarrow> byte list \<Rightarrow> error + (responseBytes \<times> byte list)" where
  "parseField_responseBytes params =
     parseField_struct params \<lparr>rb_ResponseType = [], rb_Response = []\<rparr>
       (\<lambda>inner.
          andThen (parseField_ObjectIdentifier noParams inner) (\<lambda>(ty, r1).
          andThen (parseField_bytes noParams r1) (\<lambda>(body, r2).
          Inr \<lparr>rb_ResponseType = ty, rb_Response = body\<rparr>)))"

definition Unmarshal_responseASN1 :: "byte list \<Rightarrow> error + (responseASN1 \<times> byte list)" where
  "Unmarshal_responseASN1 =
     parseField_struct noParams
       \<lparr>ra_Status = 0, ra_Response = \<lparr>rb_ResponseType = [], rb_Response = []\<rparr>\<rparr>
       (\<lambda>inner.
          andThen (parseField_Enumerated noParams inner) (\<lambda>(st, r1).
          andThen (parseField_responseBytes (explicitTag 0 True None) r1) (\<lambda>(rb, r2).
          Inr \<lparr>ra_Status = st, ra_Response = rb\<rparr>)))"

text \<open>
  The basic response (lines 115-144). A \<open>time.Time\<close> is an instant, with 0 for the zero
  \<open>Time\<close>. The \<open>asn1.Flag\<close>s \<open>Good\<close> and \<open>Unknown\<close> are booleans.
\<close>

type_synonym Time = int

record revokedInfo =
  RevocationTime :: Time
  Reason :: int

record singleResponse =
  sr_CertID :: certID
  sr_Good :: bool
  sr_Revoked :: revokedInfo
  sr_Unknown :: bool
  sr_ThisUpdate :: Time
  sr_NextUpdate :: Time
  SingleExtensions :: "Extension list"

record responseData =
  rd_Raw :: "byte list"
  rd_Version :: int
  RawResponderID :: RawValue
  rd_ProducedAt :: Time
  Responses :: "singleResponse list"
  rd_ResponseExtensions :: "Extension list"

record BitString =
  bs_Bytes :: "byte list"
  BitLength :: nat

record basicResponse =
  br_TBSResponseData :: responseData
  br_SignatureAlgorithm :: AlgorithmIdentifier
  br_Signature :: BitString
  Certificates :: "RawValue list"

text \<open>\<open>BitString.RightAlign\<close> of \<open>encoding/asn1\<close>.\<close>

definition RightAlign :: "BitString \<Rightarrow> byte list" where
  "RightAlign b =
     (let shift = 8 - BitLength b mod 8 in
      if shift = 8 \<or> length (bs_Bytes b) = 0 then bs_Bytes b
      else map (\<lambda>i. if i = 0 then drop_bit shift (bs_Bytes b ! 0)
                     else push_bit (8 - shift) (bs_Bytes b ! (i - 1)) OR drop_bit shift (bs_Bytes b ! i))
               [0..<length (bs_Bytes b)])"

text \<open>An \<open>x509.Certificate\<close>, with the fields that \<open>ocsp.go\<close> reads; the public key
  stays opaque.\<close>

record Certificate =
  cert_Raw :: "byte list"
  cert_RawTBSCertificate :: "byte list"
  cert_Signature :: "byte list"
  cert_SignatureAlgorithm :: SignatureAlgorithm
  cert_SerialNumber :: int
  cert_PublicKey :: "byte list"

text \<open>\<open>Response\<close> (lines 438-493). \<open>RawResponderName\<close> and \<open>ResponderKeyHash\<close> are
  \<open>None\<close> when nil, \<open>Certificate\<close> is \<open>None\<close> when nil.\<close>

record Response =
  Raw :: "byte list"
  Status :: int
  resp_SerialNumber :: int
  ProducedAt :: Time
  ThisUpdate :: Time
  NextUpdate :: Time
  RevokedAt :: Time
  RevocationReason :: int
  Certificate :: "Certificate option"
  TBSResponseData :: "byte list"
  Signature :: "byte list"
  SignatureAlgorithm :: SignatureAlgorithm
  IssuerHash :: Hash
  RawResponderName :: "byte list option"
  ResponderKeyHash :: "byte list option"
  resp_Extensions :: "Extension list"
  ExtraExtensions :: "Extension list"
  ResponseExtensions :: "Extension list"
  ResponseExtraExtensions :: "Extension list"

text \<open>
  What \<open>ParseResponseForCert\<close> takes from outside \<open>ocsp.go\<close> and this model leaves
  open: \<open>asn1.Unmarshal\<close> into a \<open>basicResponse\<close> (its times and flags are not decoded
  here), the content parser of a \<open>pkix.RDNSequence\<close>, \<open>x509.ParseCertificate\<close>, and
  \<open>Certificate.CheckSignature\<close>, which gives the message of its error, if any.
\<close>

record collaborators =
  Unmarshal_basicResponse :: "byte list \<Rightarrow> error + (basicResponse \<times> byte list)"
  parseRDNSequence :: "byte list \<Rightarrow> error + RDNSequence"
  ParseCertificate :: "byte list \<Rightarrow> error + Certificate"
  CheckSignature :: "Certificate \<Rightarrow> SignatureAlgorithm \<Rightarrow> byte list \<Rightarrow> byte list \<Rightarrow> string option"

text \<open>\<open>Response.CheckSignatureFrom\<close> (lines 512-514).\<close>

definition CheckSignatureFrom :: "collaborators \<Rightarrow> Response \<Rightarrow> Certificate \<Rightarrow> string option" where
  "CheckSignatureFrom env resp issuer =
     CheckSignature env issuer (SignatureAlgorithm resp) (TBSResponseData resp) (Signature resp)"

text \<open>Lines 606-625: the choice of the single response.\<close>

definition selectSingleResponse ::
  "singleResponse list \<Rightarrow> Certificate option \<Rightarrow> error + singleResponse" where
  "selectSingleResponse responses cert =
     (let n = length responses in
      if n = 0 \<or> (cert = None \<and> n > 1)
      then Inl (ParseError ''OCSP response contains bad number of responses'')
      else case cert of
             None \<Rightarrow> Inr (hd responses)
           | Some c \<Rightarrow>
               (case find (\<lambda>resp. cert_SerialNumber c = cid_SerialNumber (sr_CertID resp)) responses of
                  Some resp \<Rightarrow> Inr resp
                | None \<Rightarrow> Inl (ParseError ''no response matching the supplied certificate'')))"

text \<open>Lines 643-657: the ResponderID CHOICE, by the tag of the raw value.\<close>

definition responderID :: "collaborators \<Rightarrow> RawValue \<Rightarrow> Response \<Rightarrow> error + Response" where
  "responderID env rawResponderID ret =
     (if Tag rawResponderID = 1 then
        (case parseField_RDNSequence (parseRDNSequence env) noParams (Bytes rawResponderID) of
           Inl err \<Rightarrow> Inl (ParseError ''invalid responder name'')
         | Inr (rdn, rest) \<Rightarrow>
             if length rest \<noteq> 0 then Inl (ParseError ''invalid responder name'')
             else Inr (ret\<lparr>RawResponderName := Some (Bytes rawResponderID)\<rparr>))
      else if Tag rawResponderID = 2 then
        (case parseField_bytes noParams (Bytes rawResponderID) of
           Inl err \<Rightarrow> Inl (ParseError ''invalid responder key hash'')
         | Inr (keyHash, rest) \<Rightarrow>
             if length rest \<noteq> 0 then Inl (ParseError ''invalid responder key hash'')
             else Inr (ret\<lparr>ResponderKeyHash := Some keyHash\<rparr>))
      else Inl (ParseError ''invalid responder id tag''))"

text \<open>Lines 659-685: the embedded certificate and the signatures.\<close>

definition verifySignatures ::
  "collaborators \<Rightarrow> RawValue list \<Rightarrow> Certificate option \<Rightarrow> Response \<Rightarrow> error + Response" where
  "verifySignatures env certificates issuer ret =
     (if length certificates > 0 then
        (case ParseCertificate env (FullBytes (hd certificates)) of
           Inl err \<Rightarrow> Inl err
         | Inr c \<Rightarrow>
             (let ret = ret\<lparr>Certificate := Some c\<rparr> in
              case CheckSignatureFrom env ret c of
                Some msg \<Rightarrow> Inl (ParseError (''bad signature on embedded certificate: '' @ msg))
              | None \<Rightarrow>
                  (case issuer of
                     None \<Rightarrow> Inr ret
                   | Some i \<Rightarrow>
                       (case CheckSignature env i (cert_SignatureAlgorithm c)
                               (cert_RawTBSCertificate c) (cert_Signature c) of
                          Some msg \<Rightarrow> Inl (ParseError (''bad OCSP signature: '' @ msg))
                        | None \<Rightarrow> Inr ret))))
      else case issuer of
             None \<Rightarrow> Inr ret
           | Some i \<Rightarrow>
               (case CheckSignatureFrom env ret i of
                  Some msg \<Rightarrow> Inl (ParseError (''bad OCSP signature: '' @ msg))
                | None \<Rightarrow> Inr ret))"

text \<open>Lines 703-712: the status.\<close>

definition classify :: "singleResponse \<Rightarrow> Response \<Rightarrow> Response" where
  "classify singleResp ret =
     (if sr_Good singleResp then ret\<lparr>Status := Good\<rparr>
      else if sr_Unknown singleResp then ret\<lparr>Status := Unknown\<rparr>
      else ret\<lparr>Status := Revoked,
               RevokedAt := RevocationTime (sr_Revoked singleResp),
               RevocationReason := Reason (sr_Revoked singleResp)\<rparr>)"

text \<open>Lines 627-638: the composite literal that starts \<open>ret\<close>. The fields it does
  not name hold their zero values.\<close>

definition initialResponse :: "byte list \<Rightarrow> basicResponse \<Rightarrow> singleResponse \<Rightarrow> Response" where
  "initialResponse der basicResp singleResp =
     \<lparr>Raw = der,
      Status = 0,
      resp_SerialNumber = cid_SerialNumber (sr_CertID singleResp),
      ProducedAt = rd_ProducedAt (br_TBSResponseData basicResp),
      ThisUpdate = sr_ThisUpdate singleResp,
      NextUpdate = sr_NextUpdate singleResp,
      RevokedAt = 0,
      RevocationReason = 0,
      Certificate = None,
      TBSResponseData = rd_Raw (br_TBSResponseData basicResp),
      Signature = RightAlign (br_Signature basicResp),
      SignatureAlgorithm = getSignatureAlgorithmFromAI (br_SignatureAlgorithm basicResp),
      IssuerHash = 0,
      RawResponderName = None,
      ResponderKeyHash = None,
      resp_Extensions = SingleExtensions singleResp,
      ExtraExtensions = [],
      ResponseExtensions = rd_ResponseExtensions (br_TBSResponseData basicResp),
      ResponseExtraExtensions = []\<rparr>"

text \<open>Lines 627-715: the response built from the chosen single response.\<close>

definition buildResponse ::
  "collaborators \<Rightarrow> byte list \<Rightarrow> basicResponse \<Rightarrow> singleResponse \<Rightarrow> Certificate option
     \<Rightarrow> error + Response" where
  "buildResponse env der basicResp singleResp issuer =
     andThen (responderID env (RawResponderID (br_TBSResponseData basicResp))
                (initialResponse der basicResp singleResp))
       (\<lambda>ret.
     andThen (verifySignatures env (Certificates basicResp) issuer ret)
       (\<lambda>ret.
     if list_ex Critical (SingleExtensions singleResp)
     then Inl (ParseError ''unsupported critical extension'')
     else
       (let ret = ret\<lparr>IssuerHash :=
              (case find (\<lambda>(h, oid). Algorithm (cid_HashAlgorithm (sr_CertID singleResp)) = oid)
                      hashOIDs of
                 Some (h, oid) \<Rightarrow> h
               | None \<Rightarrow> IssuerHash ret)\<rparr>
        in if IssuerHash ret = 0
           then Inl (ParseError ''unsupported issuer hash algorithm'')
           else Inr (classify singleResp ret))))"

text \<open>\<open>ParseResponseForCert\<close> (lines 579-715) and \<open>ParseResponse\<close> (lines 570-572).\<close>

definition ParseResponseForCert ::
  "collaborators \<Rightarrow> byte list \<Rightarrow> Certificate option \<Rightarrow> Certificate option \<Rightarrow> error + Response" where
  "ParseResponseForCert env der cert issuer =
     (case Unmarshal_responseASN1 der of
        Inl err \<Rightarrow> Inl err
      | Inr (resp, rest) \<Rightarrow>
          if length rest > 0 then Inl (ParseError ''trailing data in OCSP response'')
          else if ra_Status resp \<noteq> Success then Inl (ResponseError (ra_Status resp))
          else if rb_ResponseType (ra_Response resp) \<noteq> idPKIXOCSPBasic
          then Inl (ParseError ''bad OCSP response type'')
          else
            (case Unmarshal_basicResponse env (rb_Response (ra_Response resp)) of
               Inl err \<Rightarrow> Inl err
             | Inr (basicResp, rest) \<Rightarrow>
                 if length rest > 0 then Inl (ParseError ''trailing data in OCSP response'')
                 else
                   andThen (selectSingleResponse (Responses (br_TBSResponseData basicResp)) cert)
                     (\<lambda>singleResp. buildResponse env der basicResp singleResp issuer)))"

definition ParseResponse :: "collaborators \<Rightarrow> byte list \<Rightarrow> Certificate option \<Rightarrow> error + Response" where
  "ParseResponse env der issuer = ParseResponseForCert env der None issuer"

text \<open>The path condition of lines 579-604: \<open>der\<close> is an envelope with no trailing data,
  status success and the basic response type, whose body decodes to \<open>basicResp\<close> with no
  trailing data.\<close>

definition decodesTo :: "collaborators \<Rightarrow> byte list \<Rightarrow> basicResponse \<Rightarrow> bool" where
  "decodesTo env der basicResp =
     (case Unmarshal_responseASN1 der of
        Inl err \<Rightarrow> False
      | Inr (resp, rest) \<Rightarrow>
          rest = [] \<and> ra_Status resp = Success
          \<and> rb_ResponseType (ra_Response resp) = idPKIXOCSPBasic
          \<and> Unmarshal_basicResponse env (rb_Response (ra_Response resp)) = Inr (basicResp, []))"

text \<open>
  The narrowed PSS profile in the words of the specification: the mask generation function
  is MGF1, the hash inside MGF1 is the outer hash, both hash parameter fields are absent
  or NULL, and the trailer field is 1. \<open>pssProfile ai hashOID digestLength\<close> says that
  the parameters of \<open>ai\<close> decode, satisfy the profile, name the hash \<open>hashOID\<close> and
  have the salt length \<open>digestLength\<close>.
\<close>

definition absentOrNull :: "RawValue \<Rightarrow> bool" where
  "absentOrNull rv = (FullBytes rv = [] \<or> FullBytes rv = NullBytes)"

definition narrowedProfile :: "pssParameters \<Rightarrow> AlgorithmIdentifier \<Rightarrow> bool" where
  "narrowedProfile params mgf1HashFunc =
     (Algorithm (pss_MGF params) = oidMGF1
      \<and> Algorithm mgf1HashFunc = Algorithm (pss_Hash params)
      \<and> absentOrNull (Parameters (pss_Hash params))
      \<and> absentOrNull (Parameters mgf1HashFunc)
      \<and> pss_TrailerField params = 1)"

definition pssProfile :: "AlgorithmIdentifier \<Rightarrow> ObjectIdentifier \<Rightarrow> int \<Rightarrow> bool" where
  "pssProfile ai hashOID digestLength =
     (case Unmarshal_pssParameters (FullBytes (Parameters ai)) of
        Inl err \<Rightarrow> False
      | Inr (params, rest) \<Rightarrow>
          (case Unmarshal_AlgorithmIdentifier (FullBytes (Parameters (pss_MGF params))) of
             Inl err \<Rightarrow> False
           | Inr (mgf1HashFunc, rest') \<Rightarrow>
               narrowedProfile params mgf1HashFunc
               \<and> Algorithm (pss_Hash params) = hashOID
               \<and> pss_SaltLength params = digestLength))"

section \<open>Example inputs\<close>

text \<open>
  Concrete inputs for the closed instances below. \<open>exampleDER n\<close> is a success envelope
  of the basic response type whose body is the single byte \<open>n\<close>. \<open>exampleEnv\<close>
  decodes the body \<open>n\<close> to the \<open>n\<close>-th basic response of \<open>exampleBodies\<close>, accepts
  every distinguished name, reads a byte string as a certificate with serial number 7
  whose public key is the byte string itself, unless the string is empty or starts with
  \<open>0xFF\<close>, and takes a signature to verify exactly when it equals the public key of
  the signer.
\<close>

definition exampleDER :: "byte \<Rightarrow> byte list" where
  "exampleDER n =
     [0x30, 0x15, 0x0A, 0x01, 0x00, 0xA0, 0x10, 0x30, 0x0E,
      0x06, 0x09, 0x2B, 0x06, 0x01, 0x05, 0x05, 0x07, 0x30, 0x01, 0x01, 0x04, 0x01, n]"

definition exampleSingle :: "int \<Rightarrow> bool \<Rightarrow> bool \<Rightarrow> bool \<Rightarrow> singleResponse" where
  "exampleSingle serial good unknown critical =
     \<lparr>sr_CertID = \<lparr>cid_HashAlgorithm = \<lparr>Algorithm = oidSHA1, Parameters = NullRawValue\<rparr>,
                   cid_NameHash = replicate 20 1, cid_IssuerKeyHash = replicate 20 2,
                   cid_SerialNumber = serial\<rparr>,
      sr_Good = good,
      sr_Revoked = \<lparr>RevocationTime = 1700000000, Reason = 1\<rparr>,
      sr_Unknown = unknown,
      sr_ThisUpdate = 1700000100,
      sr_NextUpdate = 1700086500,
      SingleExtensions = [\<lparr>Id = [1, 3, 6, 1, 5, 5, 7, 48, 1, 2], Critical = critical, Value = [4, 1, 0]\<rparr>]\<rparr>"

definition exampleBasic :: "singleResponse list \<Rightarrow> RawValue \<Rightarrow> RawValue list \<Rightarrow> basicResponse" where
  "exampleBasic responses responder certs =
     \<lparr>br_TBSResponseData =
        \<lparr>rd_Raw = [0x30, 0x00], rd_Version = 0, RawResponderID = responder,
         rd_ProducedAt = 1700000200, Responses = responses, rd_ResponseExtensions = []\<rparr>,
      br_SignatureAlgorithm = \<lparr>Algorithm = oidSignatureSHA256WithRSA, Parameters = NullRawValue\<rparr>,
      br_Signature = \<lparr>bs_Bytes = [0xAA, 0xBB], BitLength = 16\<rparr>,
      Certificates = certs\<rparr>"

definition byKeyHash :: RawValue where
  "byKeyHash = \<lparr>Class = 2, Tag = 2, IsCompound = True, Bytes = [0x04, 0x02, 0x0C, 0x0D],
                FullBytes = [0xA2, 0x04, 0x04, 0x02, 0x0C, 0x0D]\<rparr>"

definition byName :: RawValue where
  "byName = \<lparr>Class = 2, Tag = 1, IsCompound = True, Bytes = [0x30, 0x00],
             FullBytes = [0xA1, 0x02, 0x30, 0x00]\<rparr>"

definition byTag3 :: RawValue where
  "byTag3 = \<lparr>Class = 2, Tag = 3, IsCompound = True, Bytes = [0x04, 0x00],
             FullBytes = [0xA3, 0x02, 0x04, 0x00]\<rparr>"

definition rawCertificate :: "byte list \<Rightarrow> RawValue" where
  "rawCertificate bytes = \<lparr>Class = 0, Tag = 16, IsCompound = True, Bytes = [], FullBytes = bytes\<rparr>"

definition exampleBodies :: "basicResponse list" where
  "exampleBodies =
     [exampleBasic [exampleSingle 5 True True False] byKeyHash [],
      exampleBasic [exampleSingle 5 False False False] byKeyHash [],
      exampleBasic [] byKeyHash [],
      exampleBasic [exampleSingle 5 True False False, exampleSingle 7 False True False] byKeyHash [],
      exampleBasic [exampleSingle 5 True False True] byTag3 [],
      exampleBasic [exampleSingle 5 True False True] byKeyHash [],
      exampleBasic [exampleSingle 5 True False False] byKeyHash
        [rawCertificate [0x09, 0x09], rawCertificate [0xFF]],
      exampleBasic [exampleSingle 5 True False False] byName [],
      exampleBasic [exampleSingle 5 True False False] byKeyHash
        [rawCertificate [0xAA, 0xBB], rawCertificate [0xFF]],
      exampleBasic [exampleSingle 5 True False True] byKeyHash [rawCertificate [0xFF]]]"

definition exampleCertificate :: "byte list \<Rightarrow> Certificate" where
  "exampleCertificate bytes =
     \<lparr>cert_Raw = bytes, cert_RawTBSCertificate = [0x30, 0x01, 0x00], cert_Signature = [0x0E],
      cert_SignatureAlgorithm = SHA256WithRSA, cert_SerialNumber = 7, cert_PublicKey = bytes\<rparr>"

definition exampleEnv :: collaborators where
  "exampleEnv =
     \<lparr>Unmarshal_basicResponse =
        (\<lambda>body. case body of
           [n] \<Rightarrow> if 0 < unat n \<and> unat n \<le> length exampleBodies
                  then Inr (exampleBodies ! (unat n - 1), [])
                  else Inl (SyntaxError ''sequence truncated'')
         | _ \<Rightarrow> Inl (SyntaxError ''sequence truncated'')),
      parseRDNSequence = (\<lambda>bytes. Inr []),
      ParseCertificate =
        (\<lambda>bytes. if bytes = [] \<or> hd bytes = 0xFF
                  then Inl (OtherError ''x509: malformed certificate'')
                  else Inr (exampleCertificate bytes)),
      CheckSignature =
        (\<lambda>signer algo signed signature.
           if signature = cert_PublicKey signer then None
           else Some ''crypto/rsa: verification error'')\<rparr>"

text \<open>
  An unsigned request for SHA-1, and the same request with an \<open>optionalSignature\<close>
  (\<open>[0] EXPLICIT SEQUENCE { sha256WithRSAEncryption, BIT STRING }\<close>) after the
  \<open>tbsRequest\<close>.
\<close>

definition exampleTBSRequest :: "byte list" where
  "exampleTBSRequest =
     [0x30, 0x41, 0x30, 0x3F, 0x30, 0x3D, 0x30, 0x3B,
      0x30, 0x09, 0x06, 0x05, 0x2B, 0x0E, 0x03, 0x02, 0x1A, 0x05, 0x00,
      0x04, 0x14, 0x11, 0x11, 0x11, 0x11, 0x11, 0x11, 0x11, 0x11, 0x11, 0x11,
                  0x11, 0x11, 0x11, 0x11, 0x11, 0x11, 0x11, 0x11, 0x11, 0x11,
      0x04, 0x14, 0x22, 0x22, 0x22, 0x22, 0x22, 0x22, 0x22, 0x22, 0x22, 0x22,
                  0x22, 0x22, 0x22, 0x22, 0x22, 0x22, 0x22, 0x22, 0x22, 0x22,
      0x02, 0x02, 0x01, 0x02]"

definition exampleSignature :: "byte list" where
  "exampleSignature =
     [0xA0, 0x18, 0x30, 0x16,
      0x30, 0x0D, 0x06, 0x09, 0x2A, 0x86, 0x48, 0x86, 0xF7, 0x0D, 0x01, 0x01, 0x0B, 0x05, 0x00,
      0x03, 0x05, 0x00, 0xDE, 0xAD, 0xBE, 0xEF]"

definition unsignedRequestDER :: "byte list" where
  "unsignedRequestDER = [0x30, 0x43] @ exampleTBSRequest"

definition signedRequestDER :: "byte list" where
  "signedRequestDER = [0x30, 0x5D] @ exampleTBSRequest @ exampleSignature"

subsection \<open>Requests\<close>

text \<open>A request for SHA-256 with a negative serial number, the bytes \<open>Marshal\<close> writes
  for it, and an extension for the \<open>Extensions\<close> field of a request.\<close>

definition exampleRequest :: Request where
  "exampleRequest =
     \<lparr>HashAlgorithm = SHA256, IssuerNameHash = [0xAA, 0xBB], IssuerKeyHash = [0xCC],
      SerialNumber = Some (- 129), Extensions = []\<rparr>"

definition exampleRequestDER :: "byte list" where
  "exampleRequestDER =
     [0x30, 0x22, 0x30, 0x20, 0x30, 0x1E, 0x30, 0x1C, 0x30, 0x1A,
      0x30, 0x0D, 0x06, 0x09, 0x60, 0x86, 0x48, 0x01, 0x65, 0x03, 0x04, 0x02, 0x01, 0x05, 0x00,
      0x04, 0x02, 0xAA, 0xBB, 0x04, 0x01, 0xCC, 0x02, 0x02, 0xFF, 0x7F]"

definition exampleExtension :: Extension where
  "exampleExtension = \<lparr>Id = [1, 3, 6, 1, 5, 5, 7, 48, 1, 2], Critical = False, Value = [0x04, 0x01, 0x07]\<rparr>"

section \<open>Evaluation\<close>

lemma parseLength_loop_numeral [simp]:
  "parseLength_loop (numeral k) l bs = parseLength_loop (Suc (pred_numeral k)) l bs"
  by (simp add: numeral_eq_Suc)

lemma andThen_simps [simp]:
  "andThen (Inl e) f = Inl e"
  "andThen (Inr x) f = f x"
  by (simp_all add: andThen_def)

lemmas tag_defs =
  ClassUniversal_def ClassContextSpecific_def TagBoolean_def TagInteger_def TagOctetString_def
  TagNull_def TagOID_def TagEnum_def TagUTF8String_def TagSequence_def TagSet_def
  TagNumericString_def TagPrintableString_def TagT61String_def TagIA5String_def TagUTCTime_def
  TagGeneralizedTime_def TagGeneralString_def TagBMPString_def

lemmas reader_defs =
  parseField_struct_def parseFieldWith_def parseFieldHeader_def matchElement_def
  setDefaultValue_def parseTagAndLength_def parseBase128Int_def noParams_def optionalParams_def
  explicitTag_def parseField_ObjectIdentifier_def parseField_RawValue_def parseField_Enumerated_def
  parseField_bigInt_def parseField_bool_def parseField_int_def parseField_bytes_def
  parseField_slice_def parseSequenceOf_def parseSequenceOf_count.simps foldTag_def
  parseObjectIdentifier_def parseObjectIdentifier_loop.simps parseInt32_def parseInt64_def
  checkInteger_def parseBigInt_def SetBytes_def parseBool_def
  parseField_AlgorithmIdentifier_def zeroAlgorithmIdentifier_def emptyRawValue_def
  tag_defs Let_def

lemmas hash_defs =
  hashOIDs_def SHA1_def SHA256_def SHA384_def SHA512_def
  oidSHA1_def oidSHA256_def oidSHA384_def oidSHA512_def

lemmas request_defs =
  ParseRequest_def Unmarshal_ocspRequest_def parseField_tbsRequest_def parseField_request_def
  parseField_certID_def parseField_RDNSequence_def parseField_Extension_def zeroCertID_def
  getHashAlgorithmFromOID_def

lemmas example_defs =
  exampleDER_def exampleSingle_def exampleBasic_def byKeyHash_def byName_def byTag3_def
  rawCertificate_def exampleBodies_def exampleCertificate_def exampleEnv_def NullRawValue_def

lemmas response_defs =
  ParseResponse_def ParseResponseForCert_def buildResponse_def initialResponse_def
  selectSingleResponse_def responderID_def verifySignatures_def CheckSignatureFrom_def
  classify_def Unmarshal_responseASN1_def parseField_responseBytes_def parseField_RDNSequence_def
  idPKIXOCSPBasic_def Success_def Good_def Revoked_def Unknown_def RightAlign_def

section \<open>The response parser\<close>

lemma decodesTo_iff:
  "decodesTo env der b \<longleftrightarrow>
     (\<exists>resp. Unmarshal_responseASN1 der = Inr (resp, []) \<and> ra_Status resp = Success
        \<and> rb_ResponseType (ra_Response resp) = idPKIXOCSPBasic
        \<and> Unmarshal_basicResponse env (rb_Response (ra_Response resp)) = Inr (b, []))"
  by (auto simp: decodesTo_def split: sum.splits)

lemma ParseResponseForCert_decoded:
  "decodesTo env der b \<Longrightarrow>
   ParseResponseForCert env der cert issuer =
     andThen (selectSingleResponse (Responses (br_TBSResponseData b)) cert)
       (\<lambda>singleResp. buildResponse env der b singleResp issuer)"
  by (auto simp: decodesTo_iff ParseResponseForCert_def)


lemma responderID_Inr:
  "responderID env raw ret = Inr ret' \<Longrightarrow>
     (Tag raw = 1 \<and> ret' = ret\<lparr>RawResponderName := Some (Bytes raw)\<rparr>
        \<and> (\<exists>n. parseField_RDNSequence (parseRDNSequence env) noParams (Bytes raw) = Inr (n, [])))
   \<or> (Tag raw = 2
        \<and> (\<exists>h. parseField_bytes noParams (Bytes raw) = Inr (h, [])
               \<and> ret' = ret\<lparr>ResponderKeyHash := Some h\<rparr>))"
  by (auto simp: responderID_def split: if_splits sum.splits)

lemma verifySignatures_Inr:
  "verifySignatures env certs issuer ret = Inr ret' \<Longrightarrow>
     (certs = [] \<and> ret' = ret
        \<and> (\<forall>i. issuer = Some i \<longrightarrow>
              CheckSignature env i (SignatureAlgorithm ret) (TBSResponseData ret) (Signature ret) = None))
   \<or> (\<exists>c0 cs c. certs = c0 # cs \<and> ParseCertificate env (FullBytes c0) = Inr c
        \<and> ret' = ret\<lparr>Certificate := Some c\<rparr>
        \<and> CheckSignature env c (SignatureAlgorithm ret) (TBSResponseData ret) (Signature ret) = None
        \<and> (\<forall>i. issuer = Some i \<longrightarrow>
              CheckSignature env i (cert_SignatureAlgorithm c) (cert_RawTBSCertificate c)
                (cert_Signature c) = None))"
  by (cases certs)
     (auto simp: verifySignatures_def CheckSignatureFrom_def Let_def
           split: if_splits sum.splits option.splits)

lemma buildResponse_Inr:
  "buildResponse env der b sr issuer = Inr r \<Longrightarrow>
   \<exists>ret ret' h.
       responderID env (RawResponderID (br_TBSResponseData b)) (initialResponse der b sr) = Inr ret
     \<and> verifySignatures env (Certificates b) issuer ret = Inr ret'
     \<and> \<not> list_ex Critical (SingleExtensions sr)
     \<and> r = classify sr (ret'\<lparr>IssuerHash := h\<rparr>)"
  by (auto simp: buildResponse_def andThen_def Let_def split: sum.splits if_splits)

lemma classify_fields:
  "RawResponderName (classify sr ret) = RawResponderName ret"
  "ResponderKeyHash (classify sr ret) = ResponderKeyHash ret"
  "Certificate (classify sr ret) = Certificate ret"
  by (simp_all add: classify_def)

subsection \<open>Status classification\<close>

text \<open>
  Claim C1. On every successful parse, the status of the result follows the flags of the
  chosen single response with the precedence Good, then Unknown, then Revoked: a set Good
  flag gives Good, also when Unknown is set as well; otherwise a set Unknown flag gives
  Unknown; otherwise the status is Revoked, and \<open>RevokedAt\<close> and \<open>RevocationReason\<close>
  are those of the nested \<open>revokedInfo\<close>. In the Good and Unknown branches the two
  fields keep their zero values.
\<close>
theorem status_precedence:
  assumes D: "decodesTo env der basicResp"
    and S: "selectSingleResponse (Responses (br_TBSResponseData basicResp)) cert = Inr singleResp"
    and P: "ParseResponseForCert env der cert issuer = Inr r"
  shows "(sr_Good singleResp \<longrightarrow> Status r = Good)
       \<and> (\<not> sr_Good singleResp \<and> sr_Unknown singleResp \<longrightarrow> Status r = Unknown)
       \<and> (\<not> sr_Good singleResp \<and> \<not> sr_Unknown singleResp \<longrightarrow>
            Status r = Revoked
            \<and> RevokedAt r = RevocationTime (sr_Revoked singleResp)
            \<and> RevocationReason r = Reason (sr_Revoked singleResp))
       \<and> (sr_Good singleResp \<or> sr_Unknown singleResp \<longrightarrow>
            RevokedAt r = 0 \<and> RevocationReason r = 0)"
proof -
  from D S P have B: "buildResponse env der basicResp singleResp issuer = Inr r"
    by (simp add: ParseResponseForCert_decoded)
  from buildResponse_Inr [OF B] obtain ret ret' h where
    R: "responderID env (RawResponderID (br_TBSResponseData basicResp))
          (initialResponse der basicResp singleResp) = Inr ret"
    and V: "verifySignatures env (Certificates basicResp) issuer ret = Inr ret'"
    and r: "r = classify singleResp (ret'\<lparr>IssuerHash := h\<rparr>)"
    by blast
  from responderID_Inr [OF R] have "RevokedAt ret = 0 \<and> RevocationReason ret = 0"
    by (auto simp: initialResponse_def)
  with verifySignatures_Inr [OF V] have Z: "RevokedAt ret' = 0 \<and> RevocationReason ret' = 0"
    by auto
  show ?thesis
    using Z by (simp add: r classify_def Good_def Unknown_def Revoked_def)
qed

lemma example1_decodes: "decodesTo exampleEnv (exampleDER 1) (exampleBodies ! 0)"
  by (simp add: decodesTo_def response_defs example_defs reader_defs)

lemma example2_decodes: "decodesTo exampleEnv (exampleDER 2) (exampleBodies ! 1)"
  by (simp add: decodesTo_def response_defs example_defs reader_defs)

lemma example1_parses: "\<not> isl (ParseResponseForCert exampleEnv (exampleDER 1) None None)"
  by (simp add: response_defs example_defs reader_defs hash_defs)

lemma example2_parses: "\<not> isl (ParseResponseForCert exampleEnv (exampleDER 2) None None)"
  by (simp add: response_defs example_defs reader_defs hash_defs)

theorem status_precedence_witness:
  "decodesTo exampleEnv (exampleDER 1) (exampleBodies ! 0)
   \<and> selectSingleResponse (Responses (br_TBSResponseData (exampleBodies ! 0))) None
       = Inr (exampleSingle 5 True True False)
   \<and> \<not> isl (ParseResponseForCert exampleEnv (exampleDER 1) None None)
   \<and> Status (projr (ParseResponseForCert exampleEnv (exampleDER 1) None None)) = Good
   \<and> RevokedAt (projr (ParseResponseForCert exampleEnv (exampleDER 1) None None)) = 0
   \<and> decodesTo exampleEnv (exampleDER 2) (exampleBodies ! 1)
   \<and> selectSingleResponse (Responses (br_TBSResponseData (exampleBodies ! 1))) None
       = Inr (exampleSingle 5 False False False)
   \<and> \<not> isl (ParseResponseForCert exampleEnv (exampleDER 2) None None)
   \<and> Status (projr (ParseResponseForCert exampleEnv (exampleDER 2) None None)) = Revoked
   \<and> RevokedAt (projr (ParseResponseForCert exampleEnv (exampleDER 2) None None)) = 1700000000
   \<and> RevocationReason (projr (ParseResponseForCert exampleEnv (exampleDER 2) None None)) = 1"
proof -
  have s1: "selectSingleResponse (Responses (br_TBSResponseData (exampleBodies ! 0))) None
       = Inr (exampleSingle 5 True True False)"
    by (simp add: selectSingleResponse_def exampleBodies_def exampleBasic_def)
  have s2: "selectSingleResponse (Responses (br_TBSResponseData (exampleBodies ! 1))) None
       = Inr (exampleSingle 5 False False False)"
    by (simp add: selectSingleResponse_def exampleBodies_def exampleBasic_def)
  have p1: "ParseResponseForCert exampleEnv (exampleDER 1) None None
      = Inr (projr (ParseResponseForCert exampleEnv (exampleDER 1) None None))"
    using example1_parses by simp
  have p2: "ParseResponseForCert exampleEnv (exampleDER 2) None None
      = Inr (projr (ParseResponseForCert exampleEnv (exampleDER 2) None None))"
    using example2_parses by simp
  show ?thesis
    using status_precedence [OF example1_decodes s1 p1] status_precedence [OF example2_decodes s2 p2]
      example1_decodes example2_decodes s1 s2 example1_parses example2_parses
    by (simp add: exampleSingle_def)
qed

subsection \<open>The number of entries and the choice of one\<close>

lemma find_first_match:
  "P x \<Longrightarrow> \<forall>y\<in>set pre. \<not> P y \<Longrightarrow> find P (pre @ x # post) = Some x"
  by (induction pre) auto

lemma find_no_match: "\<forall>y\<in>set xs. \<not> P y \<Longrightarrow> find P xs = None"
  by (induction xs) auto

text \<open>
  Claim C3. Once the envelope and the basic response are decoded: a basic response with no
  single response is an error; more than one single response with no certificate is the
  same error; with a certificate, the first single response whose serial number equals
  the certificate's is the one the result is built from, whatever its name and key hashes
  are; and when there are single responses but none has the certificate's serial number,
  the error is ``no response matching the supplied certificate''.
\<close>

theorem entry_count_policy:
  assumes D: "decodesTo env der basicResp"
  shows "(Responses (br_TBSResponseData basicResp) = [] \<longrightarrow>
            ParseResponseForCert env der cert issuer
              = Inl (ParseError ''OCSP response contains bad number of responses''))
       \<and> (length (Responses (br_TBSResponseData basicResp)) > 1 \<longrightarrow>
            ParseResponseForCert env der None issuer
              = Inl (ParseError ''OCSP response contains bad number of responses''))
       \<and> (Responses (br_TBSResponseData basicResp) = pre @ singleResp # post
            \<and> cid_SerialNumber (sr_CertID singleResp) = cert_SerialNumber c
            \<and> (\<forall>x\<in>set pre. cid_SerialNumber (sr_CertID x) \<noteq> cert_SerialNumber c) \<longrightarrow>
            selectSingleResponse (Responses (br_TBSResponseData basicResp)) (Some c) = Inr singleResp
            \<and> ParseResponseForCert env der (Some c) issuer
                = buildResponse env der basicResp singleResp issuer)
       \<and> (Responses (br_TBSResponseData basicResp) \<noteq> []
            \<and> (\<forall>x\<in>set (Responses (br_TBSResponseData basicResp)).
                   cid_SerialNumber (sr_CertID x) \<noteq> cert_SerialNumber c) \<longrightarrow>
            ParseResponseForCert env der (Some c) issuer
              = Inl (ParseError ''no response matching the supplied certificate''))"
proof (intro conjI impI)
  assume "Responses (br_TBSResponseData basicResp) = []"
  then show "ParseResponseForCert env der cert issuer
      = Inl (ParseError ''OCSP response contains bad number of responses'')"
    by (simp add: ParseResponseForCert_decoded [OF D] selectSingleResponse_def)
next
  assume "length (Responses (br_TBSResponseData basicResp)) > 1"
  then show "ParseResponseForCert env der None issuer
      = Inl (ParseError ''OCSP response contains bad number of responses'')"
    by (simp add: ParseResponseForCert_decoded [OF D] selectSingleResponse_def)
next
  assume A: "Responses (br_TBSResponseData basicResp) = pre @ singleResp # post
            \<and> cid_SerialNumber (sr_CertID singleResp) = cert_SerialNumber c
            \<and> (\<forall>x\<in>set pre. cid_SerialNumber (sr_CertID x) \<noteq> cert_SerialNumber c)"
  then have "find (\<lambda>resp. cert_SerialNumber c = cid_SerialNumber (sr_CertID resp))
               (pre @ singleResp # post) = Some singleResp"
    by (intro find_first_match) auto
  with A show S: "selectSingleResponse (Responses (br_TBSResponseData basicResp)) (Some c)
      = Inr singleResp"
    by (simp add: selectSingleResponse_def)
  then show "ParseResponseForCert env der (Some c) issuer
      = buildResponse env der basicResp singleResp issuer"
    by (simp add: ParseResponseForCert_decoded [OF D])
next
  assume A: "Responses (br_TBSResponseData basicResp) \<noteq> []
            \<and> (\<forall>x\<in>set (Responses (br_TBSResponseData basicResp)).
                   cid_SerialNumber (sr_CertID x) \<noteq> cert_SerialNumber c)"
  then have "find (\<lambda>resp. cert_SerialNumber c = cid_SerialNumber (sr_CertID resp))
               (Responses (br_TBSResponseData basicResp)) = None"
    by (intro find_no_match) auto
  with A show "ParseResponseForCert env der (Some c) issuer
      = Inl (ParseError ''no response matching the supplied certificate'')"
    by (simp add: ParseResponseForCert_decoded [OF D] selectSingleResponse_def)
qed

lemma example3_decodes: "decodesTo exampleEnv (exampleDER 3) (exampleBodies ! 2)"
  by (simp add: decodesTo_def response_defs example_defs reader_defs)

lemma example4_decodes: "decodesTo exampleEnv (exampleDER 4) (exampleBodies ! 3)"
  by (simp add: decodesTo_def response_defs example_defs reader_defs)

lemma example4_responses:
  "Responses (br_TBSResponseData (exampleBodies ! 3))
     = [exampleSingle 5 True False False] @ exampleSingle 7 False True False # []"
  by (simp add: exampleBodies_def exampleBasic_def)

theorem entry_count_policy_witness:
  "decodesTo exampleEnv (exampleDER 3) (exampleBodies ! 2)
   \<and> Responses (br_TBSResponseData (exampleBodies ! 2)) = []
   \<and> ParseResponseForCert exampleEnv (exampleDER 3) (Some (exampleCertificate [1])) None
       = Inl (ParseError ''OCSP response contains bad number of responses'')
   \<and> decodesTo exampleEnv (exampleDER 4) (exampleBodies ! 3)
   \<and> length (Responses (br_TBSResponseData (exampleBodies ! 3))) = 2
   \<and> ParseResponseForCert exampleEnv (exampleDER 4) None None
       = Inl (ParseError ''OCSP response contains bad number of responses'')
   \<and> cert_SerialNumber (exampleCertificate [1]) = 7
   \<and> selectSingleResponse (Responses (br_TBSResponseData (exampleBodies ! 3)))
        (Some (exampleCertificate [1])) = Inr (exampleSingle 7 False True False)
   \<and> ParseResponseForCert exampleEnv (exampleDER 4) (Some (exampleCertificate [1])) None
       = buildResponse exampleEnv (exampleDER 4) (exampleBodies ! 3)
           (exampleSingle 7 False True False) None
   \<and> ParseResponseForCert exampleEnv (exampleDER 4)
        (Some ((exampleCertificate [1])\<lparr>cert_SerialNumber := 9\<rparr>)) None
       = Inl (ParseError ''no response matching the supplied certificate'')"
  using entry_count_policy [OF example3_decodes,
      of "Some (exampleCertificate [1])" None "[]" "exampleSingle 7 False True False" "[]"
         "exampleCertificate [1]"]
    entry_count_policy [OF example4_decodes,
      of None None "[exampleSingle 5 True False False]" "exampleSingle 7 False True False" "[]"
         "exampleCertificate [1]"]
    entry_count_policy [OF example4_decodes,
      of None None "[]" "exampleSingle 7 False True False" "[]"
         "(exampleCertificate [1])\<lparr>cert_SerialNumber := 9\<rparr>"]
    example3_decodes example4_decodes example4_responses
  by (simp add: exampleSingle_def exampleCertificate_def exampleBodies_def exampleBasic_def)

subsection \<open>Error responses\<close>

text \<open>
  Claim C4. When the input is an envelope whose status is not success, \<open>ParseResponse\<close> and
  \<open>ParseResponseForCert\<close> return a \<open>ResponseError\<close> that carries the status, which is
  not a \<open>ParseError\<close>; and each of the five pre-serialized error responses parses to the
  \<open>ResponseError\<close> of its status.
\<close>

theorem error_response_status:
  "(Unmarshal_responseASN1 der = Inr (resp, []) \<and> ra_Status resp \<noteq> Success \<longrightarrow>
      ParseResponseForCert env der cert issuer = Inl (ResponseError (ra_Status resp))
      \<and> ParseResponse env der issuer = Inl (ResponseError (ra_Status resp))
      \<and> (\<forall>msg. ResponseError (ra_Status resp) \<noteq> ParseError msg))
   \<and> ParseResponse env MalformedRequestErrorResponse issuer = Inl (ResponseError Malformed)
   \<and> ParseResponse env InternalErrorErrorResponse issuer = Inl (ResponseError InternalError)
   \<and> ParseResponse env TryLaterErrorResponse issuer = Inl (ResponseError TryLater)
   \<and> ParseResponse env SigRequredErrorResponse issuer = Inl (ResponseError SignatureRequired)
   \<and> ParseResponse env UnauthorizedErrorResponse issuer = Inl (ResponseError Unauthorized)"
proof (intro conjI impI)
  assume "Unmarshal_responseASN1 der = Inr (resp, []) \<and> ra_Status resp \<noteq> Success"
  then show "ParseResponseForCert env der cert issuer = Inl (ResponseError (ra_Status resp))"
    and "ParseResponse env der issuer = Inl (ResponseError (ra_Status resp))"
    by (simp_all add: ParseResponse_def ParseResponseForCert_def)
  show "\<forall>msg. ResponseError (ra_Status resp) \<noteq> ParseError msg" by simp
next
  show "ParseResponse env MalformedRequestErrorResponse issuer = Inl (ResponseError Malformed)"
    by (simp add: MalformedRequestErrorResponse_def Malformed_def response_defs reader_defs)
  show "ParseResponse env InternalErrorErrorResponse issuer = Inl (ResponseError InternalError)"
    by (simp add: InternalErrorErrorResponse_def InternalError_def response_defs reader_defs)
  show "ParseResponse env TryLaterErrorResponse issuer = Inl (ResponseError TryLater)"
    by (simp add: TryLaterErrorResponse_def TryLater_def response_defs reader_defs)
  show "ParseResponse env SigRequredErrorResponse issuer = Inl (ResponseError SignatureRequired)"
    by (simp add: SigRequredErrorResponse_def SignatureRequired_def response_defs reader_defs)
  show "ParseResponse env UnauthorizedErrorResponse issuer = Inl (ResponseError Unauthorized)"
    by (simp add: UnauthorizedErrorResponse_def Unauthorized_def response_defs reader_defs)
qed

theorem error_response_status_witness:
  "Unmarshal_responseASN1 [0x30, 0x03, 0x0A, 0x01, 0x04]
     = Inr (\<lparr>ra_Status = 4, ra_Response = \<lparr>rb_ResponseType = [], rb_Response = []\<rparr>\<rparr>, [])
   \<and> (4 :: int) \<noteq> Success
   \<and> ParseResponseForCert exampleEnv [0x30, 0x03, 0x0A, 0x01, 0x04] None None
       = Inl (ResponseError 4)
   \<and> ParseResponse exampleEnv [0x30, 0x03, 0x0A, 0x01, 0x04] None = Inl (ResponseError 4)"
proof -
  have u: "Unmarshal_responseASN1 [0x30, 0x03, 0x0A, 0x01, 0x04]
     = Inr (\<lparr>ra_Status = 4, ra_Response = \<lparr>rb_ResponseType = [], rb_Response = []\<rparr>\<rparr>, [])"
    by (simp add: response_defs reader_defs)
  show ?thesis
    using error_response_status [of "[0x30, 0x03, 0x0A, 0x01, 0x04]"
        "\<lparr>ra_Status = 4, ra_Response = \<lparr>rb_ResponseType = [], rb_Response = []\<rparr>\<rparr>"
        exampleEnv None None] u
    by (simp add: Success_def)
qed

subsection \<open>The embedded certificate and the signatures\<close>

lemma responderID_keeps:
  assumes "responderID env raw ret = Inr ret'"
  shows "SignatureAlgorithm ret' = SignatureAlgorithm ret"
    and "TBSResponseData ret' = TBSResponseData ret"
    and "Signature ret' = Signature ret"
    and "Certificate ret' = Certificate ret"
  using responderID_Inr [OF assms] by auto

lemma buildResponse_after_responderID:
  "responderID env (RawResponderID (br_TBSResponseData b)) (initialResponse der b sr) = Inr ret \<Longrightarrow>
   buildResponse env der b sr issuer =
     andThen (verifySignatures env (Certificates b) issuer ret)
       (\<lambda>ret.
          if list_ex Critical (SingleExtensions sr)
          then Inl (ParseError ''unsupported critical extension'')
          else
            (let ret = ret\<lparr>IssuerHash :=
                   (case find (\<lambda>(h, oid). Algorithm (cid_HashAlgorithm (sr_CertID sr)) = oid)
                           hashOIDs of
                      Some (h, oid) \<Rightarrow> h
                    | None \<Rightarrow> IssuerHash ret)\<rparr>
             in if IssuerHash ret = 0
                then Inl (ParseError ''unsupported issuer hash algorithm'')
                else Inr (classify sr ret)))"
  by (simp add: buildResponse_def)

text \<open>
  Claim C6. Once the response is decoded, a single response is chosen and the responder
  ID is accepted: if the certificate list is not empty, only its first certificate is
  parsed, the response signature (the resolved algorithm, the raw \<open>tbsResponseData\<close> and
  the right-aligned signature bits) is checked against that certificate, and a failure is
  the error ``bad signature on embedded certificate'' whatever the issuer argument is, nil
  included; if the issuer is not nil, the embedded certificate's own signature is then
  checked against the issuer; if the list is empty and the issuer is not nil, the response
  signature is checked against the issuer. A successful parse has passed these checks.

  The certificates after the first are not read: the signature step gives the same
  result for the list as for its first element alone, and the whole parse gives the result
  of the response whose list is cut to the first certificate. When the first certificate
  does not parse, the parser's error is returned. When the checks pass, no extension of
  the single response is critical and the hash of the \<open>CertID\<close> is one of the four, the
  response is accepted: with the embedded certificate in \<open>Certificate\<close> when the list
  is not empty, whatever follows the first certificate, and with none when it is empty.
\<close>

theorem embedded_certificate_verification:
  assumes D: "decodesTo env der basicResp"
    and S: "selectSingleResponse (Responses (br_TBSResponseData basicResp)) cert = Inr singleResp"
    and R: "responderID env (RawResponderID (br_TBSResponseData basicResp))
              (initialResponse der basicResp singleResp) = Inr ret"
  shows "(\<forall>issuer c0 cs c msg.
            Certificates basicResp = c0 # cs \<and> ParseCertificate env (FullBytes c0) = Inr c
            \<and> CheckSignature env c (getSignatureAlgorithmFromAI (br_SignatureAlgorithm basicResp))
                 (rd_Raw (br_TBSResponseData basicResp)) (RightAlign (br_Signature basicResp)) = Some msg
            \<longrightarrow> ParseResponseForCert env der cert issuer
                  = Inl (ParseError (''bad signature on embedded certificate: '' @ msg)))
       \<and> (\<forall>i c0 cs c msg.
            Certificates basicResp = c0 # cs \<and> ParseCertificate env (FullBytes c0) = Inr c
            \<and> CheckSignature env c (getSignatureAlgorithmFromAI (br_SignatureAlgorithm basicResp))
                 (rd_Raw (br_TBSResponseData basicResp)) (RightAlign (br_Signature basicResp)) = None
            \<and> CheckSignature env i (cert_SignatureAlgorithm c) (cert_RawTBSCertificate c)
                 (cert_Signature c) = Some msg
            \<longrightarrow> ParseResponseForCert env der cert (Some i)
                  = Inl (ParseError (''bad OCSP signature: '' @ msg)))
       \<and> (\<forall>i msg.
            Certificates basicResp = []
            \<and> CheckSignature env i (getSignatureAlgorithmFromAI (br_SignatureAlgorithm basicResp))
                 (rd_Raw (br_TBSResponseData basicResp)) (RightAlign (br_Signature basicResp)) = Some msg
            \<longrightarrow> ParseResponseForCert env der cert (Some i)
                  = Inl (ParseError (''bad OCSP signature: '' @ msg)))
       \<and> (\<forall>issuer r.
            ParseResponseForCert env der cert issuer = Inr r \<longrightarrow>
              (case Certificates basicResp of
                 [] \<Rightarrow>
                   Certificate r = None
                   \<and> (\<forall>i. issuer = Some i \<longrightarrow>
                         CheckSignature env i
                           (getSignatureAlgorithmFromAI (br_SignatureAlgorithm basicResp))
                           (rd_Raw (br_TBSResponseData basicResp))
                           (RightAlign (br_Signature basicResp)) = None)
               | c0 # cs \<Rightarrow>
                   (\<exists>c. ParseCertificate env (FullBytes c0) = Inr c \<and> Certificate r = Some c
                      \<and> CheckSignature env c
                           (getSignatureAlgorithmFromAI (br_SignatureAlgorithm basicResp))
                           (rd_Raw (br_TBSResponseData basicResp))
                           (RightAlign (br_Signature basicResp)) = None
                      \<and> (\<forall>i. issuer = Some i \<longrightarrow>
                            CheckSignature env i (cert_SignatureAlgorithm c)
                              (cert_RawTBSCertificate c) (cert_Signature c) = None))))
       \<and> (\<forall>issuer c0 cs r.
            verifySignatures env (c0 # cs) issuer r = verifySignatures env [c0] issuer r)
       \<and> (\<forall>issuer c0 cs.
            Certificates basicResp = c0 # cs
            \<longrightarrow> ParseResponseForCert env der cert issuer
                  = buildResponse env der (basicResp\<lparr>Certificates := [c0]\<rparr>) singleResp issuer)
       \<and> (\<forall>issuer c0 cs err.
            Certificates basicResp = c0 # cs \<and> ParseCertificate env (FullBytes c0) = Inl err
            \<longrightarrow> ParseResponseForCert env der cert issuer = Inl err)
       \<and> (\<forall>issuer c0 cs c.
            Certificates basicResp = c0 # cs \<and> ParseCertificate env (FullBytes c0) = Inr c
            \<and> CheckSignature env c (getSignatureAlgorithmFromAI (br_SignatureAlgorithm basicResp))
                 (rd_Raw (br_TBSResponseData basicResp)) (RightAlign (br_Signature basicResp)) = None
            \<and> (\<forall>i. issuer = Some i \<longrightarrow>
                  CheckSignature env i (cert_SignatureAlgorithm c) (cert_RawTBSCertificate c)
                    (cert_Signature c) = None)
            \<and> \<not> list_ex Critical (SingleExtensions singleResp)
            \<and> Algorithm (cid_HashAlgorithm (sr_CertID singleResp))
                 \<in> {oidSHA1, oidSHA256, oidSHA384, oidSHA512}
            \<longrightarrow> ParseResponseForCert env der cert issuer
                  = Inr (classify singleResp
                           (ret\<lparr>Certificate := Some c,
                                IssuerHash := getHashAlgorithmFromOID
                                  (Algorithm (cid_HashAlgorithm (sr_CertID singleResp)))\<rparr>)))
       \<and> (\<forall>issuer.
            Certificates basicResp = []
            \<and> (\<forall>i. issuer = Some i \<longrightarrow>
                  CheckSignature env i (getSignatureAlgorithmFromAI (br_SignatureAlgorithm basicResp))
                    (rd_Raw (br_TBSResponseData basicResp)) (RightAlign (br_Signature basicResp)) = None)
            \<and> \<not> list_ex Critical (SingleExtensions singleResp)
            \<and> Algorithm (cid_HashAlgorithm (sr_CertID singleResp))
                 \<in> {oidSHA1, oidSHA256, oidSHA384, oidSHA512}
            \<longrightarrow> ParseResponseForCert env der cert issuer
                  = Inr (classify singleResp
                           (ret\<lparr>IssuerHash := getHashAlgorithmFromOID
                                  (Algorithm (cid_HashAlgorithm (sr_CertID singleResp)))\<rparr>)))"
proof -
  have P: "\<And>issuer. ParseResponseForCert env der cert issuer
             = buildResponse env der basicResp singleResp issuer"
    by (simp add: ParseResponseForCert_decoded [OF D] S)
  have F: "SignatureAlgorithm ret = getSignatureAlgorithmFromAI (br_SignatureAlgorithm basicResp)"
    "TBSResponseData ret = rd_Raw (br_TBSResponseData basicResp)"
    "Signature ret = RightAlign (br_Signature basicResp)"
    "Certificate ret = None"
    using responderID_keeps [OF R] by (simp_all add: initialResponse_def)
  note B = buildResponse_after_responderID [OF R]
  have 1: "\<forall>issuer c0 cs c msg.
            Certificates basicResp = c0 # cs \<and> ParseCertificate env (FullBytes c0) = Inr c
            \<and> CheckSignature env c (getSignatureAlgorithmFromAI (br_SignatureAlgorithm basicResp))
                 (rd_Raw (br_TBSResponseData basicResp)) (RightAlign (br_Signature basicResp)) = Some msg
            \<longrightarrow> ParseResponseForCert env der cert issuer
                  = Inl (ParseError (''bad signature on embedded certificate: '' @ msg))"
    by (simp add: P B verifySignatures_def CheckSignatureFrom_def F)
  have 2: "\<forall>i c0 cs c msg.
            Certificates basicResp = c0 # cs \<and> ParseCertificate env (FullBytes c0) = Inr c
            \<and> CheckSignature env c (getSignatureAlgorithmFromAI (br_SignatureAlgorithm basicResp))
                 (rd_Raw (br_TBSResponseData basicResp)) (RightAlign (br_Signature basicResp)) = None
            \<and> CheckSignature env i (cert_SignatureAlgorithm c) (cert_RawTBSCertificate c)
                 (cert_Signature c) = Some msg
            \<longrightarrow> ParseResponseForCert env der cert (Some i)
                  = Inl (ParseError (''bad OCSP signature: '' @ msg))"
    by (simp add: P B verifySignatures_def CheckSignatureFrom_def F)
  have 3: "\<forall>i msg.
            Certificates basicResp = []
            \<and> CheckSignature env i (getSignatureAlgorithmFromAI (br_SignatureAlgorithm basicResp))
                 (rd_Raw (br_TBSResponseData basicResp)) (RightAlign (br_Signature basicResp)) = Some msg
            \<longrightarrow> ParseResponseForCert env der cert (Some i)
                  = Inl (ParseError (''bad OCSP signature: '' @ msg))"
    by (simp add: P B verifySignatures_def CheckSignatureFrom_def F)
  have 4: "\<forall>issuer r.
            ParseResponseForCert env der cert issuer = Inr r \<longrightarrow>
              (case Certificates basicResp of
                 [] \<Rightarrow>
                   Certificate r = None
                   \<and> (\<forall>i. issuer = Some i \<longrightarrow>
                         CheckSignature env i
                           (getSignatureAlgorithmFromAI (br_SignatureAlgorithm basicResp))
                           (rd_Raw (br_TBSResponseData basicResp))
                           (RightAlign (br_Signature basicResp)) = None)
               | c0 # cs \<Rightarrow>
                   (\<exists>c. ParseCertificate env (FullBytes c0) = Inr c \<and> Certificate r = Some c
                      \<and> CheckSignature env c
                           (getSignatureAlgorithmFromAI (br_SignatureAlgorithm basicResp))
                           (rd_Raw (br_TBSResponseData basicResp))
                           (RightAlign (br_Signature basicResp)) = None
                      \<and> (\<forall>i. issuer = Some i \<longrightarrow>
                            CheckSignature env i (cert_SignatureAlgorithm c)
                              (cert_RawTBSCertificate c) (cert_Signature c) = None)))"
  proof (intro allI impI)
    fix issuer r
    assume "ParseResponseForCert env der cert issuer = Inr r"
    then have "buildResponse env der basicResp singleResp issuer = Inr r" by (simp add: P)
    from buildResponse_Inr [OF this] R obtain ret' h where
      V: "verifySignatures env (Certificates basicResp) issuer ret = Inr ret'"
      and r: "r = classify singleResp (ret'\<lparr>IssuerHash := h\<rparr>)"
      by auto
    from verifySignatures_Inr [OF V] show
      "case Certificates basicResp of
         [] \<Rightarrow>
           Certificate r = None
           \<and> (\<forall>i. issuer = Some i \<longrightarrow>
                 CheckSignature env i
                   (getSignatureAlgorithmFromAI (br_SignatureAlgorithm basicResp))
                   (rd_Raw (br_TBSResponseData basicResp))
                   (RightAlign (br_Signature basicResp)) = None)
       | c0 # cs \<Rightarrow>
           (\<exists>c. ParseCertificate env (FullBytes c0) = Inr c \<and> Certificate r = Some c
              \<and> CheckSignature env c
                   (getSignatureAlgorithmFromAI (br_SignatureAlgorithm basicResp))
                   (rd_Raw (br_TBSResponseData basicResp))
                   (RightAlign (br_Signature basicResp)) = None
              \<and> (\<forall>i. issuer = Some i \<longrightarrow>
                    CheckSignature env i (cert_SignatureAlgorithm c)
                      (cert_RawTBSCertificate c) (cert_Signature c) = None))"
      by (auto simp: r classify_fields F)
  qed
  have 5: "\<forall>issuer c0 cs r.
            verifySignatures env (c0 # cs) issuer r = verifySignatures env [c0] issuer r"
    by (simp add: verifySignatures_def)
  have 6: "\<forall>issuer c0 cs.
            Certificates basicResp = c0 # cs
            \<longrightarrow> ParseResponseForCert env der cert issuer
                  = buildResponse env der (basicResp\<lparr>Certificates := [c0]\<rparr>) singleResp issuer"
  proof (intro allI impI)
    fix issuer c0 cs
    assume a: "Certificates basicResp = c0 # cs"
    have R': "responderID env (RawResponderID (br_TBSResponseData (basicResp\<lparr>Certificates := [c0]\<rparr>)))
                (initialResponse der (basicResp\<lparr>Certificates := [c0]\<rparr>) singleResp) = Inr ret"
      using R by (simp add: initialResponse_def)
    show "ParseResponseForCert env der cert issuer
            = buildResponse env der (basicResp\<lparr>Certificates := [c0]\<rparr>) singleResp issuer"
      using a by (simp add: P B buildResponse_after_responderID [OF R'] verifySignatures_def)
  qed
  have 7: "\<forall>issuer c0 cs err.
            Certificates basicResp = c0 # cs \<and> ParseCertificate env (FullBytes c0) = Inl err
            \<longrightarrow> ParseResponseForCert env der cert issuer = Inl err"
    by (simp add: P B verifySignatures_def)
  have H: "(case find (\<lambda>(h, oid). Algorithm (cid_HashAlgorithm (sr_CertID singleResp)) = oid)
                   hashOIDs of
              Some (h, oid) \<Rightarrow> h
            | None \<Rightarrow> d)
           = getHashAlgorithmFromOID (Algorithm (cid_HashAlgorithm (sr_CertID singleResp)))
         \<and> getHashAlgorithmFromOID (Algorithm (cid_HashAlgorithm (sr_CertID singleResp))) \<noteq> 0"
    if "Algorithm (cid_HashAlgorithm (sr_CertID singleResp))
          \<in> {oidSHA1, oidSHA256, oidSHA384, oidSHA512}" for d
    using that by (auto simp: getHashAlgorithmFromOID_def hash_defs)
  have 8: "\<forall>issuer c0 cs c.
            Certificates basicResp = c0 # cs \<and> ParseCertificate env (FullBytes c0) = Inr c
            \<and> CheckSignature env c (getSignatureAlgorithmFromAI (br_SignatureAlgorithm basicResp))
                 (rd_Raw (br_TBSResponseData basicResp)) (RightAlign (br_Signature basicResp)) = None
            \<and> (\<forall>i. issuer = Some i \<longrightarrow>
                  CheckSignature env i (cert_SignatureAlgorithm c) (cert_RawTBSCertificate c)
                    (cert_Signature c) = None)
            \<and> \<not> list_ex Critical (SingleExtensions singleResp)
            \<and> Algorithm (cid_HashAlgorithm (sr_CertID singleResp))
                 \<in> {oidSHA1, oidSHA256, oidSHA384, oidSHA512}
            \<longrightarrow> ParseResponseForCert env der cert issuer
                  = Inr (classify singleResp
                           (ret\<lparr>Certificate := Some c,
                                IssuerHash := getHashAlgorithmFromOID
                                  (Algorithm (cid_HashAlgorithm (sr_CertID singleResp)))\<rparr>))"
  proof (intro allI impI, elim conjE)
    fix issuer c0 cs c
    assume a: "Certificates basicResp = c0 # cs" "ParseCertificate env (FullBytes c0) = Inr c"
      "CheckSignature env c (getSignatureAlgorithmFromAI (br_SignatureAlgorithm basicResp))
         (rd_Raw (br_TBSResponseData basicResp)) (RightAlign (br_Signature basicResp)) = None"
      "\<forall>i. issuer = Some i \<longrightarrow>
         CheckSignature env i (cert_SignatureAlgorithm c) (cert_RawTBSCertificate c)
           (cert_Signature c) = None"
      "\<not> list_ex Critical (SingleExtensions singleResp)"
      and h: "Algorithm (cid_HashAlgorithm (sr_CertID singleResp))
                \<in> {oidSHA1, oidSHA256, oidSHA384, oidSHA512}"
    have v: "verifySignatures env (Certificates basicResp) issuer ret
               = Inr (ret\<lparr>Certificate := Some c\<rparr>)"
      using a(1-4) by (cases issuer) (simp_all add: verifySignatures_def CheckSignatureFrom_def F)
    show "ParseResponseForCert env der cert issuer
            = Inr (classify singleResp
                     (ret\<lparr>Certificate := Some c,
                          IssuerHash := getHashAlgorithmFromOID
                            (Algorithm (cid_HashAlgorithm (sr_CertID singleResp)))\<rparr>))"
      using a(5) H [OF h] by (simp add: P B v)
  qed
  have 9: "\<forall>issuer.
            Certificates basicResp = []
            \<and> (\<forall>i. issuer = Some i \<longrightarrow>
                  CheckSignature env i (getSignatureAlgorithmFromAI (br_SignatureAlgorithm basicResp))
                    (rd_Raw (br_TBSResponseData basicResp)) (RightAlign (br_Signature basicResp)) = None)
            \<and> \<not> list_ex Critical (SingleExtensions singleResp)
            \<and> Algorithm (cid_HashAlgorithm (sr_CertID singleResp))
                 \<in> {oidSHA1, oidSHA256, oidSHA384, oidSHA512}
            \<longrightarrow> ParseResponseForCert env der cert issuer
                  = Inr (classify singleResp
                           (ret\<lparr>IssuerHash := getHashAlgorithmFromOID
                                  (Algorithm (cid_HashAlgorithm (sr_CertID singleResp)))\<rparr>))"
  proof (intro allI impI, elim conjE)
    fix issuer
    assume a: "Certificates basicResp = []"
      "\<forall>i. issuer = Some i \<longrightarrow>
         CheckSignature env i (getSignatureAlgorithmFromAI (br_SignatureAlgorithm basicResp))
           (rd_Raw (br_TBSResponseData basicResp)) (RightAlign (br_Signature basicResp)) = None"
      "\<not> list_ex Critical (SingleExtensions singleResp)"
      and h: "Algorithm (cid_HashAlgorithm (sr_CertID singleResp))
                \<in> {oidSHA1, oidSHA256, oidSHA384, oidSHA512}"
    have v: "verifySignatures env (Certificates basicResp) issuer ret = Inr ret"
      using a(1,2) by (cases issuer) (simp_all add: verifySignatures_def CheckSignatureFrom_def F)
    show "ParseResponseForCert env der cert issuer
            = Inr (classify singleResp
                     (ret\<lparr>IssuerHash := getHashAlgorithmFromOID
                            (Algorithm (cid_HashAlgorithm (sr_CertID singleResp)))\<rparr>))"
      using a(3) H [OF h] by (simp add: P B v)
  qed
  from 1 2 3 4 5 6 7 8 9 show ?thesis by blast
qed


lemma example7_decodes: "decodesTo exampleEnv (exampleDER 7) (exampleBodies ! 6)"
  by (simp add: decodesTo_def response_defs example_defs reader_defs)

lemma example9_decodes: "decodesTo exampleEnv (exampleDER 9) (exampleBodies ! 8)"
  by (simp add: decodesTo_def response_defs example_defs reader_defs)

lemma example_signature:
  "getSignatureAlgorithmFromAI \<lparr>Algorithm = oidSignatureSHA256WithRSA, Parameters = NullRawValue\<rparr>
     = SHA256WithRSA"
  by (simp add: getSignatureAlgorithmFromAI_def signatureAlgorithmDetails_def detail_def
        oidSignatureSHA256WithRSA_def oidSignatureRSAPSS_def oidSignatureMD2WithRSA_def
        oidSignatureMD5WithRSA_def oidSignatureSHA1WithRSA_def)

theorem embedded_certificate_verification_witness:
  "decodesTo exampleEnv (exampleDER 7) (exampleBodies ! 6)
   \<and> selectSingleResponse (Responses (br_TBSResponseData (exampleBodies ! 6))) None
       = Inr (exampleSingle 5 True False False)
   \<and> responderID exampleEnv (RawResponderID (br_TBSResponseData (exampleBodies ! 6)))
        (initialResponse (exampleDER 7) (exampleBodies ! 6) (exampleSingle 5 True False False))
       = Inr ((initialResponse (exampleDER 7) (exampleBodies ! 6) (exampleSingle 5 True False False))
                \<lparr>ResponderKeyHash := Some [0x0C, 0x0D]\<rparr>)
   \<and> Certificates (exampleBodies ! 6) = [rawCertificate [0x09, 0x09], rawCertificate [0xFF]]
   \<and> ParseCertificate exampleEnv [0x09, 0x09] = Inr (exampleCertificate [0x09, 0x09])
   \<and> CheckSignature exampleEnv (exampleCertificate [0x09, 0x09]) SHA256WithRSA [0x30, 0x00] [0xAA, 0xBB]
       = Some ''crypto/rsa: verification error''
   \<and> ParseResponseForCert exampleEnv (exampleDER 7) None None
       = Inl (ParseError ''bad signature on embedded certificate: crypto/rsa: verification error'')
   \<and> decodesTo exampleEnv (exampleDER 9) (exampleBodies ! 8)
   \<and> Certificates (exampleBodies ! 8) = [rawCertificate [0xAA, 0xBB], rawCertificate [0xFF]]
   \<and> CheckSignature exampleEnv (exampleCertificate [0xAA, 0xBB]) SHA256WithRSA [0x30, 0x00] [0xAA, 0xBB]
       = None
   \<and> ParseResponseForCert exampleEnv (exampleDER 9) None (Some (exampleCertificate [0x01]))
       = Inl (ParseError ''bad OCSP signature: crypto/rsa: verification error'')
   \<and> decodesTo exampleEnv (exampleDER 1) (exampleBodies ! 0)
   \<and> Certificates (exampleBodies ! 0) = []
   \<and> ParseResponseForCert exampleEnv (exampleDER 1) None (Some (exampleCertificate [0x01]))
       = Inl (ParseError ''bad OCSP signature: crypto/rsa: verification error'')
   \<and> ParseCertificate exampleEnv [0xFF] = Inl (OtherError ''x509: malformed certificate'')
   \<and> ParseResponseForCert exampleEnv (exampleDER 9) None None
       = Inr (classify (exampleSingle 5 True False False)
                ((initialResponse (exampleDER 9) (exampleBodies ! 8) (exampleSingle 5 True False False))
                   \<lparr>ResponderKeyHash := Some [0x0C, 0x0D],
                    Certificate := Some (exampleCertificate [0xAA, 0xBB]),
                    IssuerHash := SHA1\<rparr>))
   \<and> ParseResponseForCert exampleEnv (exampleDER 9) None (Some (exampleCertificate [0x0E]))
       = Inr (classify (exampleSingle 5 True False False)
                ((initialResponse (exampleDER 9) (exampleBodies ! 8) (exampleSingle 5 True False False))
                   \<lparr>ResponderKeyHash := Some [0x0C, 0x0D],
                    Certificate := Some (exampleCertificate [0xAA, 0xBB]),
                    IssuerHash := SHA1\<rparr>))
   \<and> ParseResponseForCert exampleEnv (exampleDER 1) None (Some (exampleCertificate [0xAA, 0xBB]))
       = Inr (classify (exampleSingle 5 True True False)
                ((initialResponse (exampleDER 1) (exampleBodies ! 0) (exampleSingle 5 True True False))
                   \<lparr>ResponderKeyHash := Some [0x0C, 0x0D], IssuerHash := SHA1\<rparr>))
   \<and> ParseResponseForCert exampleEnv (exampleDER 7) None None
       = buildResponse exampleEnv (exampleDER 7)
           ((exampleBodies ! 6)\<lparr>Certificates := [rawCertificate [0x09, 0x09]]\<rparr>)
           (exampleSingle 5 True False False) None"
proof -
  have s7: "selectSingleResponse (Responses (br_TBSResponseData (exampleBodies ! 6))) None
       = Inr (exampleSingle 5 True False False)"
    and s9: "selectSingleResponse (Responses (br_TBSResponseData (exampleBodies ! 8))) None
       = Inr (exampleSingle 5 True False False)"
    and s1: "selectSingleResponse (Responses (br_TBSResponseData (exampleBodies ! 0))) None
       = Inr (exampleSingle 5 True True False)"
    by (simp_all add: selectSingleResponse_def exampleBodies_def exampleBasic_def)
  have r7: "responderID exampleEnv (RawResponderID (br_TBSResponseData (exampleBodies ! 6)))
        (initialResponse (exampleDER 7) (exampleBodies ! 6) (exampleSingle 5 True False False))
       = Inr ((initialResponse (exampleDER 7) (exampleBodies ! 6) (exampleSingle 5 True False False))
                \<lparr>ResponderKeyHash := Some [0x0C, 0x0D]\<rparr>)"
    and r9: "responderID exampleEnv (RawResponderID (br_TBSResponseData (exampleBodies ! 8)))
        (initialResponse (exampleDER 9) (exampleBodies ! 8) (exampleSingle 5 True False False))
       = Inr ((initialResponse (exampleDER 9) (exampleBodies ! 8) (exampleSingle 5 True False False))
                \<lparr>ResponderKeyHash := Some [0x0C, 0x0D]\<rparr>)"
    and r1: "responderID exampleEnv (RawResponderID (br_TBSResponseData (exampleBodies ! 0)))
        (initialResponse (exampleDER 1) (exampleBodies ! 0) (exampleSingle 5 True True False))
       = Inr ((initialResponse (exampleDER 1) (exampleBodies ! 0) (exampleSingle 5 True True False))
                \<lparr>ResponderKeyHash := Some [0x0C, 0x0D]\<rparr>)"
    by (simp_all add: responderID_def exampleBodies_def exampleBasic_def byKeyHash_def reader_defs)
  have f: "Certificates (exampleBodies ! 6) = [rawCertificate [0x09, 0x09], rawCertificate [0xFF]]"
    "Certificates (exampleBodies ! 8) = [rawCertificate [0xAA, 0xBB], rawCertificate [0xFF]]"
    "Certificates (exampleBodies ! 0) = []"
    "br_SignatureAlgorithm (exampleBodies ! 6)
       = \<lparr>Algorithm = oidSignatureSHA256WithRSA, Parameters = NullRawValue\<rparr>"
    "br_SignatureAlgorithm (exampleBodies ! 8)
       = \<lparr>Algorithm = oidSignatureSHA256WithRSA, Parameters = NullRawValue\<rparr>"
    "br_SignatureAlgorithm (exampleBodies ! 0)
       = \<lparr>Algorithm = oidSignatureSHA256WithRSA, Parameters = NullRawValue\<rparr>"
    "rd_Raw (br_TBSResponseData (exampleBodies ! 6)) = [0x30, 0x00]"
    "rd_Raw (br_TBSResponseData (exampleBodies ! 8)) = [0x30, 0x00]"
    "rd_Raw (br_TBSResponseData (exampleBodies ! 0)) = [0x30, 0x00]"
    "RightAlign (br_Signature (exampleBodies ! 6)) = [0xAA, 0xBB]"
    "RightAlign (br_Signature (exampleBodies ! 8)) = [0xAA, 0xBB]"
    "RightAlign (br_Signature (exampleBodies ! 0)) = [0xAA, 0xBB]"
    by (simp_all add: exampleBodies_def exampleBasic_def RightAlign_def)
  have e: "ParseCertificate exampleEnv [0x09, 0x09] = Inr (exampleCertificate [0x09, 0x09])"
    "ParseCertificate exampleEnv [0xAA, 0xBB] = Inr (exampleCertificate [0xAA, 0xBB])"
    "CheckSignature exampleEnv (exampleCertificate [0x09, 0x09]) SHA256WithRSA [0x30, 0x00] [0xAA, 0xBB]
       = Some ''crypto/rsa: verification error''"
    "CheckSignature exampleEnv (exampleCertificate [0xAA, 0xBB]) SHA256WithRSA [0x30, 0x00] [0xAA, 0xBB]
       = None"
    "CheckSignature exampleEnv (exampleCertificate [0x01]) SHA256WithRSA [0x30, 0x01, 0x00] [0x0E]
       = Some ''crypto/rsa: verification error''"
    "CheckSignature exampleEnv (exampleCertificate [0x01]) SHA256WithRSA [0x30, 0x00] [0xAA, 0xBB]
       = Some ''crypto/rsa: verification error''"
    by (simp_all add: exampleEnv_def exampleCertificate_def)
  note T7 = embedded_certificate_verification [OF example7_decodes s7 r7]
  note T9 = embedded_certificate_verification [OF example9_decodes s9 r9]
  note T1 = embedded_certificate_verification [OF example1_decodes s1 r1]
  have a7: "ParseResponseForCert exampleEnv (exampleDER 7) None None
       = Inl (ParseError ''bad signature on embedded certificate: crypto/rsa: verification error'')"
    using T7 [THEN conjunct1, rule_format,
        where ?c0.0 = "rawCertificate [0x09, 0x09]" and cs = "[rawCertificate [0xFF]]"
          and c = "exampleCertificate [0x09, 0x09]" and msg = "''crypto/rsa: verification error''"
          and issuer = None]
    by (simp add: f e example_signature rawCertificate_def)
  have a9: "ParseResponseForCert exampleEnv (exampleDER 9) None (Some (exampleCertificate [0x01]))
       = Inl (ParseError ''bad OCSP signature: crypto/rsa: verification error'')"
    using T9 [THEN conjunct2, THEN conjunct1, rule_format,
        where ?c0.0 = "rawCertificate [0xAA, 0xBB]" and cs = "[rawCertificate [0xFF]]"
          and c = "exampleCertificate [0xAA, 0xBB]" and msg = "''crypto/rsa: verification error''"
          and i = "exampleCertificate [0x01]"]
    by (simp add: f e example_signature rawCertificate_def)
       (simp add: exampleCertificate_def exampleEnv_def)
  have a1: "ParseResponseForCert exampleEnv (exampleDER 1) None (Some (exampleCertificate [0x01]))
       = Inl (ParseError ''bad OCSP signature: crypto/rsa: verification error'')"
    using T1 [THEN conjunct2, THEN conjunct2, THEN conjunct1, rule_format,
        where msg = "''crypto/rsa: verification error''" and i = "exampleCertificate [0x01]"]
    by (simp add: f e example_signature)
  have x: "\<not> list_ex Critical (SingleExtensions (exampleSingle 5 True False False))"
    "\<not> list_ex Critical (SingleExtensions (exampleSingle 5 True True False))"
    "Algorithm (cid_HashAlgorithm (sr_CertID (exampleSingle 5 True False False))) = oidSHA1"
    "Algorithm (cid_HashAlgorithm (sr_CertID (exampleSingle 5 True True False))) = oidSHA1"
    "getHashAlgorithmFromOID oidSHA1 = SHA1"
    by (simp_all add: exampleSingle_def getHashAlgorithmFromOID_def hash_defs)
  have g: "ParseCertificate exampleEnv [0xFF] = Inl (OtherError ''x509: malformed certificate'')"
    "CheckSignature exampleEnv (exampleCertificate [0x0E])
       (cert_SignatureAlgorithm (exampleCertificate [0xAA, 0xBB]))
       (cert_RawTBSCertificate (exampleCertificate [0xAA, 0xBB]))
       (cert_Signature (exampleCertificate [0xAA, 0xBB])) = None"
    "CheckSignature exampleEnv (exampleCertificate [0xAA, 0xBB]) SHA256WithRSA [0x30, 0x00] [0xAA, 0xBB]
       = None"
    by (simp_all add: exampleEnv_def exampleCertificate_def)
  note A9 = T9 [THEN conjunct2, THEN conjunct2, THEN conjunct2, THEN conjunct2, THEN conjunct2,
      THEN conjunct2, THEN conjunct2, THEN conjunct1, rule_format,
      where ?c0.0 = "rawCertificate [0xAA, 0xBB]" and cs = "[rawCertificate [0xFF]]"
        and c = "exampleCertificate [0xAA, 0xBB]"]
  have b9: "ParseResponseForCert exampleEnv (exampleDER 9) None None
       = Inr (classify (exampleSingle 5 True False False)
                ((initialResponse (exampleDER 9) (exampleBodies ! 8) (exampleSingle 5 True False False))
                   \<lparr>ResponderKeyHash := Some [0x0C, 0x0D],
                    Certificate := Some (exampleCertificate [0xAA, 0xBB]),
                    IssuerHash := SHA1\<rparr>))"
    using A9 [where issuer = None]
    by (simp add: f e g x example_signature rawCertificate_def)
  have c9: "ParseResponseForCert exampleEnv (exampleDER 9) None (Some (exampleCertificate [0x0E]))
       = Inr (classify (exampleSingle 5 True False False)
                ((initialResponse (exampleDER 9) (exampleBodies ! 8) (exampleSingle 5 True False False))
                   \<lparr>ResponderKeyHash := Some [0x0C, 0x0D],
                    Certificate := Some (exampleCertificate [0xAA, 0xBB]),
                    IssuerHash := SHA1\<rparr>))"
    using A9 [where issuer = "Some (exampleCertificate [0x0E])"]
    by (simp add: f e g x example_signature rawCertificate_def)
  have b1: "ParseResponseForCert exampleEnv (exampleDER 1) None (Some (exampleCertificate [0xAA, 0xBB]))
       = Inr (classify (exampleSingle 5 True True False)
                ((initialResponse (exampleDER 1) (exampleBodies ! 0) (exampleSingle 5 True True False))
                   \<lparr>ResponderKeyHash := Some [0x0C, 0x0D], IssuerHash := SHA1\<rparr>))"
    using T1 [THEN conjunct2, THEN conjunct2, THEN conjunct2, THEN conjunct2, THEN conjunct2,
      THEN conjunct2, THEN conjunct2, THEN conjunct2, rule_format,
      where issuer = "Some (exampleCertificate [0xAA, 0xBB])"]
    by (simp add: f e g x example_signature)
  have b7: "ParseResponseForCert exampleEnv (exampleDER 7) None None
       = buildResponse exampleEnv (exampleDER 7)
           ((exampleBodies ! 6)\<lparr>Certificates := [rawCertificate [0x09, 0x09]]\<rparr>)
           (exampleSingle 5 True False False) None"
    using T7 [THEN conjunct2, THEN conjunct2, THEN conjunct2, THEN conjunct2, THEN conjunct2,
      THEN conjunct1, rule_format,
      where ?c0.0 = "rawCertificate [0x09, 0x09]" and cs = "[rawCertificate [0xFF]]"
        and issuer = None]
    by (simp add: f)
  show ?thesis
    using a7 a9 a1 b9 c9 b1 b7 example7_decodes example9_decodes example1_decodes s7 r7
    by (simp add: f e g(1))
qed

subsection \<open>The responder ID\<close>



lemma example5_decodes: "decodesTo exampleEnv (exampleDER 5) (exampleBodies ! 4)"
  by (simp add: decodesTo_def response_defs example_defs reader_defs)

lemma example6_decodes: "decodesTo exampleEnv (exampleDER 6) (exampleBodies ! 5)"
  by (simp add: decodesTo_def response_defs example_defs reader_defs)



subsection \<open>Critical extensions\<close>

text \<open>
  Claim C9, as the code has it. A response whose chosen single response carries an
  extension marked critical is never parsed successfully. The responder ID, the embedded
  certificate and the signatures are examined first, and an error found there is the one
  returned; when they pass, the error is the parse error ``unsupported critical
  extension'', whatever the hash algorithm of the CertID and the status flags are.
\<close>

theorem critical_extension_rejected:
  assumes D: "decodesTo env der basicResp"
    and S: "selectSingleResponse (Responses (br_TBSResponseData basicResp)) cert = Inr singleResp"
    and C: "\<exists>ext\<in>set (SingleExtensions singleResp). Critical ext"
  shows "(\<exists>err. ParseResponseForCert env der cert issuer = Inl err)
       \<and> (\<forall>ret ret'.
            responderID env (RawResponderID (br_TBSResponseData basicResp))
              (initialResponse der basicResp singleResp) = Inr ret
            \<and> verifySignatures env (Certificates basicResp) issuer ret = Inr ret' \<longrightarrow>
            ParseResponseForCert env der cert issuer
              = Inl (ParseError ''unsupported critical extension''))"
proof -
  have P: "ParseResponseForCert env der cert issuer
             = buildResponse env der basicResp singleResp issuer"
    by (simp add: ParseResponseForCert_decoded [OF D] S)
  from C have L: "list_ex Critical (SingleExtensions singleResp)"
    by (simp add: list_ex_iff)
  have "\<exists>err. ParseResponseForCert env der cert issuer = Inl err"
  proof (cases "ParseResponseForCert env der cert issuer")
    case (Inl e)
    then show ?thesis by blast
  next
    case (Inr r)
    with P have "buildResponse env der basicResp singleResp issuer = Inr r" by simp
    from buildResponse_Inr [OF this] L show ?thesis by blast
  qed
  moreover have "\<forall>ret ret'.
        responderID env (RawResponderID (br_TBSResponseData basicResp))
          (initialResponse der basicResp singleResp) = Inr ret
        \<and> verifySignatures env (Certificates basicResp) issuer ret = Inr ret' \<longrightarrow>
        ParseResponseForCert env der cert issuer
          = Inl (ParseError ''unsupported critical extension'')"
    by (simp add: P buildResponse_def L)
  ultimately show ?thesis by blast
qed

theorem critical_extension_rejected_witness:
  "decodesTo exampleEnv (exampleDER 6) (exampleBodies ! 5)
   \<and> selectSingleResponse (Responses (br_TBSResponseData (exampleBodies ! 5))) None
       = Inr (exampleSingle 5 True False True)
   \<and> (\<exists>ext\<in>set (SingleExtensions (exampleSingle 5 True False True)). Critical ext)
   \<and> ParseResponseForCert exampleEnv (exampleDER 6) None None
       = Inl (ParseError ''unsupported critical extension'')"
proof -
  have s6: "selectSingleResponse (Responses (br_TBSResponseData (exampleBodies ! 5))) None
       = Inr (exampleSingle 5 True False True)"
    by (simp add: selectSingleResponse_def exampleBodies_def exampleBasic_def)
  have c6: "\<exists>ext\<in>set (SingleExtensions (exampleSingle 5 True False True)). Critical ext"
    by (simp add: exampleSingle_def)
  have r6: "responderID exampleEnv (RawResponderID (br_TBSResponseData (exampleBodies ! 5)))
        (initialResponse (exampleDER 6) (exampleBodies ! 5) (exampleSingle 5 True False True))
       = Inr ((initialResponse (exampleDER 6) (exampleBodies ! 5) (exampleSingle 5 True False True))
                \<lparr>ResponderKeyHash := Some [0x0C, 0x0D]\<rparr>)"
    by (simp add: responderID_def exampleBodies_def exampleBasic_def byKeyHash_def reader_defs)
  have v6: "verifySignatures exampleEnv (Certificates (exampleBodies ! 5)) None
        ((initialResponse (exampleDER 6) (exampleBodies ! 5) (exampleSingle 5 True False True))
                \<lparr>ResponderKeyHash := Some [0x0C, 0x0D]\<rparr>)
       = Inr ((initialResponse (exampleDER 6) (exampleBodies ! 5) (exampleSingle 5 True False True))
                \<lparr>ResponderKeyHash := Some [0x0C, 0x0D]\<rparr>)"
    by (simp add: verifySignatures_def exampleBodies_def exampleBasic_def)
  show ?thesis
    using critical_extension_rejected [OF example6_decodes s6 c6, of None,
        THEN conjunct2, rule_format, OF conjI [OF r6 v6]]
      example6_decodes s6 c6
    by simp
qed

text \<open>
  The claim as stated fails where an earlier check fails. The tenth example response has
  a critical extension and an embedded certificate that does not parse: the error is the
  one of \<open>x509.ParseCertificate\<close>, which is not a \<open>ParseError\<close>. The fifth has a
  critical extension and a responder ID with tag 3: the error is ``invalid responder id
  tag''.
\<close>

lemma example10_decodes: "decodesTo exampleEnv (exampleDER 10) (exampleBodies ! 9)"
  by (simp add: decodesTo_def response_defs example_defs reader_defs)

theorem critical_extension_other_error:
  "decodesTo exampleEnv (exampleDER 10) (exampleBodies ! 9)
   \<and> selectSingleResponse (Responses (br_TBSResponseData (exampleBodies ! 9))) None
       = Inr (exampleSingle 5 True False True)
   \<and> list_ex Critical (SingleExtensions (exampleSingle 5 True False True))
   \<and> ParseResponseForCert exampleEnv (exampleDER 10) None None
       = Inl (OtherError ''x509: malformed certificate'')
   \<and> decodesTo exampleEnv (exampleDER 5) (exampleBodies ! 4)
   \<and> selectSingleResponse (Responses (br_TBSResponseData (exampleBodies ! 4))) None
       = Inr (exampleSingle 5 True False True)
   \<and> ParseResponseForCert exampleEnv (exampleDER 5) None None
       = Inl (ParseError ''invalid responder id tag'')
   \<and> ParseResponseForCert exampleEnv (exampleDER 5) None None
       \<noteq> Inl (ParseError ''unsupported critical extension'')"
proof -
  have "selectSingleResponse (Responses (br_TBSResponseData (exampleBodies ! 4))) None
       = Inr (exampleSingle 5 True False True)"
    and "selectSingleResponse (Responses (br_TBSResponseData (exampleBodies ! 9))) None
       = Inr (exampleSingle 5 True False True)"
    by (simp_all add: selectSingleResponse_def exampleBodies_def exampleBasic_def)
  moreover have "list_ex Critical (SingleExtensions (exampleSingle 5 True False True))"
    by (simp add: exampleSingle_def)
  moreover have "ParseResponseForCert exampleEnv (exampleDER 5) None None
       = Inl (ParseError ''invalid responder id tag'')"
    by (simp add: response_defs example_defs reader_defs hash_defs)
  moreover have "ParseResponseForCert exampleEnv (exampleDER 10) None None
       = Inl (OtherError ''x509: malformed certificate'')"
    by (simp add: response_defs example_defs reader_defs hash_defs)
  ultimately show ?thesis using example5_decodes example10_decodes by simp
qed

section \<open>Signature algorithm resolution\<close>

lemmas pss_defs =
  getSignatureAlgorithmFromAI_def Unmarshal_AlgorithmIdentifier_def Unmarshal_pssParameters_def
  pssParametersSHA256_def pssParametersSHA384_def pssParametersSHA512_def
  oidSHA256_def oidSHA384_def oidSHA512_def oidMGF1_def NullBytes_def oidSignatureRSAPSS_def

lemma non_pss_oid:
  "Algorithm ai \<noteq> oidSignatureRSAPSS \<Longrightarrow>
   getSignatureAlgorithmFromAI ai \<notin> {SHA256WithRSAPSS, SHA384WithRSAPSS, SHA512WithRSAPSS}"
  by (auto simp: getSignatureAlgorithmFromAI_def signatureAlgorithmDetails_def detail_def
           split: if_splits)

lemma pss_oid:
  assumes "Algorithm ai = oidSignatureRSAPSS"
  shows "getSignatureAlgorithmFromAI ai =
           (if pssProfile ai oidSHA256 32 then SHA256WithRSAPSS
            else if pssProfile ai oidSHA384 48 then SHA384WithRSAPSS
            else if pssProfile ai oidSHA512 64 then SHA512WithRSAPSS
            else UnknownSignatureAlgorithm)"
  using assms
  by (auto simp: getSignatureAlgorithmFromAI_def pssProfile_def narrowedProfile_def
        absentOrNull_def oidSHA256_def oidSHA384_def oidSHA512_def
      split: sum.splits prod.splits)

lemma pss_profiles_exclusive:
  "pssProfile ai oidSHA256 32 \<Longrightarrow> \<not> pssProfile ai oidSHA384 48 \<and> \<not> pssProfile ai oidSHA512 64"
  "pssProfile ai oidSHA384 48 \<Longrightarrow> \<not> pssProfile ai oidSHA512 64"
  by (auto simp: pssProfile_def oidSHA256_def oidSHA384_def oidSHA512_def
      split: sum.splits prod.splits)

text \<open>
  Claim C5. An algorithm identifier with the RSA-PSS OID resolves to SHA-256, SHA-384 or
  SHA-512 with RSA-PSS exactly when its parameters decode, satisfy the narrowed profile,
  name that hash and have the salt length 32, 48 or 64 of that hash; every other RSA-PSS
  identifier resolves to \<open>UnknownSignatureAlgorithm\<close> (the function has no error
  result). No other OID resolves to a PSS algorithm. Each of the three parameter
  templates, under the RSA-PSS OID, resolves to its own algorithm.
\<close>

theorem pss_resolution:
  "(Algorithm ai = oidSignatureRSAPSS \<longrightarrow>
      (getSignatureAlgorithmFromAI ai = SHA256WithRSAPSS \<longleftrightarrow> pssProfile ai oidSHA256 32)
      \<and> (getSignatureAlgorithmFromAI ai = SHA384WithRSAPSS \<longleftrightarrow> pssProfile ai oidSHA384 48)
      \<and> (getSignatureAlgorithmFromAI ai = SHA512WithRSAPSS \<longleftrightarrow> pssProfile ai oidSHA512 64)
      \<and> (\<not> pssProfile ai oidSHA256 32 \<and> \<not> pssProfile ai oidSHA384 48
           \<and> \<not> pssProfile ai oidSHA512 64 \<longrightarrow>
           getSignatureAlgorithmFromAI ai = UnknownSignatureAlgorithm))
   \<and> (Algorithm ai \<noteq> oidSignatureRSAPSS \<longrightarrow>
        getSignatureAlgorithmFromAI ai
          \<notin> {SHA256WithRSAPSS, SHA384WithRSAPSS, SHA512WithRSAPSS})
   \<and> getSignatureAlgorithmFromAI
        \<lparr>Algorithm = oidSignatureRSAPSS, Parameters = pssParametersSHA256\<rparr> = SHA256WithRSAPSS
   \<and> getSignatureAlgorithmFromAI
        \<lparr>Algorithm = oidSignatureRSAPSS, Parameters = pssParametersSHA384\<rparr> = SHA384WithRSAPSS
   \<and> getSignatureAlgorithmFromAI
        \<lparr>Algorithm = oidSignatureRSAPSS, Parameters = pssParametersSHA512\<rparr> = SHA512WithRSAPSS"
proof (intro conjI impI)
  assume A: "Algorithm ai = oidSignatureRSAPSS"
  show "getSignatureAlgorithmFromAI ai = SHA256WithRSAPSS \<longleftrightarrow> pssProfile ai oidSHA256 32"
    using pss_profiles_exclusive [of ai] by (auto simp: pss_oid [OF A])
  show "getSignatureAlgorithmFromAI ai = SHA384WithRSAPSS \<longleftrightarrow> pssProfile ai oidSHA384 48"
    using pss_profiles_exclusive [of ai] by (auto simp: pss_oid [OF A])
  show "getSignatureAlgorithmFromAI ai = SHA512WithRSAPSS \<longleftrightarrow> pssProfile ai oidSHA512 64"
    using pss_profiles_exclusive [of ai] by (auto simp: pss_oid [OF A])
  assume "\<not> pssProfile ai oidSHA256 32 \<and> \<not> pssProfile ai oidSHA384 48
           \<and> \<not> pssProfile ai oidSHA512 64"
  then show "getSignatureAlgorithmFromAI ai = UnknownSignatureAlgorithm"
    by (simp add: pss_oid [OF A])
next
  assume "Algorithm ai \<noteq> oidSignatureRSAPSS"
  then show "getSignatureAlgorithmFromAI ai
          \<notin> {SHA256WithRSAPSS, SHA384WithRSAPSS, SHA512WithRSAPSS}"
    by (rule non_pss_oid)
next
  show "getSignatureAlgorithmFromAI
        \<lparr>Algorithm = oidSignatureRSAPSS, Parameters = pssParametersSHA256\<rparr> = SHA256WithRSAPSS"
    by (simp add: pss_defs reader_defs)
  show "getSignatureAlgorithmFromAI
        \<lparr>Algorithm = oidSignatureRSAPSS, Parameters = pssParametersSHA384\<rparr> = SHA384WithRSAPSS"
    by (simp add: pss_defs reader_defs)
  show "getSignatureAlgorithmFromAI
        \<lparr>Algorithm = oidSignatureRSAPSS, Parameters = pssParametersSHA512\<rparr> = SHA512WithRSAPSS"
    by (simp add: pss_defs reader_defs)
qed

text \<open>The SHA-256 template, and the same parameters with the salt length 20.\<close>

definition pssParametersSalt20 :: RawValue where
  "pssParametersSalt20 = emptyRawValue\<lparr>FullBytes :=
     [48, 52, 160, 15, 48, 13, 6, 9, 96, 134, 72, 1, 101, 3, 4, 2, 1, 5, 0, 161, 28, 48, 26, 6, 9,
      42, 134, 72, 134, 247, 13, 1, 1, 8, 48, 13, 6, 9, 96, 134, 72, 1, 101, 3, 4, 2, 1, 5, 0,
      162, 3, 2, 1, 20]\<rparr>"

theorem pss_resolution_witness:
  "Algorithm \<lparr>Algorithm = oidSignatureRSAPSS, Parameters = pssParametersSHA256\<rparr> = oidSignatureRSAPSS
   \<and> pssProfile \<lparr>Algorithm = oidSignatureRSAPSS, Parameters = pssParametersSHA256\<rparr> oidSHA256 32
   \<and> getSignatureAlgorithmFromAI
        \<lparr>Algorithm = oidSignatureRSAPSS, Parameters = pssParametersSHA256\<rparr> = SHA256WithRSAPSS
   \<and> \<not> pssProfile \<lparr>Algorithm = oidSignatureRSAPSS, Parameters = pssParametersSalt20\<rparr> oidSHA256 32
   \<and> \<not> pssProfile \<lparr>Algorithm = oidSignatureRSAPSS, Parameters = pssParametersSalt20\<rparr> oidSHA384 48
   \<and> \<not> pssProfile \<lparr>Algorithm = oidSignatureRSAPSS, Parameters = pssParametersSalt20\<rparr> oidSHA512 64
   \<and> getSignatureAlgorithmFromAI
        \<lparr>Algorithm = oidSignatureRSAPSS, Parameters = pssParametersSalt20\<rparr>
       = UnknownSignatureAlgorithm
   \<and> Algorithm \<lparr>Algorithm = oidSignatureSHA256WithRSA, Parameters = NullRawValue\<rparr>
       \<noteq> oidSignatureRSAPSS
   \<and> getSignatureAlgorithmFromAI
        \<lparr>Algorithm = oidSignatureSHA256WithRSA, Parameters = NullRawValue\<rparr> = SHA256WithRSA"
proof -
  have p: "pssProfile \<lparr>Algorithm = oidSignatureRSAPSS, Parameters = pssParametersSHA256\<rparr> oidSHA256 32"
    by (simp add: pssProfile_def narrowedProfile_def absentOrNull_def pss_defs reader_defs)
  have n: "\<not> pssProfile \<lparr>Algorithm = oidSignatureRSAPSS, Parameters = pssParametersSalt20\<rparr> oidSHA256 32"
    "\<not> pssProfile \<lparr>Algorithm = oidSignatureRSAPSS, Parameters = pssParametersSalt20\<rparr> oidSHA384 48"
    "\<not> pssProfile \<lparr>Algorithm = oidSignatureRSAPSS, Parameters = pssParametersSalt20\<rparr> oidSHA512 64"
    by (simp_all add: pssProfile_def narrowedProfile_def absentOrNull_def pssParametersSalt20_def
          pss_defs reader_defs)
  have o: "oidSignatureSHA256WithRSA \<noteq> oidSignatureRSAPSS"
    by (simp add: oidSignatureSHA256WithRSA_def oidSignatureRSAPSS_def)
  show ?thesis
    using pss_resolution [of "\<lparr>Algorithm = oidSignatureRSAPSS, Parameters = pssParametersSHA256\<rparr>"]
      pss_resolution [of "\<lparr>Algorithm = oidSignatureRSAPSS, Parameters = pssParametersSalt20\<rparr>"]
      pss_resolution [of "\<lparr>Algorithm = oidSignatureSHA256WithRSA, Parameters = NullRawValue\<rparr>"]
      p n o example_signature
    by simp
qed

section \<open>The request parser\<close>

lemma unsigned_request_parsed:
  "ParseRequest rdn unsignedRequestDER =
     Inr \<lparr>HashAlgorithm = SHA1, IssuerNameHash = replicate 20 0x11,
          IssuerKeyHash = replicate 20 0x22, SerialNumber = Some 258, Extensions = []\<rparr>"
  by (simp add: unsignedRequestDER_def exampleTBSRequest_def request_defs reader_defs hash_defs)
     (simp add: numeral_eq_Suc)

text \<open>
  Claim C8 says that a request that includes a signature is rejected, as the comment of
  \<open>ParseRequest\<close> does (lines 523-525). It is not: \<open>ocspRequest\<close> declares only
  \<open>TBSRequest\<close>, and \<open>encoding/asn1\<close> allows bytes after the last field of a struct, so
  the \<open>optionalSignature\<close> is skipped and the signed request parses to the same
  \<open>Request\<close> as the unsigned one.
\<close>

theorem signed_request_accepted:
  "ParseRequest rdn signedRequestDER =
     Inr \<lparr>HashAlgorithm = SHA1, IssuerNameHash = replicate 20 0x11,
          IssuerKeyHash = replicate 20 0x22, SerialNumber = Some 258, Extensions = []\<rparr>"
  by (simp add: signedRequestDER_def exampleTBSRequest_def exampleSignature_def
        request_defs reader_defs hash_defs)
     (simp add: numeral_eq_Suc)

text \<open>The other rejections that the claim lists do hold: a decoding error, trailing data
  after the request, an empty request list, and a hash OID that is not one of the four.\<close>

lemma ParseRequest_rejects:
  "(Unmarshal_ocspRequest rdn der = Inl err \<longrightarrow> ParseRequest rdn der = Inl err)
   \<and> (Unmarshal_ocspRequest rdn der = Inr (req, rest) \<and> rest \<noteq> [] \<longrightarrow>
        ParseRequest rdn der = Inl (ParseError ''trailing data in OCSP request''))
   \<and> (Unmarshal_ocspRequest rdn der = Inr (req, []) \<and> RequestList (TBSRequest req) = [] \<longrightarrow>
        ParseRequest rdn der = Inl (ParseError ''OCSP request contains no request body''))
   \<and> (Unmarshal_ocspRequest rdn der = Inr (req, []) \<and> RequestList (TBSRequest req) = r # rs
        \<and> Algorithm (cid_HashAlgorithm (Cert r)) \<notin> {oidSHA1, oidSHA256, oidSHA384, oidSHA512} \<longrightarrow>
        ParseRequest rdn der = Inl (ParseError ''OCSP request uses unknown hash function''))"
  by (auto simp: ParseRequest_def getHashAlgorithmFromOID_def hashOIDs_def)

section \<open>The round trip of a request\<close>

text \<open>
  \<open>ParseRequest\<close> reads back what \<open>Marshal\<close> writes. The proof follows the
  encoding from the inside out: the length octets, the integer, the tagged elements, the
  algorithm identifier of the hash, and the five nested sequences of a request.
\<close>

subsection \<open>Length octets\<close>

lemma byte_and_7f: "unat ((w :: byte) AND 0x7f) = unat w mod 128"
proof -
  have "(0x7f :: byte) = mask 7" by (simp add: mask_eq_exp_minus_1)
  then have "w AND 0x7f = take_bit 7 w" by (simp only: take_bit_eq_mask)
  then show ?thesis by (simp add: unsigned_take_bit_eq take_bit_eq_mod unat_mod)
qed

lemma byte_and_80: "((w :: byte) AND 0x80 = 0) \<longleftrightarrow> unat w < 128"
proof -
  have "(0x80 :: byte) = 2 ^ 7" by simp
  then have "(w AND 0x80 = 0) \<longleftrightarrow> \<not> bit w 7"
    by (simp only: and_exp_eq_0_iff_not_bit)
  also have "bit w 7 \<longleftrightarrow> bit (unat w) 7"
    by (simp add: bit_unsigned_iff)
  also have "bit (unat w) 7 \<longleftrightarrow> 128 \<le> unat w"
  proof -
    have "unat w < 256" using unsigned_less [of w, where ?'a = nat] by simp
    then have "unat w div 128 < 2" by simp
    then show ?thesis
      by (auto simp: bit_iff_odd_drop_bit drop_bit_eq_div elim!: oddE)
  qed
  finally show ?thesis by auto
qed

lemma unat_byte_of_nat: "unat (of_nat n :: byte) = n mod 256"
  by (simp add: unat_of_nat)

lemma lengthLength_cases:
  "n < 256 \<Longrightarrow> lengthLength n = 1"
  "256 \<le> n \<Longrightarrow> n < 65536 \<Longrightarrow> lengthLength n = 2"
  "65536 \<le> n \<Longrightarrow> n < 16777216 \<Longrightarrow> lengthLength n = 3"
  "16777216 \<le> n \<Longrightarrow> n < 4294967296 \<Longrightarrow> lengthLength n = 4"
proof -
  have 1: "\<And>n. n < 256 \<Longrightarrow> lengthLength n = 1"
    by (subst lengthLength.simps) simp
  have 2: "\<And>n. 256 \<le> n \<Longrightarrow> n < 65536 \<Longrightarrow> lengthLength n = 2"
    by (subst lengthLength.simps) (simp add: 1 drop_bit_eq_div)
  have 3: "\<And>n. 65536 \<le> n \<Longrightarrow> n < 16777216 \<Longrightarrow> lengthLength n = 3"
    by (subst lengthLength.simps) (simp add: 2 drop_bit_eq_div)
  have 4: "\<And>n. 16777216 \<le> n \<Longrightarrow> n < 4294967296 \<Longrightarrow> lengthLength n = 4"
    by (subst lengthLength.simps) (simp add: 3 drop_bit_eq_div)
  show "n < 256 \<Longrightarrow> lengthLength n = 1"
    "256 \<le> n \<Longrightarrow> n < 65536 \<Longrightarrow> lengthLength n = 2"
    "65536 \<le> n \<Longrightarrow> n < 16777216 \<Longrightarrow> lengthLength n = 3"
    "16777216 \<le> n \<Longrightarrow> n < 4294967296 \<Longrightarrow> lengthLength n = 4"
    using 1 2 3 4 by blast+
qed

lemma upt_from_1:
  "[Suc 0..<2] = [1]" "[Suc 0..<3] = [1, 2]" "[Suc 0..<4] = [1, 2, 3]" "[Suc 0..<5] = [1, 2, 3, 4]"
  by code_simp+

lemma div_256_step: "(n div (k * 256)) * 256 + (n div k) mod 256 = (n :: nat) div k"
proof -
  have "n div (k * 256) = (n div k) div 256" by (simp add: div_mult2_eq)
  then show ?thesis by simp
qed

lemma unat_byte_less: "unat (w :: byte) < 256"
  using unsigned_less [of w, where ?'a = nat] by simp

lemma parseLength_loop_step:
  "l < 8388608 \<Longrightarrow> 0 < l * 256 + unat b \<Longrightarrow>
   parseLength_loop (Suc n) l (b # bs) = parseLength_loop n (l * 256 + unat b) bs"
  by (auto simp: Let_def)

lemma parseLength_loop_1:
  assumes "unat a \<noteq> 0"
  shows "parseLength_loop (Suc 0) 0 (a # rest) = Inr (unat a, rest)"
proof -
  have "parseLength_loop (Suc 0) 0 (a # rest) = parseLength_loop 0 (0 * 256 + unat a) rest"
    by (rule parseLength_loop_step) (use assms in simp_all)
  then show ?thesis by simp
qed

lemma parseLength_loop_2:
  assumes "unat a \<noteq> 0"
  shows "parseLength_loop (Suc (Suc 0)) 0 (a # b # rest) = Inr (unat a * 256 + unat b, rest)"
proof -
  have a: "unat a < 256" by (rule unat_byte_less)
  have "parseLength_loop (Suc (Suc 0)) 0 (a # b # rest)
      = parseLength_loop (Suc 0) (0 * 256 + unat a) (b # rest)"
    by (rule parseLength_loop_step) (use assms in simp_all)
  also have "\<dots> = parseLength_loop (Suc 0) (unat a) (b # rest)" by simp
  also have "\<dots> = parseLength_loop 0 (unat a * 256 + unat b) rest"
    by (rule parseLength_loop_step) (use assms a in simp_all)
  finally show ?thesis by simp
qed

lemma parseLength_loop_3:
  assumes "unat a \<noteq> 0"
  shows "parseLength_loop (Suc (Suc (Suc 0))) 0 (a # b # c # rest)
     = Inr ((unat a * 256 + unat b) * 256 + unat c, rest)"
proof -
  have a: "unat a < 256" and b: "unat b < 256" by (rule unat_byte_less)+
  have ab: "unat a * 256 + unat b < 8388608" using a b by linarith
  have "parseLength_loop (Suc (Suc (Suc 0))) 0 (a # b # c # rest)
      = parseLength_loop (Suc (Suc 0)) (0 * 256 + unat a) (b # c # rest)"
    by (rule parseLength_loop_step) (use assms in simp_all)
  also have "\<dots> = parseLength_loop (Suc (Suc 0)) (unat a) (b # c # rest)" by simp
  also have "\<dots> = parseLength_loop (Suc 0) (unat a * 256 + unat b) (c # rest)"
    by (rule parseLength_loop_step) (use assms a in simp_all)
  also have "\<dots> = parseLength_loop 0 ((unat a * 256 + unat b) * 256 + unat c) rest"
    by (rule parseLength_loop_step) (use assms ab in simp_all)
  finally show ?thesis by simp
qed

lemma parseLength_loop_4:
  assumes "unat a \<noteq> 0" and "unat a < 128"
  shows "parseLength_loop (Suc (Suc (Suc (Suc 0)))) 0 (a # b # c # d # rest)
     = Inr (((unat a * 256 + unat b) * 256 + unat c) * 256 + unat d, rest)"
proof -
  have a: "unat a < 256" and b: "unat b < 256" and c: "unat c < 256"
    by (rule unat_byte_less)+
  have ab: "unat a * 256 + unat b < 8388608" using a b by linarith
  have "unat a * 256 + unat b \<le> 32767" using assms(2) b by linarith
  then have "(unat a * 256 + unat b) * 256 \<le> 32767 * 256" by (rule mult_le_mono1)
  then have abc: "(unat a * 256 + unat b) * 256 + unat c < 8388608"
    using c by linarith
  have "parseLength_loop (Suc (Suc (Suc (Suc 0)))) 0 (a # b # c # d # rest)
      = parseLength_loop (Suc (Suc (Suc 0))) (0 * 256 + unat a) (b # c # d # rest)"
    by (rule parseLength_loop_step) (use assms in simp_all)
  also have "\<dots> = parseLength_loop (Suc (Suc (Suc 0))) (unat a) (b # c # d # rest)" by simp
  also have "\<dots> = parseLength_loop (Suc (Suc 0)) (unat a * 256 + unat b) (c # d # rest)"
    by (rule parseLength_loop_step) (use assms a in simp_all)
  also have "\<dots> = parseLength_loop (Suc 0) ((unat a * 256 + unat b) * 256 + unat c) (d # rest)"
    by (rule parseLength_loop_step) (use assms ab in simp_all)
  also have "\<dots>
      = parseLength_loop 0 (((unat a * 256 + unat b) * 256 + unat c) * 256 + unat d) rest"
    by (rule parseLength_loop_step) (use assms abc in simp_all)
  finally show ?thesis by simp
qed

lemma lengthOctets_1: "n < 128 \<Longrightarrow> lengthOctets n = [of_nat n]"
  by (simp add: lengthOctets_def)

lemma lengthOctets_2: "128 \<le> n \<Longrightarrow> n < 256 \<Longrightarrow> lengthOctets n = [0x81, of_nat n]"
  by (simp add: lengthOctets_def appendLength_def lengthLength_cases upt_from_1)

lemma lengthOctets_3:
  "256 \<le> n \<Longrightarrow> n < 65536 \<Longrightarrow> lengthOctets n = [0x82, of_nat (n div 256), of_nat n]"
  by (simp add: lengthOctets_def appendLength_def lengthLength_cases upt_from_1 drop_bit_eq_div)

lemma lengthOctets_4:
  "65536 \<le> n \<Longrightarrow> n < 16777216 \<Longrightarrow>
   lengthOctets n = [0x83, of_nat (n div 65536), of_nat (n div 256), of_nat n]"
  by (simp add: lengthOctets_def appendLength_def lengthLength_cases upt_from_1 drop_bit_eq_div)

lemma lengthOctets_5:
  "16777216 \<le> n \<Longrightarrow> n < 4294967296 \<Longrightarrow>
   lengthOctets n = [0x84, of_nat (n div 16777216), of_nat (n div 65536), of_nat (n div 256), of_nat n]"
  by (simp add: lengthOctets_def appendLength_def lengthLength_cases upt_from_1 drop_bit_eq_div)

lemma short_form:
  assumes "n < 128"
  shows "(of_nat n :: byte) AND 0x80 = 0" and "unat ((of_nat n :: byte) AND 0x7f) = n"
  using assms by (simp_all add: byte_and_80 byte_and_7f unat_byte_of_nat)

lemma big_endian_values:
  fixes n :: nat
  shows "n div 256 * 256 + n mod 256 = n"
    and "(n div 65536 * 256 + n div 256 mod 256) * 256 + n mod 256 = n"
    and "((n div 16777216 * 256 + n div 65536 mod 256) * 256 + n div 256 mod 256) * 256
           + n mod 256 = n"
proof -
  show s1: "n div 256 * 256 + n mod 256 = n" by simp
  have s2: "n div 65536 * 256 + n div 256 mod 256 = n div 256"
    using div_256_step [of n 256] by simp
  have s3: "n div 16777216 * 256 + n div 65536 mod 256 = n div 65536"
    using div_256_step [of n 65536] by simp
  show "(n div 65536 * 256 + n div 256 mod 256) * 256 + n mod 256 = n"
    by (simp only: s2 s1)
  show "((n div 16777216 * 256 + n div 65536 mod 256) * 256 + n div 256 mod 256) * 256
           + n mod 256 = n"
    by (simp only: s3 s2 s1)
qed

lemma parseTagAndLength_long:
  assumes b: "unat (b AND 0x1f) \<noteq> 31"
    and c: "c AND 0x80 \<noteq> 0" "unat (c AND 0x7f) = k" "k \<noteq> 0"
    and l: "parseLength_loop k 0 cs = Inr (l, rest)" "128 \<le> l"
  shows "parseTagAndLength (b # c # cs) =
           Inr (\<lparr>class = unat (drop_bit 6 b), tag = unat (b AND 0x1f), len = l,
                 isCompound = (b AND 0x20 = 0x20)\<rparr>, rest)"
  using assms by (simp add: parseTagAndLength_def del: parseLength_loop.simps)

lemma long_form_octet:
  "(0x81 :: byte) AND 0x80 \<noteq> 0" "unat ((0x81 :: byte) AND 0x7f) = Suc 0"
  "(0x82 :: byte) AND 0x80 \<noteq> 0" "unat ((0x82 :: byte) AND 0x7f) = Suc (Suc 0)"
  "(0x83 :: byte) AND 0x80 \<noteq> 0" "unat ((0x83 :: byte) AND 0x7f) = Suc (Suc (Suc 0))"
  "(0x84 :: byte) AND 0x80 \<noteq> 0" "unat ((0x84 :: byte) AND 0x7f) = Suc (Suc (Suc (Suc 0)))"
  by simp_all

lemma parseTagAndLength_lengthOctets:
  assumes n: "n < 2 ^ 31" and b: "unat (b AND 0x1f) \<noteq> 31"
  shows "parseTagAndLength (b # lengthOctets n @ rest) =
           Inr (\<lparr>class = unat (drop_bit 6 b), tag = unat (b AND 0x1f), len = n,
                 isCompound = (b AND 0x20 = 0x20)\<rparr>, rest)"
proof -
  consider "n < 128" | "128 \<le> n" "n < 256" | "256 \<le> n" "n < 65536"
    | "65536 \<le> n" "n < 16777216" | "16777216 \<le> n" "n < 2147483648"
    using n by fastforce
  then show ?thesis
  proof cases
    case 1
    then show ?thesis
      using b by (simp add: parseTagAndLength_def lengthOctets_1 short_form)
  next
    case 2
    then have v: "unat (of_nat n :: byte) = n" by (simp add: unat_byte_of_nat)
    with 2 have nz: "unat (of_nat n :: byte) \<noteq> 0" by simp
    have "parseLength_loop (Suc 0) 0 (of_nat n # rest) = Inr (n, rest)"
      using parseLength_loop_1 [OF nz, of rest] by (simp only: v)
    from parseTagAndLength_long [OF b long_form_octet(1,2) _ this] 2
    show ?thesis by (simp add: lengthOctets_2)
  next
    case 3
    then have d: "n div 256 < 256" "n div 256 \<noteq> 0" by auto
    then have m: "n div 256 mod 256 = n div 256" by simp
    then have v: "unat (of_nat (n div 256) :: byte) = n div 256"
      by (simp add: unat_byte_of_nat)
    with d have nz: "unat (of_nat (n div 256) :: byte) \<noteq> 0" by simp
    have "parseLength_loop (Suc (Suc 0)) 0 (of_nat (n div 256) # of_nat n # rest) = Inr (n, rest)"
      using parseLength_loop_2 [OF nz, of "of_nat n" rest]
      by (simp only: unat_byte_of_nat m big_endian_values)
    from parseTagAndLength_long [OF b long_form_octet(3,4) _ this] 3
    show ?thesis by (simp add: lengthOctets_3)
  next
    case 4
    then have d: "n div 65536 < 256" "n div 65536 \<noteq> 0" by auto
    then have m: "n div 65536 mod 256 = n div 65536" by simp
    then have v: "unat (of_nat (n div 65536) :: byte) = n div 65536"
      by (simp add: unat_byte_of_nat)
    with d have nz: "unat (of_nat (n div 65536) :: byte) \<noteq> 0" by simp
    have "parseLength_loop (Suc (Suc (Suc 0))) 0
            (of_nat (n div 65536) # of_nat (n div 256) # of_nat n # rest) = Inr (n, rest)"
      using parseLength_loop_3 [OF nz, of "of_nat (n div 256)" "of_nat n" rest]
      by (simp only: unat_byte_of_nat m big_endian_values)
    from parseTagAndLength_long [OF b long_form_octet(5,6) _ this] 4
    show ?thesis by (simp add: lengthOctets_4)
  next
    case 5
    then have d: "n div 16777216 < 128" "n div 16777216 \<noteq> 0" by auto
    then have m: "n div 16777216 mod 256 = n div 16777216" by simp
    then have v: "unat (of_nat (n div 16777216) :: byte) = n div 16777216"
      by (simp add: unat_byte_of_nat)
    with d have nz: "unat (of_nat (n div 16777216) :: byte) \<noteq> 0"
      and lt: "unat (of_nat (n div 16777216) :: byte) < 128" by simp_all
    have "parseLength_loop (Suc (Suc (Suc (Suc 0)))) 0
            (of_nat (n div 16777216) # of_nat (n div 65536) # of_nat (n div 256) # of_nat n # rest)
          = Inr (n, rest)"
      using parseLength_loop_4 [OF nz lt, of "of_nat (n div 65536)" "of_nat (n div 256)" "of_nat n" rest]
      by (simp only: unat_byte_of_nat m big_endian_values)
    from parseTagAndLength_long [OF b long_form_octet(7,8) _ this] 5
    show ?thesis by (simp add: lengthOctets_5)
  qed
qed

subsection \<open>Big integers\<close>

lemma SetBytes_snoc: "SetBytes (xs @ [b]) = SetBytes xs * 256 + unat b"
  by (simp add: SetBytes_def)

lemma SetBytes_bigBytes: "SetBytes (bigBytes n) = n"
proof (induction n rule: bigBytes.induct)
  case (1 n)
  show ?case
  proof (cases "n = 0")
    case True
    then show ?thesis by (simp add: bigBytes.simps SetBytes_def)
  next
    case False
    with 1 have "SetBytes (bigBytes (n div 256)) = n div 256" by simp
    with False show ?thesis
      by (subst bigBytes.simps) (simp add: SetBytes_snoc unat_byte_of_nat)
  qed
qed

lemma SetBytes_zero_Cons: "SetBytes (0 # xs) = SetBytes xs"
  by (simp add: SetBytes_def)

lemma bigBytes_nonempty: "n \<noteq> 0 \<Longrightarrow> bigBytes n \<noteq> []"
  by (subst bigBytes.simps) simp

lemma bigBytes_empty_iff: "bigBytes n = [] \<longleftrightarrow> n = 0"
  using bigBytes_nonempty [of n] by (auto simp: bigBytes.simps)

lemma hd_bigBytes: "n \<noteq> 0 \<Longrightarrow> hd (bigBytes n) \<noteq> 0"
proof (induction n rule: bigBytes.induct)
  case (1 n)
  show ?case
  proof (cases "n div 256 = 0")
    case True
    with 1(2) have "n < 256" "n \<noteq> 0" by (auto simp: div_eq_0_iff)
    then have "unat (of_nat n :: byte) \<noteq> 0" by (simp add: unat_byte_of_nat)
    then have "(of_nat n :: byte) \<noteq> 0" by auto
    with True 1(2) show ?thesis
      by (subst bigBytes.simps) (simp add: bigBytes.simps [of 0])
  next
    case False
    with 1 have "hd (bigBytes (n div 256)) \<noteq> 0" by simp
    with False 1(2) show ?thesis
      by (subst bigBytes.simps) (simp add: bigBytes_nonempty)
  qed
qed

lemma byte_xor_ff: "(b :: byte) XOR 0xff = NOT b"
proof -
  have "(0xff :: byte) = - 1" by simp
  then show ?thesis by (simp only: bit.xor_one_right)
qed

lemma byte_and_80_cases: "(w :: byte) AND 0x80 = 0 \<or> w AND 0x80 = 0x80"
proof -
  have e: "(0x80 :: byte) = 2 ^ 7" by simp
  show ?thesis
  proof (cases "bit w 7")
    case True
    have "w AND 2 ^ 7 = 2 ^ 7"
      by (rule bit_eqI) (use True in \<open>auto simp only: bit_and_iff bit_exp_iff\<close>)
    then show ?thesis unfolding e by simp
  next
    case False
    then have "w AND 2 ^ 7 = 0" by (simp only: and_exp_eq_0_iff_not_bit not_False_eq_True)
    then show ?thesis unfolding e by simp
  qed
qed

lemma checkInteger_makeBigInt: "checkInteger (makeBigInt n) = None"
proof -
  consider "n = 0" | "n > 0" | "n < 0" by linarith
  then show ?thesis
  proof cases
    case 1
    then show ?thesis by (simp add: makeBigInt_def checkInteger_def)
  next
    case 2
    define bs where "bs = bigBytes (nat n)"
    from 2 have ne: "bs \<noteq> []" and h: "hd bs \<noteq> 0"
      unfolding bs_def by (simp_all add: bigBytes_nonempty hd_bigBytes)
    then obtain b0 tl where bs: "bs = b0 # tl" by (cases bs) auto
    with h have b0: "b0 \<noteq> 0" by simp
    have m: "makeBigInt n = (if b0 AND 0x80 \<noteq> 0 then 0 # b0 # tl else b0 # tl)"
      using 2 by (simp add: makeBigInt_def Let_def bs_def [symmetric] bs)
    show ?thesis
    proof (cases "b0 AND 0x80 = 0")
      case True
      then have "b0 \<noteq> 0xff" by auto
      with True b0 m show ?thesis by (cases tl) (simp_all add: checkInteger_def)
    next
      case False
      with m show ?thesis by (simp add: checkInteger_def)
    qed
  next
    case 3
    define bs where "bs = bigBytes (nat (- n - 1))"
    have m: "makeBigInt n = (let bytes = map (\<lambda>b. b XOR 0xff) bs
                             in if length bytes = 0 \<or> hd bytes AND 0x80 = 0 then 0xff # bytes else bytes)"
      using 3 by (simp add: makeBigInt_def Let_def bs_def)
    show ?thesis
    proof (cases bs)
      case Nil
      with m show ?thesis by (simp add: checkInteger_def)
    next
      case (Cons b0 tl)
      then have "nat (- n - 1) \<noteq> 0" using bigBytes_empty_iff [of "nat (- n - 1)"] bs_def by auto
      then have "hd bs \<noteq> 0" unfolding bs_def by (rule hd_bigBytes)
      with Cons have b0: "b0 \<noteq> 0" by simp
      then have nb: "NOT b0 \<noteq> 0xff"
        by (metis bit.double_compl byte_xor_ff bit.xor_self bit.compl_zero bit.compl_one word_bw_same(3) bit.xor_one_right)
      show ?thesis
      proof (cases "NOT b0 AND 0x80 = 0")
        case True
        with m Cons show ?thesis by (simp add: checkInteger_def byte_xor_ff)
      next
        case False
        then have "NOT b0 \<noteq> 0" by auto
        with False m Cons nb show ?thesis by (cases tl) (simp_all add: checkInteger_def byte_xor_ff)
      qed
    qed
  qed
qed

lemma not_ff: "NOT (0xff :: byte) = 0"
proof -
  have "NOT (0xff :: byte) = 0xff XOR 0xff" by (simp only: byte_xor_ff)
  also have "\<dots> = 0" by simp
  finally show ?thesis .
qed

lemma map_not_not: "map (\<lambda>b. NOT b) (map (\<lambda>b. NOT b) xs) = (xs :: byte list)"
  by (induction xs) simp_all

lemma parseBigInt_makeBigInt: "parseBigInt (makeBigInt n) = Inr n"
proof -
  consider "n = 0" | "n > 0" | "n < 0" by linarith
  then show ?thesis
  proof cases
    case 1
    then show ?thesis by (simp add: makeBigInt_def parseBigInt_def checkInteger_def SetBytes_def)
  next
    case 2
    define bs where "bs = bigBytes (nat n)"
    from 2 have ne: "bs \<noteq> []" unfolding bs_def by (simp add: bigBytes_nonempty)
    have v: "int (SetBytes bs) = n" using 2 by (simp add: bs_def SetBytes_bigBytes)
    have m: "makeBigInt n = (if hd bs AND 0x80 \<noteq> 0 then 0 # bs else bs)"
      using 2 ne by (simp add: makeBigInt_def Let_def bs_def [symmetric])
    have c: "checkInteger (if hd bs AND 0x80 \<noteq> 0 then 0 # bs else bs) = None"
      using checkInteger_makeBigInt [of n] m by simp
    show ?thesis
      unfolding m using c v ne
      by (auto simp add: parseBigInt_def SetBytes_zero_Cons)
  next
    case 3
    define bs where "bs = bigBytes (nat (- n - 1))"
    have v: "int (SetBytes bs) = - n - 1" using 3 by (simp add: bs_def SetBytes_bigBytes)
    have m: "makeBigInt n = (if bs = [] \<or> hd (map (\<lambda>b. NOT b) bs) AND 0x80 = 0
                             then 0xff # map (\<lambda>b. NOT b) bs else map (\<lambda>b. NOT b) bs)"
      using 3 by (simp add: makeBigInt_def Let_def bs_def byte_xor_ff)
    have c: "checkInteger (if bs = [] \<or> hd (map (\<lambda>b. NOT b) bs) AND 0x80 = 0
                             then 0xff # map (\<lambda>b. NOT b) bs else map (\<lambda>b. NOT b) bs) = None"
      using checkInteger_makeBigInt [of n] m by simp
    show ?thesis
    proof (cases "bs = [] \<or> hd (map (\<lambda>b. NOT b) bs) AND 0x80 = 0")
      case True
      then have m': "makeBigInt n = 0xff # map (\<lambda>b. NOT b) bs" using m by simp
      have c': "checkInteger (0xff # map (\<lambda>b. NOT b) bs) = None" using c True by simp
      have z: "map NOT (0xff # map (\<lambda>b. NOT b) bs) = 0 # bs"
        using map_not_not [of bs] by (simp only: list.map not_ff)
      show ?thesis
        unfolding m' using c' v
        by (simp add: parseBigInt_def z SetBytes_zero_Cons del: list.map)
    next
      case False
      then have m': "makeBigInt n = map (\<lambda>b. NOT b) bs" using m by simp
      have c': "checkInteger (map (\<lambda>b. NOT b) bs) = None" using c False by simp
      from False have h: "hd (map (\<lambda>b. NOT b) bs) AND 0x80 = 0x80"
        using byte_and_80_cases [of "hd (map (\<lambda>b. NOT b) bs)"] by auto
      show ?thesis
        unfolding m' using c' v h False
        by (simp add: parseBigInt_def byte_xor_ff map_not_not o_def)
    qed
  qed
qed

subsection \<open>Tagged encodings\<close>

lemma parseLength_loop_too_large:
  assumes "128 \<le> unat a"
  shows "parseLength_loop (Suc (Suc (Suc (Suc 0)))) 0 (a # b # c # d # rest)
           = Inl (StructuralError ''length too large'')"
proof -
  have a: "unat a < 256" and b: "unat b < 256" and c: "unat c < 256"
    by (rule unat_byte_less)+
  have ab: "unat a * 256 + unat b < 8388608" using a b by linarith
  have "128 * 256 \<le> unat a * 256" using assms by (rule mult_le_mono1)
  then have "32768 \<le> unat a * 256 + unat b" by linarith
  then have "32768 * 256 \<le> (unat a * 256 + unat b) * 256" by (rule mult_le_mono1)
  then have abc: "8388608 \<le> (unat a * 256 + unat b) * 256 + unat c" by linarith
  have "parseLength_loop (Suc (Suc (Suc (Suc 0)))) 0 (a # b # c # d # rest)
      = parseLength_loop (Suc (Suc (Suc 0))) (0 * 256 + unat a) (b # c # d # rest)"
    by (rule parseLength_loop_step) (use assms in simp_all)
  also have "\<dots> = parseLength_loop (Suc (Suc (Suc 0))) (unat a) (b # c # d # rest)" by simp
  also have "\<dots> = parseLength_loop (Suc (Suc 0)) (unat a * 256 + unat b) (c # d # rest)"
    by (rule parseLength_loop_step) (use assms a in simp_all)
  also have "\<dots> = parseLength_loop (Suc 0) ((unat a * 256 + unat b) * 256 + unat c) (d # rest)"
    by (rule parseLength_loop_step) (use assms ab in simp_all)
  also have "\<dots> = Inl (StructuralError ''length too large'')"
    using abc by simp
  finally show ?thesis .
qed

lemma parseTagAndLength_long_error:
  assumes b: "unat (b AND 0x1f) \<noteq> 31"
    and c: "c AND 0x80 \<noteq> 0" "unat (c AND 0x7f) = k" "k \<noteq> 0"
    and l: "parseLength_loop k 0 cs = Inl e"
  shows "parseTagAndLength (b # c # cs) = Inl e"
  using assms by (simp add: parseTagAndLength_def del: parseLength_loop.simps)

lemma parseTagAndLength_too_large:
  assumes n: "2147483648 \<le> n" "n < 4294967296" and b: "unat (b AND 0x1f) \<noteq> 31"
  shows "parseTagAndLength (b # lengthOctets n @ rest) = Inl (StructuralError ''length too large'')"
proof -
  from n have r: "16777216 \<le> n" by linarith
  have "128 * 16777216 \<le> n" using n(1) by simp
  then have d1: "128 \<le> n div 16777216" by (simp only: less_eq_div_iff_mult_less_eq zero_less_numeral)
  have "n < 256 * 16777216" using n(2) by simp
  then have d2: "n div 16777216 < 256" by (rule less_mult_imp_div_less)
  then have m: "n div 16777216 mod 256 = n div 16777216" by simp
  have a: "128 \<le> unat (of_nat (n div 16777216) :: byte)"
    using d1 by (simp only: unat_byte_of_nat m)
  have l: "parseLength_loop (Suc (Suc (Suc (Suc 0)))) 0
            (of_nat (n div 16777216) # of_nat (n div 65536) # of_nat (n div 256) # of_nat n # rest)
          = Inl (StructuralError ''length too large'')"
    by (rule parseLength_loop_too_large [OF a])
  from parseTagAndLength_long_error [OF b long_form_octet(7,8) _ l]
  show ?thesis by (simp add: lengthOctets_5 [OF r n(2)])
qed

lemma taggedEncoder_octets:
  "taggedEncoder ClassUniversal TagSequence True body = 0x30 # lengthOctets (length body) @ body"
  "taggedEncoder ClassUniversal TagOID False body = 0x06 # lengthOctets (length body) @ body"
  "taggedEncoder ClassUniversal TagOctetString False body = 0x04 # lengthOctets (length body) @ body"
  "taggedEncoder ClassUniversal TagInteger False body = 0x02 # lengthOctets (length body) @ body"
  by (simp_all add: taggedEncoder_def appendTagAndLength_def lengthOctets_def appendLength_def
        tag_defs)

lemma identifier_octets:
  "unat ((0x30 :: byte) AND 0x1f) = 16" "unat (drop_bit 6 (0x30 :: byte)) = 0" "(0x30 :: byte) AND 0x20 = 0x20"
  "unat ((0x06 :: byte) AND 0x1f) = 6" "unat (drop_bit 6 (0x06 :: byte)) = 0" "(0x06 :: byte) AND 0x20 \<noteq> 0x20"
  "unat ((0x04 :: byte) AND 0x1f) = 4" "unat (drop_bit 6 (0x04 :: byte)) = 0" "(0x04 :: byte) AND 0x20 \<noteq> 0x20"
  "unat ((0x02 :: byte) AND 0x1f) = 2" "unat (drop_bit 6 (0x02 :: byte)) = 0" "(0x02 :: byte) AND 0x20 \<noteq> 0x20"
  by simp_all

lemma parseTagAndLength_octets:
  assumes "n < 2 ^ 31"
  shows "parseTagAndLength (0x30 # lengthOctets n @ rest) =
           Inr (\<lparr>class = 0, tag = 16, len = n, isCompound = True\<rparr>, rest)"
    and "parseTagAndLength (0x06 # lengthOctets n @ rest) =
           Inr (\<lparr>class = 0, tag = 6, len = n, isCompound = False\<rparr>, rest)"
    and "parseTagAndLength (0x04 # lengthOctets n @ rest) =
           Inr (\<lparr>class = 0, tag = 4, len = n, isCompound = False\<rparr>, rest)"
    and "parseTagAndLength (0x02 # lengthOctets n @ rest) =
           Inr (\<lparr>class = 0, tag = 2, len = n, isCompound = False\<rparr>, rest)"
  using parseTagAndLength_lengthOctets [OF assms, of "0x30" rest]
    parseTagAndLength_lengthOctets [OF assms, of "0x06" rest]
    parseTagAndLength_lengthOctets [OF assms, of "0x04" rest]
    parseTagAndLength_lengthOctets [OF assms, of "0x02" rest]
  by (simp_all add: identifier_octets)

lemma length_taggedEncoder: "length body \<le> length (taggedEncoder c t cmp body)"
  by (simp add: taggedEncoder_def)

lemma taggedEncoder_nonempty: "taggedEncoder ClassUniversal TagSequence True body \<noteq> []"
  by (simp add: taggedEncoder_octets)

lemma matchElement_octets:
  assumes "getUniversalType ty = (False, tag t, isCompound t)" and "class t = 0"
    and "len t = length body"
  shows "matchElement ty noParams (hdr @ body @ rest) t (body @ rest)
           = Inr (Element t body (hdr @ body) rest)"
  using assms by (simp add: matchElement_def noParams_def ClassUniversal_def)

lemma parseFieldHeader_octets:
  assumes "parseTagAndLength (hdr @ body @ rest) = Inr (t, body @ rest)"
    and "getUniversalType ty = (False, tag t, isCompound t)" and "class t = 0"
    and "len t = length body" and "hdr \<noteq> []"
  shows "parseFieldHeader ty noParams (hdr @ body @ rest) = Inr (Element t body (hdr @ body) rest)"
proof -
  have "parseFieldHeader ty noParams (hdr @ body @ rest)
          = matchElement ty noParams (hdr @ body @ rest) t (body @ rest)"
    using assms(1,5) by (simp add: parseFieldHeader_def noParams_def)
  then show ?thesis
    using matchElement_octets [OF assms(2,3,4), of hdr rest] by simp
qed

lemma parseFieldHeader_taggedEncoder:
  assumes "length body < 2 ^ 31"
  shows "parseFieldHeader StructT noParams (taggedEncoder ClassUniversal TagSequence True body @ rest) =
           Inr (Element \<lparr>class = 0, tag = 16, len = length body, isCompound = True\<rparr> body
                  (taggedEncoder ClassUniversal TagSequence True body) rest)"
    and "parseFieldHeader SliceT noParams (taggedEncoder ClassUniversal TagSequence True body @ rest) =
           Inr (Element \<lparr>class = 0, tag = 16, len = length body, isCompound = True\<rparr> body
                  (taggedEncoder ClassUniversal TagSequence True body) rest)"
    and "parseFieldHeader BytesT noParams (taggedEncoder ClassUniversal TagOctetString False body @ rest) =
           Inr (Element \<lparr>class = 0, tag = 4, len = length body, isCompound = False\<rparr> body
                  (taggedEncoder ClassUniversal TagOctetString False body) rest)"
    and "parseFieldHeader BigIntT noParams (taggedEncoder ClassUniversal TagInteger False body @ rest) =
           Inr (Element \<lparr>class = 0, tag = 2, len = length body, isCompound = False\<rparr> body
                  (taggedEncoder ClassUniversal TagInteger False body) rest)"
proof -
  note p = parseTagAndLength_octets [OF assms, of "body @ rest"]
  show "parseFieldHeader StructT noParams (taggedEncoder ClassUniversal TagSequence True body @ rest) =
           Inr (Element \<lparr>class = 0, tag = 16, len = length body, isCompound = True\<rparr> body
                  (taggedEncoder ClassUniversal TagSequence True body) rest)"
    unfolding taggedEncoder_octets
    using parseFieldHeader_octets [of "0x30 # lengthOctets (length body)" body rest _ StructT] p(1)
    by (simp add: TagSequence_def)
  show "parseFieldHeader SliceT noParams (taggedEncoder ClassUniversal TagSequence True body @ rest) =
           Inr (Element \<lparr>class = 0, tag = 16, len = length body, isCompound = True\<rparr> body
                  (taggedEncoder ClassUniversal TagSequence True body) rest)"
    unfolding taggedEncoder_octets
    using parseFieldHeader_octets [of "0x30 # lengthOctets (length body)" body rest _ SliceT] p(1)
    by (simp add: TagSequence_def)
  show "parseFieldHeader BytesT noParams (taggedEncoder ClassUniversal TagOctetString False body @ rest) =
           Inr (Element \<lparr>class = 0, tag = 4, len = length body, isCompound = False\<rparr> body
                  (taggedEncoder ClassUniversal TagOctetString False body) rest)"
    unfolding taggedEncoder_octets
    using parseFieldHeader_octets [of "0x04 # lengthOctets (length body)" body rest _ BytesT] p(3)
    by (simp add: TagOctetString_def)
  show "parseFieldHeader BigIntT noParams (taggedEncoder ClassUniversal TagInteger False body @ rest) =
           Inr (Element \<lparr>class = 0, tag = 2, len = length body, isCompound = False\<rparr> body
                  (taggedEncoder ClassUniversal TagInteger False body) rest)"
    unfolding taggedEncoder_octets
    using parseFieldHeader_octets [of "0x02 # lengthOctets (length body)" body rest _ BigIntT] p(4)
    by (simp add: TagInteger_def)
qed

lemma parseField_bytes_taggedEncoder:
  "length body < 2 ^ 31 \<Longrightarrow>
   parseField_bytes noParams (taggedEncoder ClassUniversal TagOctetString False body @ rest)
     = Inr (body, rest)"
  by (simp add: parseField_bytes_def parseFieldWith_def parseFieldHeader_taggedEncoder)

lemma parseField_bigInt_taggedEncoder:
  "length (makeBigInt n) < 2 ^ 31 \<Longrightarrow>
   parseField_bigInt noParams (taggedEncoder ClassUniversal TagInteger False (makeBigInt n) @ rest)
     = Inr (n, rest)"
  by (simp add: parseField_bigInt_def parseFieldWith_def parseFieldHeader_taggedEncoder
        parseBigInt_makeBigInt)

lemma parseField_struct_taggedEncoder:
  "length body < 2 ^ 31 \<Longrightarrow>
   parseField_struct noParams z f (taggedEncoder ClassUniversal TagSequence True body @ rest)
     = (case f body of Inl e \<Rightarrow> Inl e | Inr v \<Rightarrow> Inr (v, rest))"
  by (simp add: parseField_struct_def parseFieldWith_def parseFieldHeader_taggedEncoder)

lemma parseField_slice_taggedEncoder:
  "length body < 2 ^ 31 \<Longrightarrow>
   parseField_slice noParams ty f (taggedEncoder ClassUniversal TagSequence True body @ rest)
     = (case parseSequenceOf ty f body of Inl e \<Rightarrow> Inl e | Inr v \<Rightarrow> Inr (v, rest))"
  by (simp add: parseField_slice_def parseFieldWith_def parseFieldHeader_taggedEncoder)

subsection \<open>Hash algorithm identifiers\<close>

lemma base128IntLength_small: "n < 128 \<Longrightarrow> base128IntLength n = 1"
  by (simp add: base128IntLength_def base128IntLength_loop.simps [of n]
        base128IntLength_loop.simps [of 0] drop_bit_eq_div)

lemma base128IntLength_840: "base128IntLength 840 = 2"
  by (simp add: base128IntLength_def base128IntLength_loop.simps [of 840]
        base128IntLength_loop.simps [of 6] base128IntLength_loop.simps [of 0] drop_bit_eq_div)

lemma upt_from_0: "[0..<Suc 0] = [0]" "[0..<2] = [0, 1]"
  by code_simp+

lemma appendBase128Int_small:
  "n < 128 \<Longrightarrow> appendBase128Int dst n = dst @ [of_nat n AND 0x7f]"
  by (simp add: appendBase128Int_def base128IntLength_small upt_from_0)

lemma appendBase128Int_840: "appendBase128Int dst 840 = dst @ [0x86, 0x48]"
  by (simp add: appendBase128Int_def base128IntLength_840 upt_from_0 drop_bit_eq_div)

lemma makeObjectIdentifier_hash:
  "makeObjectIdentifier oidSHA1 = Inr [0x2b, 0x0e, 0x03, 0x02, 0x1a]"
  "makeObjectIdentifier oidSHA256 = Inr [0x60, 0x86, 0x48, 0x01, 0x65, 0x03, 0x04, 0x02, 0x01]"
  "makeObjectIdentifier oidSHA384 = Inr [0x60, 0x86, 0x48, 0x01, 0x65, 0x03, 0x04, 0x02, 0x02]"
  "makeObjectIdentifier oidSHA512 = Inr [0x60, 0x86, 0x48, 0x01, 0x65, 0x03, 0x04, 0x02, 0x03]"
  by (simp_all add: makeObjectIdentifier_def hash_defs appendBase128Int_small appendBase128Int_840)

lemma algorithmOctets_hash:
  "algorithmOctets oidSHA1 = [0x30, 0x09, 0x06, 0x05, 0x2b, 0x0e, 0x03, 0x02, 0x1a, 0x05, 0x00]"
  "algorithmOctets oidSHA256 =
     [0x30, 0x0d, 0x06, 0x09, 0x60, 0x86, 0x48, 0x01, 0x65, 0x03, 0x04, 0x02, 0x01, 0x05, 0x00]"
  "algorithmOctets oidSHA384 =
     [0x30, 0x0d, 0x06, 0x09, 0x60, 0x86, 0x48, 0x01, 0x65, 0x03, 0x04, 0x02, 0x02, 0x05, 0x00]"
  "algorithmOctets oidSHA512 =
     [0x30, 0x0d, 0x06, 0x09, 0x60, 0x86, 0x48, 0x01, 0x65, 0x03, 0x04, 0x02, 0x03, 0x05, 0x00]"
  by (simp_all add: algorithmOctets_def hash_defs)

lemma marshal_AlgorithmIdentifier_hash:
  assumes "oid \<in> {oidSHA1, oidSHA256, oidSHA384, oidSHA512}"
  shows "marshal_AlgorithmIdentifier
           \<lparr>Algorithm = oid,
            Parameters = \<lparr>Class = 0, Tag = 5, IsCompound = False, Bytes = [], FullBytes = []\<rparr>\<rparr>
         = Inr (algorithmOctets oid)"
  using assms
  by (auto simp: marshal_AlgorithmIdentifier_def makeObjectIdentifier_hash algorithmOctets_hash
        taggedEncoder_def appendTagAndLength_def marshal_RawValue_def emptyRawValue_def tag_defs)

lemma parseField_AlgorithmIdentifier_hash:
  assumes "oid \<in> {oidSHA1, oidSHA256, oidSHA384, oidSHA512}"
  shows "parseField_AlgorithmIdentifier noParams (algorithmOctets oid @ rest)
         = Inr (\<lparr>Algorithm = oid,
                 Parameters = \<lparr>Class = 0, Tag = 5, IsCompound = False, Bytes = [],
                               FullBytes = [5, 0]\<rparr>\<rparr>, rest)"
  using assms
  by (auto simp: algorithmOctets_def reader_defs hash_defs)

lemma getOIDFromHashAlgorithm_cases:
  "getOIDFromHashAlgorithm h = Some oid \<longleftrightarrow>
     (h, oid) \<in> {(SHA1, oidSHA1), (SHA256, oidSHA256), (SHA384, oidSHA384), (SHA512, oidSHA512)}"
  by (auto simp: getOIDFromHashAlgorithm_def hash_defs split: if_splits)

lemma getHashAlgorithmFromOID_hash:
  "getOIDFromHashAlgorithm h = Some oid \<Longrightarrow> getHashAlgorithmFromOID oid = h \<and> h \<noteq> 0"
  by (auto simp: getOIDFromHashAlgorithm_cases getHashAlgorithmFromOID_def hash_defs)

subsection \<open>The nested sequences\<close>

lemma Marshal_octets:
  "Marshal req =
     (case getOIDFromHashAlgorithm (HashAlgorithm req) of
        None \<Rightarrow> Inl (OtherError ''unknown hash algorithm'')
      | Some oid \<Rightarrow>
          (case SerialNumber req of
             None \<Rightarrow> Inl (StructuralError ''empty integer'')
           | Some serial \<Rightarrow>
               Inr (requestOctets oid (IssuerNameHash req) (IssuerKeyHash req) serial)))"
proof (cases "getOIDFromHashAlgorithm (HashAlgorithm req)")
  case None
  then show ?thesis by (simp add: Marshal_def)
next
  case (Some oid)
  then have "oid \<in> {oidSHA1, oidSHA256, oidSHA384, oidSHA512}"
    by (auto simp: getOIDFromHashAlgorithm_cases)
  note a = marshal_AlgorithmIdentifier_hash [OF this]
  show ?thesis
    using Some
    by (simp add: Marshal_def Marshal_ocspRequest_def marshal_tbsRequest_def marshal_request_def
          marshal_certID_def a requestOctets_def certIDOctets_def split: option.split)
qed

lemma parseTagAndLength_sequence:
  "length body < 2 ^ 31 \<Longrightarrow>
   parseTagAndLength (sequenceOctets body @ rest)
     = Inr (\<lparr>class = 0, tag = 16, len = length body, isCompound = True\<rparr>, body @ rest)"
  unfolding taggedEncoder_octets using parseTagAndLength_octets(1) [of "length body" "body @ rest"]
  by simp

lemma parseField_certID_octets:
  assumes oid: "oid \<in> {oidSHA1, oidSHA256, oidSHA384, oidSHA512}"
    and n: "length (certIDOctets oid nameHash keyHash serial) < 2 ^ 31"
  shows "parseField_certID noParams (sequenceOctets (certIDOctets oid nameHash keyHash serial) @ rest)
         = Inr (\<lparr>cid_HashAlgorithm =
                   \<lparr>Algorithm = oid,
                    Parameters = \<lparr>Class = 0, Tag = 5, IsCompound = False, Bytes = [],
                                  FullBytes = [5, 0]\<rparr>\<rparr>,
                 cid_NameHash = nameHash, cid_IssuerKeyHash = keyHash,
                 cid_SerialNumber = serial\<rparr>, rest)"
proof -
  have l: "length nameHash < 2 ^ 31" "length keyHash < 2 ^ 31" "length (makeBigInt serial) < 2 ^ 31"
    using n length_taggedEncoder [of nameHash ClassUniversal TagOctetString False]
      length_taggedEncoder [of keyHash ClassUniversal TagOctetString False]
      length_taggedEncoder [of "makeBigInt serial" ClassUniversal TagInteger False]
    by (simp_all add: certIDOctets_def)
  note s = parseField_bigInt_taggedEncoder [OF l(3), of "[]", simplified]
  show ?thesis
    by (simp add: parseField_certID_def parseField_struct_taggedEncoder [OF n])
       (simp add: certIDOctets_def parseField_AlgorithmIdentifier_hash [OF oid]
          parseField_bytes_taggedEncoder [OF l(1)] parseField_bytes_taggedEncoder [OF l(2)] s)
qed

lemma parseField_request_octets:
  assumes oid: "oid \<in> {oidSHA1, oidSHA256, oidSHA384, oidSHA512}"
    and n: "length (sequenceOctets (certIDOctets oid nameHash keyHash serial)) < 2 ^ 31"
  shows "parseField_request noParams
           (sequenceOctets (sequenceOctets (certIDOctets oid nameHash keyHash serial)) @ rest)
         = Inr (\<lparr>Cert =
                   \<lparr>cid_HashAlgorithm =
                      \<lparr>Algorithm = oid,
                       Parameters = \<lparr>Class = 0, Tag = 5, IsCompound = False, Bytes = [],
                                     FullBytes = [5, 0]\<rparr>\<rparr>,
                    cid_NameHash = nameHash, cid_IssuerKeyHash = keyHash,
                    cid_SerialNumber = serial\<rparr>\<rparr>, rest)"
proof -
  have m: "length (certIDOctets oid nameHash keyHash serial) < 2 ^ 31"
    using n length_taggedEncoder [of "certIDOctets oid nameHash keyHash serial"
                                     ClassUniversal TagSequence True]
    by simp
  note c = parseField_certID_octets [OF oid m, of "[]", simplified]
  show ?thesis
    by (simp add: parseField_request_def parseField_struct_taggedEncoder [OF n] c)
qed

lemma parseSequenceOf_count_single:
  assumes "length body < 2 ^ 31"
  shows "parseSequenceOf_count StructT (sequenceOctets body) = Inr (Suc 0)"
proof -
  have e: "parseSequenceOf_count StructT [] = Inr 0"
    by (simp add: parseSequenceOf_count.simps)
  show ?thesis
    using parseTagAndLength_sequence [OF assms, of "[]"] taggedEncoder_nonempty [of body] e
    by (subst parseSequenceOf_count.simps) (simp add: foldTag_def tag_defs)
qed

lemma parseFieldHeader_absent:
  assumes "length body < 2 ^ 31" and "body \<noteq> []"
  shows "parseFieldHeader ty (explicitTag k True d) (sequenceOctets body) = Inr Omitted"
  using parseTagAndLength_sequence [OF assms(1), of "[]"] taggedEncoder_nonempty [of body] assms(2)
  by (simp add: parseFieldHeader_def explicitTag_def setDefaultValue_def ClassContextSpecific_def)

lemma parseFieldHeader_empty:
  "parseFieldHeader ty (explicitTag k True d) [] = Inr Omitted"
  by (simp add: parseFieldHeader_def explicitTag_def setDefaultValue_def)

lemma Unmarshal_ocspRequest_octets:
  assumes oid: "oid \<in> {oidSHA1, oidSHA256, oidSHA384, oidSHA512}"
    and n: "length (requestOctets oid nameHash keyHash serial) < 2 ^ 31"
  shows "Unmarshal_ocspRequest rdn (requestOctets oid nameHash keyHash serial)
         = Inr (\<lparr>TBSRequest =
                   \<lparr>Version = 0, RequestorName = [],
                    RequestList =
                      [\<lparr>Cert =
                         \<lparr>cid_HashAlgorithm =
                            \<lparr>Algorithm = oid,
                             Parameters = \<lparr>Class = 0, Tag = 5, IsCompound = False, Bytes = [],
                                           FullBytes = [5, 0]\<rparr>\<rparr>,
                          cid_NameHash = nameHash, cid_IssuerKeyHash = keyHash,
                          cid_SerialNumber = serial\<rparr>\<rparr>],
                    RequestExtensions = []\<rparr>\<rparr>, [])"
proof -
  define c where "c = sequenceOctets (certIDOctets oid nameHash keyHash serial)"
  define r where "r = sequenceOctets c"
  define l where "l = sequenceOctets r"
  define t where "t = sequenceOctets l"
  have d: "requestOctets oid nameHash keyHash serial = sequenceOctets t"
    by (simp add: requestOctets_def c_def r_def l_def t_def)
  have nt: "length t < 2 ^ 31"
    using n length_taggedEncoder [of t ClassUniversal TagSequence True] by (simp add: d)
  have nl: "length l < 2 ^ 31"
    using nt length_taggedEncoder [of l ClassUniversal TagSequence True] by (simp add: t_def)
  have nr: "length r < 2 ^ 31"
    using nl length_taggedEncoder [of r ClassUniversal TagSequence True] by (simp add: l_def)
  have nc: "length c < 2 ^ 31"
    using nr length_taggedEncoder [of c ClassUniversal TagSequence True] by (simp add: r_def)
  have rne: "r \<noteq> []" unfolding r_def by (rule taggedEncoder_nonempty)
  note req = parseField_request_octets [OF oid nc [unfolded c_def], folded c_def, of "[]",
      simplified, folded r_def]
  have cnt: "parseSequenceOf_count StructT r = Inr (Suc 0)"
    unfolding r_def by (rule parseSequenceOf_count_single [OF nc])
  have seq: "parseSequenceOf StructT (parseField_request noParams) r
           = Inr [\<lparr>Cert =
                     \<lparr>cid_HashAlgorithm =
                        \<lparr>Algorithm = oid,
                         Parameters = \<lparr>Class = 0, Tag = 5, IsCompound = False, Bytes = [],
                                       FullBytes = [5, 0]\<rparr>\<rparr>,
                      cid_NameHash = nameHash, cid_IssuerKeyHash = keyHash,
                      cid_SerialNumber = serial\<rparr>\<rparr>]"
    by (simp add: parseSequenceOf_def cnt req)
  have lst: "parseField_slice noParams StructT (parseField_request noParams) l
           = Inr ([\<lparr>Cert =
                     \<lparr>cid_HashAlgorithm =
                        \<lparr>Algorithm = oid,
                         Parameters = \<lparr>Class = 0, Tag = 5, IsCompound = False, Bytes = [],
                                       FullBytes = [5, 0]\<rparr>\<rparr>,
                      cid_NameHash = nameHash, cid_IssuerKeyHash = keyHash,
                      cid_SerialNumber = serial\<rparr>\<rparr>], [])"
    unfolding l_def
    by (simp add: parseField_slice_taggedEncoder [OF nr, of _ _ "[]", simplified] seq)
  have dv: "defaultValue (explicitTag 0 True (Some 0)) = Some 0"
    by (simp add: explicitTag_def)
  have ver: "parseField_int (explicitTag 0 True (Some 0)) l = Inr (0, l)"
    unfolding l_def
    by (simp add: parseField_int_def parseFieldWith_def parseFieldHeader_absent [OF nr rne] dv)
  have nam: "parseField_RDNSequence rdn (explicitTag (Suc 0) True None) l = Inr ([], l)"
    unfolding l_def
    by (simp add: parseField_RDNSequence_def parseFieldWith_def parseFieldHeader_absent [OF nr rne])
  have ext: "parseField_slice (explicitTag 2 True None) StructT (parseField_Extension noParams) []
           = Inr ([], [])"
    by (simp add: parseField_slice_def parseFieldWith_def parseFieldHeader_empty)
  have tbs: "parseField_tbsRequest rdn noParams t
           = Inr (\<lparr>Version = 0, RequestorName = [],
                    RequestList =
                      [\<lparr>Cert =
                         \<lparr>cid_HashAlgorithm =
                            \<lparr>Algorithm = oid,
                             Parameters = \<lparr>Class = 0, Tag = 5, IsCompound = False, Bytes = [],
                                           FullBytes = [5, 0]\<rparr>\<rparr>,
                          cid_NameHash = nameHash, cid_IssuerKeyHash = keyHash,
                          cid_SerialNumber = serial\<rparr>\<rparr>],
                    RequestExtensions = []\<rparr>, [])"
    unfolding t_def
    by (simp add: parseField_tbsRequest_def
          parseField_struct_taggedEncoder [OF nl, of _ _ "[]", simplified] ver nam lst ext)
  show ?thesis
    unfolding d
    by (simp add: Unmarshal_ocspRequest_def
          parseField_struct_taggedEncoder [OF nt, of _ _ "[]", simplified] tbs)
qed

lemma ParseRequest_Marshal:
  assumes m: "Marshal req = Inr der" and n: "length der < 2 ^ 31"
  shows "ParseRequest rdn der =
           Inr \<lparr>HashAlgorithm = HashAlgorithm req, IssuerNameHash = IssuerNameHash req,
                IssuerKeyHash = IssuerKeyHash req, SerialNumber = SerialNumber req,
                Extensions = []\<rparr>"
proof -
  from m obtain oid serial where h: "getOIDFromHashAlgorithm (HashAlgorithm req) = Some oid"
    and s: "SerialNumber req = Some serial"
    and der: "der = requestOctets oid (IssuerNameHash req) (IssuerKeyHash req) serial"
    by (auto simp: Marshal_octets split: option.splits)
  from h have oid: "oid \<in> {oidSHA1, oidSHA256, oidSHA384, oidSHA512}"
    by (auto simp: getOIDFromHashAlgorithm_cases)
  note u = Unmarshal_ocspRequest_octets [OF oid n [unfolded der], of rdn]
  show ?thesis
    using getHashAlgorithmFromOID_hash [OF h]
    by (simp add: ParseRequest_def der u s)
qed

subsection \<open>Encodings of \<open>2^31\<close> bytes and more\<close>

lemma length_lengthOctets: "n < 4294967296 \<Longrightarrow> length (lengthOctets n) \<le> 5"
proof -
  assume n: "n < 4294967296"
  consider "n < 128" | "128 \<le> n" "n < 256" | "256 \<le> n" "n < 65536"
    | "65536 \<le> n" "n < 16777216" | "16777216 \<le> n"
    by linarith
  then show ?thesis
    using n
    by cases (simp_all add: lengthOctets_1 lengthOctets_2 lengthOctets_3 lengthOctets_4
        lengthOctets_5)
qed

lemma length_taggedEncoder_le:
  assumes "length body < 4294967296"
  shows "length (sequenceOctets body) \<le> length body + 6"
    and "length (taggedEncoder ClassUniversal TagOctetString False body) \<le> length body + 6"
  using length_lengthOctets [OF assms] by (simp_all add: taggedEncoder_octets)

lemma ParseRequest_too_large:
  assumes "2147483648 \<le> length body" and "length body < 4294967296"
  shows "ParseRequest rdn (sequenceOctets body) = Inl (StructuralError ''length too large'')"
proof -
  have "parseTagAndLength (sequenceOctets body) = Inl (StructuralError ''length too large'')"
    unfolding taggedEncoder_octets
    using parseTagAndLength_too_large [OF assms, of "0x30" body] by (simp add: identifier_octets)
  then have "parseFieldHeader StructT noParams (sequenceOctets body)
               = Inl (StructuralError ''length too large'')"
    using taggedEncoder_nonempty [of body] by (simp add: parseFieldHeader_def)
  then show ?thesis
    by (simp add: ParseRequest_def Unmarshal_ocspRequest_def parseField_struct_def
          parseFieldWith_def)
qed

lemma requestOctets_too_large:
  assumes "length nameHash = 2147483648"
  shows "ParseRequest rdn (requestOctets oidSHA1 nameHash [] 0)
           = Inl (StructuralError ''length too large'')"
proof -
  define b where "b = certIDOctets oidSHA1 nameHash [] 0"
  define c where "c = sequenceOctets b"
  define r where "r = sequenceOctets c"
  define l where "l = sequenceOctets r"
  define t where "t = sequenceOctets l"
  have d: "requestOctets oidSHA1 nameHash [] 0 = sequenceOctets t"
    by (simp add: requestOctets_def b_def c_def r_def l_def t_def)
  have nh: "length nameHash < 4294967296" using assms by simp
  have e: "length (taggedEncoder ClassUniversal TagOctetString False []) = 2"
    "length (taggedEncoder ClassUniversal TagInteger False (makeBigInt 0)) = 3"
    by (simp_all add: taggedEncoder_octets lengthOctets_1 makeBigInt_def)
  have b1: "2147483648 \<le> length b"
    using length_taggedEncoder [of nameHash ClassUniversal TagOctetString False] assms
    by (simp add: b_def certIDOctets_def)
  have b2: "length b \<le> 2147483670"
    using length_taggedEncoder_le(2) [OF nh] assms e
    by (simp add: b_def certIDOctets_def algorithmOctets_hash)
  have c1: "2147483648 \<le> length c"
    using b1 length_taggedEncoder [of b ClassUniversal TagSequence True] by (simp add: c_def)
  have c2: "length c \<le> 2147483676"
    using b2 length_taggedEncoder_le(1) [of b] by (simp add: c_def)
  have r1: "2147483648 \<le> length r"
    using c1 length_taggedEncoder [of c ClassUniversal TagSequence True] by (simp add: r_def)
  have r2: "length r \<le> 2147483682"
    using c2 length_taggedEncoder_le(1) [of c] by (simp add: r_def)
  have l1: "2147483648 \<le> length l"
    using r1 length_taggedEncoder [of r ClassUniversal TagSequence True] by (simp add: l_def)
  have l2: "length l \<le> 2147483688"
    using r2 length_taggedEncoder_le(1) [of r] by (simp add: l_def)
  have t1: "2147483648 \<le> length t"
    using l1 length_taggedEncoder [of l ClassUniversal TagSequence True] by (simp add: t_def)
  have t2: "length t < 4294967296"
    using l2 length_taggedEncoder_le(1) [of l] by (simp add: t_def)
  show ?thesis
    unfolding d by (rule ParseRequest_too_large [OF t1 t2])
qed

subsection \<open>\<open>Marshal\<close>, then \<open>ParseRequest\<close>\<close>

text \<open>
  Claim C2, as the code has it. For every request whose hash algorithm is one of SHA-1,
  SHA-256, SHA-384 and SHA-512 and whose serial number is not nil, \<open>Marshal\<close> succeeds;
  and when the bytes it returns are fewer than \<open>2^31\<close>, \<open>ParseRequest\<close> applied to
  them succeeds and returns a request with the same hash algorithm, issuer name hash,
  issuer key hash and serial number, and with no extensions.
\<close>

theorem request_round_trip:
  assumes "HashAlgorithm req \<in> {SHA1, SHA256, SHA384, SHA512}"
    and "SerialNumber req = Some serial"
  shows "\<exists>der. Marshal req = Inr der
           \<and> (length der < 2 ^ 31 \<longrightarrow>
                ParseRequest rdn der =
                  Inr \<lparr>HashAlgorithm = HashAlgorithm req, IssuerNameHash = IssuerNameHash req,
                       IssuerKeyHash = IssuerKeyHash req, SerialNumber = Some serial,
                       Extensions = []\<rparr>)"
proof -
  from assms(1) obtain oid where "getOIDFromHashAlgorithm (HashAlgorithm req) = Some oid"
    by (auto simp: getOIDFromHashAlgorithm_cases)
  with assms(2) have m: "Marshal req
      = Inr (requestOctets oid (IssuerNameHash req) (IssuerKeyHash req) serial)"
    by (simp add: Marshal_octets)
  show ?thesis
    using ParseRequest_Marshal [OF m, of rdn] assms(2) m by simp
qed

lemma bigBytes_byte: "0 < n \<Longrightarrow> n < 256 \<Longrightarrow> bigBytes n = [of_nat n]"
  by (simp add: bigBytes.simps [of n] bigBytes.simps [of 0])

lemma exampleRequest_marshalled: "Marshal exampleRequest = Inr exampleRequestDER"
  by (simp add: Marshal_octets exampleRequest_def exampleRequestDER_def
        getOIDFromHashAlgorithm_def hashOIDs_def SHA1_def SHA256_def
        requestOctets_def certIDOctets_def algorithmOctets_hash taggedEncoder_octets
        lengthOctets_1 makeBigInt_def bigBytes_byte)

text \<open>The SHA-256 request with serial number -129 is written as 36 bytes and read back.\<close>

theorem request_round_trip_witness:
  "HashAlgorithm exampleRequest \<in> {SHA1, SHA256, SHA384, SHA512}
   \<and> SerialNumber exampleRequest = Some (- 129)
   \<and> Marshal exampleRequest = Inr exampleRequestDER
   \<and> length exampleRequestDER < 2 ^ 31
   \<and> ParseRequest (\<lambda>bytes. Inr []) exampleRequestDER =
       Inr \<lparr>HashAlgorithm = SHA256, IssuerNameHash = [0xAA, 0xBB], IssuerKeyHash = [0xCC],
            SerialNumber = Some (- 129), Extensions = []\<rparr>"
proof -
  have h: "HashAlgorithm exampleRequest \<in> {SHA1, SHA256, SHA384, SHA512}"
    and s: "SerialNumber exampleRequest = Some (- 129)"
    by (simp_all add: exampleRequest_def)
  have l: "length exampleRequestDER < 2 ^ 31" by (simp add: exampleRequestDER_def)
  from request_round_trip [OF h s, of "\<lambda>bytes. Inr []"] exampleRequest_marshalled l
  have "ParseRequest (\<lambda>bytes. Inr []) exampleRequestDER =
       Inr \<lparr>HashAlgorithm = HashAlgorithm exampleRequest,
            IssuerNameHash = IssuerNameHash exampleRequest,
            IssuerKeyHash = IssuerKeyHash exampleRequest,
            SerialNumber = Some (- 129), Extensions = []\<rparr>"
    by simp
  then show ?thesis
    using h s l exampleRequest_marshalled by (simp add: exampleRequest_def)
qed

text \<open>
  The two conditions are needed. A request with a nil serial number is not marshalled:
  \<open>asn1.Marshal\<close> refuses a nil \<open>*big.Int\<close>. A request with an issuer name hash of
  \<open>2^31\<close> bytes is marshalled, and \<open>ParseRequest\<close> refuses the result: the reader
  takes no length of \<open>2^31\<close> or more.
\<close>

theorem request_round_trip_fails:
  "Marshal \<lparr>HashAlgorithm = SHA1, IssuerNameHash = [], IssuerKeyHash = [],
            SerialNumber = None, Extensions = []\<rparr>
     = Inl (StructuralError ''empty integer'')
   \<and> \<not> isl (Marshal \<lparr>HashAlgorithm = SHA1, IssuerNameHash = replicate (2 ^ 31) 0,
                       IssuerKeyHash = [], SerialNumber = Some 0, Extensions = []\<rparr>)
   \<and> ParseRequest (\<lambda>bytes. Inr [])
        (projr (Marshal \<lparr>HashAlgorithm = SHA1, IssuerNameHash = replicate (2 ^ 31) 0,
                         IssuerKeyHash = [], SerialNumber = Some 0, Extensions = []\<rparr>))
       = Inl (StructuralError ''length too large'')"
proof -
  have o: "getOIDFromHashAlgorithm SHA1 = Some oidSHA1"
    by (simp add: getOIDFromHashAlgorithm_cases)
  have m: "Marshal \<lparr>HashAlgorithm = SHA1, IssuerNameHash = replicate (2 ^ 31) 0,
                    IssuerKeyHash = [], SerialNumber = Some 0, Extensions = []\<rparr>
             = Inr (requestOctets oidSHA1 (replicate (2 ^ 31) 0) [] 0)"
    by (simp add: Marshal_octets o)
  have l: "length (replicate (2 ^ 31) (0 :: byte)) = 2147483648" by simp
  show ?thesis
    unfolding m using requestOctets_too_large [OF l]
    by (simp add: Marshal_octets o)
qed

text \<open>
  Claim C10, as the code has it. \<open>Marshal\<close> does not read the \<open>Extensions\<close> of the
  request: it returns the same result for every value of the field, the empty list
  included. So when \<open>Marshal\<close> returns bytes, and they are fewer than \<open>2^31\<close>,
  \<open>ParseRequest\<close> applied to them returns the request with an empty \<open>Extensions\<close>
  list, whatever the original \<open>Extensions\<close> were.
\<close>

theorem marshal_ignores_extensions:
  "Marshal (req\<lparr>Extensions := exts\<rparr>) = Marshal (req\<lparr>Extensions := []\<rparr>)
   \<and> (Marshal (req\<lparr>Extensions := exts\<rparr>) = Inr der \<and> length der < 2 ^ 31 \<longrightarrow>
        ParseRequest rdn der = Inr (req\<lparr>Extensions := []\<rparr>))"
proof -
  have a: "Marshal (req\<lparr>Extensions := exts\<rparr>) = Marshal (req\<lparr>Extensions := []\<rparr>)"
    by (simp add: Marshal_def split: option.split)
  have b: "ParseRequest rdn der = Inr (req\<lparr>Extensions := []\<rparr>)"
    if "Marshal (req\<lparr>Extensions := exts\<rparr>) = Inr der" and "length der < 2 ^ 31"
    using ParseRequest_Marshal [OF that, of rdn] by simp
  from a b show ?thesis by blast
qed

text \<open>The SHA-256 request with one extension is written as the same 36 bytes, and read
  back with no extension.\<close>

theorem marshal_ignores_extensions_witness:
  "Marshal (exampleRequest\<lparr>Extensions := [exampleExtension]\<rparr>) = Inr exampleRequestDER
   \<and> length exampleRequestDER < 2 ^ 31
   \<and> ParseRequest (\<lambda>bytes. Inr []) exampleRequestDER = Inr (exampleRequest\<lparr>Extensions := []\<rparr>)
   \<and> Extensions (exampleRequest\<lparr>Extensions := [exampleExtension]\<rparr>) \<noteq> []"
proof -
  have e: "exampleRequest\<lparr>Extensions := []\<rparr> = exampleRequest" by (simp add: exampleRequest_def)
  have l: "length exampleRequestDER < 2 ^ 31" by (simp add: exampleRequestDER_def)
  note t = marshal_ignores_extensions [where req = exampleRequest and exts = "[exampleExtension]"
      and der = exampleRequestDER and rdn = "\<lambda>bytes. Inr []"]
  from t have m: "Marshal (exampleRequest\<lparr>Extensions := [exampleExtension]\<rparr>) = Inr exampleRequestDER"
    using exampleRequest_marshalled by (simp only: e)
  with t l show ?thesis by simp
qed

text \<open>
  Without the bound on the size the parser does not return a request: a request with an
  extension and an issuer name hash of \<open>2^31\<close> bytes is marshalled, and
  \<open>ParseRequest\<close> returns an error for the result.
\<close>

theorem oversize_request_not_parsed:
  "\<not> isl (Marshal \<lparr>HashAlgorithm = SHA1, IssuerNameHash = replicate (2 ^ 31) 0xFF,
                     IssuerKeyHash = [], SerialNumber = Some 0,
                     Extensions = [exampleExtension]\<rparr>)
   \<and> ParseRequest (\<lambda>bytes. Inr [])
        (projr (Marshal \<lparr>HashAlgorithm = SHA1, IssuerNameHash = replicate (2 ^ 31) 0xFF,
                         IssuerKeyHash = [], SerialNumber = Some 0,
                         Extensions = [exampleExtension]\<rparr>))
       = Inl (StructuralError ''length too large'')"
proof -
  have o: "getOIDFromHashAlgorithm SHA1 = Some oidSHA1"
    by (simp add: getOIDFromHashAlgorithm_cases)
  have m: "Marshal \<lparr>HashAlgorithm = SHA1, IssuerNameHash = replicate (2 ^ 31) 0xFF,
                    IssuerKeyHash = [], SerialNumber = Some 0,
                    Extensions = [exampleExtension]\<rparr>
             = Inr (requestOctets oidSHA1 (replicate (2 ^ 31) 0xFF) [] 0)"
    by (simp add: Marshal_octets o)
  have l: "length (replicate (2 ^ 31) (0xFF :: byte)) = 2147483648" by simp
  show ?thesis
    unfolding m using requestOctets_too_large [OF l] by simp
qed

end
